(* ===== verification/Prelude.thy ===== *)
theory Prelude
  imports Main "HOL-Library.AList"
begin

text \<open>
  Shared ground of the development: the collections of facts the component theories
  unfold by name, and the generic lemmas on lists, association lists and maps that the
  models of the Python built-ins and of the catalogue rest on.  Nothing here is specific
  to the survey schema.
\<close>

section \<open>Fact collections\<close>

named_theorems py_defs
  \<open>defining equations of the modelled Python built-ins (lists and dicts)\<close>

named_theorems question_defs
  \<open>defining equations of the catalogue's question records\<close>

named_theorems builder_defs
  \<open>defining equations of the four category builders and of the schema constructor\<close>

named_theorems query_defs
  \<open>defining equations of the query operations of the schema\<close>

section \<open>Names for the model's types\<close>

type_synonym 'a pylist = "'a list"
type_synonym ('k, 'v) pydict = "('k \<times> 'v) list"

abbreviation keys_of :: "('k, 'v) pydict \<Rightarrow> 'k list" where
  "keys_of d \<equiv> map fst d"

abbreviation distinct_keys :: "('k, 'v) pydict \<Rightarrow> bool" where
  "distinct_keys d \<equiv> distinct (map fst d)"

section \<open>Lists\<close>

lemma filter_eq_self_iff: "filter P xs = xs \<longleftrightarrow> (\<forall>x \<in> set xs. P x)"
  by (induction xs) (auto simp: filter_id_conv dest: filter_eq_ConsD)

lemma filter_eq_Nil_iff: "filter P xs = [] \<longleftrightarrow> (\<forall>x \<in> set xs. \<not> P x)"
  by (simp add: filter_empty_conv)

lemma filter_mono_set:
  assumes "\<And>x. x \<in> set xs \<Longrightarrow> P x \<Longrightarrow> Q x"
  shows "set (filter P xs) \<subseteq> set (filter Q xs)"
  using assms by auto

lemma length_filter_mem_distinct:
  assumes "distinct xs" and "distinct ys" and "set xs \<subseteq> set ys"
  shows "length (filter (\<lambda>y. y \<in> set xs) ys) = length xs"
proof -
  have "length (filter (\<lambda>y. y \<in> set xs) ys) = card ({y. y \<in> set xs} \<inter> set ys)"
    using assms(2) by (rule distinct_length_filter)
  also have "{y. y \<in> set xs} \<inter> set ys = set xs"
    using assms(3) by auto
  finally show ?thesis
    using assms(1) by (simp add: distinct_card)
qed

lemma distinct_keys_filter [simp, intro]:
  "distinct_keys d \<Longrightarrow> distinct_keys (filter P d)"
  by (simp add: distinct_map_filter)

lemma distinct_keys_append:
  "distinct_keys (d @ e) \<longleftrightarrow>
     distinct_keys d \<and> distinct_keys e \<and> set (keys_of d) \<inter> set (keys_of e) = {}"
  by simp

lemma keys_of_map_value [simp]: "keys_of (map (\<lambda>(k, v). (k, f k v)) d) = keys_of d"
  by (induction d) auto

section \<open>Association lists as maps\<close>

lemma map_of_rev_distinct:
  "distinct_keys d \<Longrightarrow> map_of (rev d) = map_of d"
  by (rule map_of_inject_set [THEN iffD2]) (simp_all add: distinct_rev rev_map [symmetric])

lemma map_of_filter_distinct:
  assumes "distinct_keys d"
  shows "map_of (filter (\<lambda>(k, v). P k v) d) k =
           (case map_of d k of None \<Rightarrow> None | Some v \<Rightarrow> if P k v then Some v else None)"
  using assms
proof (induction d)
  case Nil
  then show ?case by simp
next
  case (Cons p d)
  obtain a b where p: "p = (a, b)" by (cases p)
  from Cons.prems p have notin: "a \<notin> fst ` set d" and dist: "distinct_keys d"
    by auto
  from notin have none: "map_of d a = None"
    by (simp add: map_of_eq_None_iff)
  from notin have "map_of (filter (\<lambda>(k, v). P k v) d) a = None"
    by (auto simp: map_of_eq_None_iff)
  with Cons.IH [OF dist] none p show ?case
    by (auto split: option.splits)
qed

lemma map_of_Some_iff_mem:
  "distinct_keys d \<Longrightarrow> map_of d k = Some v \<longleftrightarrow> (k, v) \<in> set d"
  by (rule map_of_eq_Some_iff)

lemma map_of_map_value:
  "map_of (map (\<lambda>(k, v). (k, f v)) d) k = map_option f (map_of d k)"
  by (induction d) auto

section \<open>Folding updates into an association list\<close>

lemma update_fresh: "k \<notin> set (keys_of d) \<Longrightarrow> AList.update k v d = d @ [(k, v)]"
  by (induction d) auto

lemma set_update_subset: "set (AList.update k v d) \<subseteq> insert (k, v) (set d)"
  by (induction d) auto

lemma fold_update_distinct:
  "distinct_keys d \<Longrightarrow> distinct_keys (fold (\<lambda>(k, v). AList.update k v) e d)"
  by (induction e arbitrary: d) (auto simp: distinct_update)

lemma fold_update_map_of:
  "map_of (fold (\<lambda>(k, v). AList.update k v) e d) = map_of d ++ map_of (rev e)"
proof (induction e arbitrary: d)
  case Nil
  then show ?case by simp
next
  case (Cons p e)
  obtain k v where p: "p = (k, v)" by (cases p)
  have "map_of (fold (\<lambda>(k, v). AList.update k v) e (AList.update k v d))
          = (map_of d)(k \<mapsto> v) ++ map_of (rev e)"
    by (simp only: Cons.IH update_conv')
  also have "\<dots> = map_of d ++ map_of (rev e @ [(k, v)])"
    by (rule ext) (simp add: map_add_def split: option.split)
  finally show ?case
    using p by simp
qed

lemma fold_update_append:
  assumes "distinct_keys e" and "set (keys_of d) \<inter> set (keys_of e) = {}"
  shows "fold (\<lambda>(k, v). AList.update k v) e d = d @ e"
  using assms
proof (induction e arbitrary: d)
  case Nil
  then show ?case by simp
next
  case (Cons p e)
  obtain k v where p: "p = (k, v)" by (cases p)
  from Cons.prems p have fresh: "k \<notin> set (keys_of d)" and k_e: "k \<notin> set (keys_of e)"
    and dist: "distinct_keys e" and disj: "set (keys_of d) \<inter> set (keys_of e) = {}"
    by auto
  from k_e disj have "set (keys_of (d @ [(k, v)])) \<inter> set (keys_of e) = {}"
    by auto
  with dist have "fold (\<lambda>(k, v). AList.update k v) e (d @ [(k, v)]) = (d @ [(k, v)]) @ e"
    by (rule Cons.IH)
  with fresh p show ?case
    by (simp add: update_fresh)
qed

lemma set_fold_update_subset:
  "set (fold (\<lambda>(k, v). AList.update k v) e d) \<subseteq> set d \<union> set e"
proof (induction e arbitrary: d)
  case Nil
  then show ?case by simp
next
  case (Cons p e)
  obtain k v where p: "p = (k, v)" by (cases p)
  have "set (fold (\<lambda>(k, v). AList.update k v) e (AList.update k v d))
          \<subseteq> set (AList.update k v d) \<union> set e"
    by (rule Cons.IH)
  also have "\<dots> \<subseteq> insert (k, v) (set d) \<union> set e"
    using set_update_subset [of k v d] by auto
  finally show ?case using p by auto
qed

lemma fold_update_keys:
  assumes "distinct_keys e"
  shows "keys_of (fold (\<lambda>(k, v). AList.update k v) e d) =
           keys_of d @ filter (\<lambda>k. k \<notin> set (keys_of d)) (keys_of e)"
  using assms
proof (induction e arbitrary: d)
  case Nil
  then show ?case by simp
next
  case (Cons p e)
  obtain k v where p: "p = (k, v)" by (cases p)
  from Cons.prems p have k_e: "k \<notin> set (keys_of e)" and dist: "distinct_keys e"
    by auto
  note IH = Cons.IH [OF dist, of "AList.update k v d"]
  show ?case
  proof (cases "k \<in> set (keys_of d)")
    case True
    with IH p show ?thesis
      by (simp add: update_keys)
  next
    case False
    from k_e have "filter (\<lambda>x. x \<noteq> k \<and> x \<notin> set (keys_of d)) (keys_of e)
        = filter (\<lambda>x. x \<notin> set (keys_of d)) (keys_of e)"
      by (intro filter_cong) auto
    with False IH p show ?thesis
      by (simp add: update_keys)
  qed
qed

end
