(* ===== verification/PyList.thy ===== *)
theory PyList
  imports Prelude
begin

text \<open>
  The Python list built-ins that the schema module calls, with their failure cases written
  out as values: \<^verbatim>\<open>x in xs\<close>, \<^verbatim>\<open>len(xs)\<close>, \<^verbatim>\<open>xs.index(x)\<close> (raises
  \<^verbatim>\<open>ValueError\<close> on a missing element) and \<^verbatim>\<open>xs[i]\<close> (raises \<^verbatim>\<open>IndexError\<close>
  out of range, counts from the end for a negative index).  The lemmas characterise each
  result, so that callers never unfold the recursion.
\<close>

section \<open>Exceptions\<close>

datatype py_error = ValueError | IndexError | KeyError

type_synonym 'a py_result = "py_error + 'a"

section \<open>Operations\<close>

definition list_contains :: "'a pylist \<Rightarrow> 'a \<Rightarrow> bool" where
  "list_contains xs x = List.member xs x"

definition list_len :: "'a pylist \<Rightarrow> int" where
  "list_len xs = int (length xs)"

fun list_index :: "'a pylist \<Rightarrow> 'a \<Rightarrow> nat py_result" where
  "list_index [] x = Inl ValueError"
| "list_index (y # ys) x =
     (if y = x then Inr 0
      else case list_index ys x of Inl e \<Rightarrow> Inl e | Inr i \<Rightarrow> Inr (Suc i))"

definition list_getitem :: "'a pylist \<Rightarrow> int \<Rightarrow> 'a py_result" where
  "list_getitem xs i =
     (let n = list_len xs; j = (if i < 0 then n + i else i)
      in if 0 \<le> j \<and> j < n then Inr (xs ! nat j) else Inl IndexError)"

lemmas [py_defs] = list_contains_def list_len_def list_getitem_def

section \<open>Membership and length\<close>

lemma list_contains_iff [simp]: "list_contains xs x \<longleftrightarrow> x \<in> set xs"
  by (simp add: list_contains_def)

lemma list_len_nonneg [simp]: "0 \<le> list_len xs"
  by (simp add: list_len_def)

lemma list_len_less_iff [simp]: "int i < list_len xs \<longleftrightarrow> i < length xs"
  by (simp add: list_len_def)

lemma list_len_ge_iff: "k \<le> list_len xs \<longleftrightarrow> nat k \<le> length xs"
  by (auto simp: list_len_def)

section \<open>Index of the first occurrence\<close>

lemma list_index_Inl_iff: "list_index xs x = Inl e \<longleftrightarrow> x \<notin> set xs \<and> e = ValueError"
  by (induction xs) (auto split: sum.splits)

lemma list_index_mem:
  assumes "x \<in> set xs"
  obtains i where "list_index xs x = Inr i"
  using assms by (cases "list_index xs x") (auto simp: list_index_Inl_iff)

lemma list_index_Inr_D:
  "list_index xs x = Inr i \<Longrightarrow> i < length xs \<and> xs ! i = x \<and> x \<notin> set (take i xs)"
proof (induction xs arbitrary: i)
  case Nil
  then show ?case by simp
next
  case (Cons y ys)
  show ?case
  proof (cases "y = x")
    case True
    with Cons.prems show ?thesis by simp
  next
    case False
    with Cons.prems obtain j where j: "list_index ys x = Inr j" and i: "i = Suc j"
      by (auto split: sum.splits)
    from Cons.IH [OF j] False i show ?thesis by simp
  qed
qed

lemma list_index_first:
  "i < length xs \<Longrightarrow> xs ! i = x \<Longrightarrow> x \<notin> set (take i xs) \<Longrightarrow> list_index xs x = Inr i"
proof (induction xs arbitrary: i)
  case Nil
  then show ?case by simp
next
  case (Cons y ys)
  show ?case
  proof (cases i)
    case 0
    with Cons.prems show ?thesis by simp
  next
    case (Suc j)
    with Cons.prems have neq: "y \<noteq> x" and "j < length ys" and "ys ! j = x"
      and "x \<notin> set (take j ys)"
      by auto
    then have "list_index ys x = Inr j"
      by (intro Cons.IH)
    with neq Suc show ?thesis by simp
  qed
qed

lemma list_index_nth_distinct:
  assumes "distinct xs" and "i < length xs"
  shows "list_index xs (xs ! i) = Inr i"
proof (rule list_index_first)
  show "xs ! i \<notin> set (take i xs)"
  proof
    assume "xs ! i \<in> set (take i xs)"
    then obtain j where "j < i" and "take i xs ! j = xs ! i"
      using assms(2) by (auto simp: in_set_conv_nth)
    with assms show False
      by (auto simp: distinct_conv_nth)
  qed
qed (use assms in simp_all)

section \<open>Subscript\<close>

lemma list_getitem_nat:
  "list_getitem xs (int i) = (if i < length xs then Inr (xs ! i) else Inl IndexError)"
  by (simp add: list_getitem_def list_len_def)

lemma list_getitem_negative:
  "i < 0 \<Longrightarrow> list_getitem xs i =
     (if - i \<le> list_len xs then Inr (xs ! nat (list_len xs + i)) else Inl IndexError)"
  by (auto simp: list_getitem_def Let_def list_len_def)

lemma list_getitem_Inr_mem: "list_getitem xs i = Inr x \<Longrightarrow> x \<in> set xs"
  by (auto simp: list_getitem_def Let_def list_len_def split: if_splits)

lemma list_getitem_index:
  "list_index xs x = Inr i \<Longrightarrow> list_getitem xs (int i) = Inr x"
  by (auto simp: list_getitem_nat dest: list_index_Inr_D)

section \<open>Summary of \<open>list_index\<close>\<close>

text \<open>
  \<^verbatim>\<open>xs.index(x)\<close> returns the position of the first occurrence of \<open>x\<close> and
  raises \<^verbatim>\<open>ValueError\<close>, and nothing else, exactly when \<open>x\<close> does not occur.
\<close>

lemma list_index_first_occurrence:
  "(list_index xs x = Inr i \<longleftrightarrow> i < length xs \<and> xs ! i = x \<and> x \<notin> set (take i xs)) \<and>
   (list_index xs x = Inl e \<longleftrightarrow> x \<notin> set xs \<and> e = ValueError)"
  by (auto dest: list_index_Inr_D intro: list_index_first simp: list_index_Inl_iff)

end
