(* ===== verification/PyDict.thy ===== *)
theory PyDict
  imports PyList
begin

text \<open>
  Python's \<^verbatim>\<open>dict\<close> as the schema module uses it: an insertion-ordered table, modelled
  as an association list whose keys are distinct (\<open>wf_dict\<close>).  Each built-in the
  module calls is one definition: the empty display \<^verbatim>\<open>{}\<close>, a display with entries,
  \<^verbatim>\<open>d[k] = v\<close>, \<^verbatim>\<open>d.update(e)\<close>, \<^verbatim>\<open>d.items()\<close>, \<^verbatim>\<open>len(d)\<close>, \<^verbatim>\<open>d[k]\<close> and the
  filtering comprehension \<^verbatim>\<open>{k: v for k, v in d.items() if c}\<close>.

  Four groups of lemmas follow.  Every operation yields a well-formed dict.  Every
  operation refines the corresponding operation on finite maps under the abstraction
  \<open>dict_abs\<close>.  On well-formed arguments the operations have simple list forms
  (a display is its entry list, a comprehension is a \<open>filter\<close>, an update with fresh
  keys is an append), which is what fixes the iteration order of the results.  And the
  operations commute with \<open>dict_map_values\<close>, a change of the values that keeps the
  keys, which is how a dict of references is related to the dict of the objects.
\<close>

section \<open>Operations\<close>

definition dict_empty :: "('k, 'v) pydict" where
  "dict_empty = []"

definition dict_items :: "('k, 'v) pydict \<Rightarrow> ('k \<times> 'v) pylist" where
  "dict_items d = d"

definition dict_len :: "('k, 'v) pydict \<Rightarrow> int" where
  "dict_len d = list_len (dict_items d)"

definition dict_setitem :: "('k, 'v) pydict \<Rightarrow> 'k \<Rightarrow> 'v \<Rightarrow> ('k, 'v) pydict" where
  "dict_setitem d k v = AList.update k v d"

definition dict_update :: "('k, 'v) pydict \<Rightarrow> ('k, 'v) pydict \<Rightarrow> ('k, 'v) pydict" where
  "dict_update d other = fold (\<lambda>(k, v) acc. dict_setitem acc k v) (dict_items other) d"

definition dict_literal :: "('k \<times> 'v) list \<Rightarrow> ('k, 'v) pydict" where
  "dict_literal entries = fold (\<lambda>(k, v) acc. dict_setitem acc k v) entries dict_empty"

definition dict_comprehension :: "('k \<Rightarrow> 'v \<Rightarrow> bool) \<Rightarrow> ('k, 'v) pydict \<Rightarrow> ('k, 'v) pydict" where
  "dict_comprehension cond d =
     fold (\<lambda>(k, v) acc. dict_setitem acc k v)
       (filter (\<lambda>(k, v). cond k v) (dict_items d)) dict_empty"

definition dict_getitem :: "('k, 'v) pydict \<Rightarrow> 'k \<Rightarrow> 'v py_result" where
  "dict_getitem d k = (case map_of d k of None \<Rightarrow> Inl KeyError | Some v \<Rightarrow> Inr v)"

lemmas [py_defs] = dict_empty_def dict_items_def dict_len_def dict_setitem_def
  dict_update_def dict_literal_def dict_comprehension_def dict_getitem_def

section \<open>Well-formedness and abstraction\<close>

definition wf_dict :: "('k, 'v) pydict \<Rightarrow> bool" where
  "wf_dict d = distinct_keys d"

definition dict_abs :: "('k, 'v) pydict \<Rightarrow> ('k \<rightharpoonup> 'v)" where
  "dict_abs d = map_of d"

definition dict_eq :: "('k, 'v) pydict \<Rightarrow> ('k, 'v) pydict \<Rightarrow> bool" where
  "dict_eq d e = (set (dict_items d) = set (dict_items e))"

definition map_filter_kv :: "('k \<Rightarrow> 'v \<Rightarrow> bool) \<Rightarrow> ('k \<rightharpoonup> 'v) \<Rightarrow> ('k \<rightharpoonup> 'v)" where
  "map_filter_kv cond m k =
     (case m k of None \<Rightarrow> None | Some v \<Rightarrow> if cond k v then Some v else None)"

definition dict_map_values :: "('v \<Rightarrow> 'w) \<Rightarrow> ('k, 'v) pydict \<Rightarrow> ('k, 'w) pydict" where
  "dict_map_values f d = map (\<lambda>(k, v). (k, f v)) d"

lemma fold_setitem_conv:
  "fold (\<lambda>(k, v) acc. dict_setitem acc k v) e d = fold (\<lambda>(k, v). AList.update k v) e d"
  by (simp add: dict_setitem_def [abs_def] case_prod_unfold)

section \<open>Every operation yields a well-formed dict\<close>

lemma wf_dict_empty [simp, intro]: "wf_dict dict_empty"
  by (simp add: wf_dict_def dict_empty_def)

lemma wf_dict_setitem [simp, intro]: "wf_dict d \<Longrightarrow> wf_dict (dict_setitem d k v)"
  by (simp add: wf_dict_def dict_setitem_def distinct_update)

lemma wf_dict_update [simp, intro]: "wf_dict d \<Longrightarrow> wf_dict (dict_update d other)"
  by (simp add: wf_dict_def dict_update_def dict_items_def fold_setitem_conv
      fold_update_distinct)

lemma wf_dict_literal [simp, intro]: "wf_dict (dict_literal entries)"
  by (simp add: wf_dict_def dict_literal_def dict_empty_def fold_setitem_conv
      fold_update_distinct)

lemma wf_dict_comprehension [simp, intro]: "wf_dict (dict_comprehension cond d)"
  by (simp add: wf_dict_def dict_comprehension_def dict_empty_def fold_setitem_conv
      fold_update_distinct)

lemma wf_dict_filter [simp, intro]: "wf_dict d \<Longrightarrow> wf_dict (filter P d)"
  by (simp add: wf_dict_def)

lemma wf_dict_Cons [simp]: "wf_dict ((k, v) # d) \<longleftrightarrow> k \<notin> fst ` set d \<and> wf_dict d"
  by (simp add: wf_dict_def)

lemma wf_dict_Nil [simp]: "wf_dict []"
  by (simp add: wf_dict_def)

lemma wf_dict_append:
  "wf_dict (d @ e) \<longleftrightarrow> wf_dict d \<and> wf_dict e \<and> set (keys_of d) \<inter> set (keys_of e) = {}"
  by (simp add: wf_dict_def)

section \<open>List forms on well-formed arguments\<close>

lemma dict_update_disjoint:
  "wf_dict other \<Longrightarrow> set (keys_of d) \<inter> set (keys_of other) = {}
     \<Longrightarrow> dict_update d other = d @ other"
  by (simp add: wf_dict_def dict_update_def dict_items_def fold_setitem_conv
      fold_update_append)

lemma dict_literal_wf: "wf_dict entries \<Longrightarrow> dict_literal entries = entries"
  using fold_update_append [of entries "[]"]
  by (simp add: wf_dict_def dict_literal_def dict_empty_def fold_setitem_conv)

lemma dict_comprehension_wf:
  "wf_dict d \<Longrightarrow> dict_comprehension cond d = filter (\<lambda>(k, v). cond k v) d"
  using fold_update_append [of "filter (\<lambda>(k, v). cond k v) d" "[]"]
  by (simp add: wf_dict_def dict_comprehension_def dict_empty_def dict_items_def
      fold_setitem_conv)

lemma dict_update_empty_left: "wf_dict other \<Longrightarrow> dict_update dict_empty other = other"
  by (simp add: dict_update_disjoint dict_empty_def)

lemma dict_update_chain:
  assumes "distinct (keys_of a @ keys_of b @ keys_of c @ keys_of d)"
  shows "dict_update (dict_update (dict_update (dict_update dict_empty a) b) c) d
           = a @ b @ c @ d"
proof -
  from assms have wf: "wf_dict a" "wf_dict b" "wf_dict c" "wf_dict d"
    by (simp_all add: wf_dict_def)
  from assms have disj: "set (keys_of a) \<inter> set (keys_of b) = {}"
    "set (keys_of (a @ b)) \<inter> set (keys_of c) = {}"
    "set (keys_of (a @ b @ c)) \<inter> set (keys_of d) = {}"
    by auto
  show ?thesis
    using wf disj by (simp add: dict_update_empty_left dict_update_disjoint)
qed

lemma dict_update_empty_right [simp]: "dict_update d dict_empty = d"
  by (simp add: dict_update_def dict_items_def dict_empty_def)

lemma dict_setitem_fresh:
  "k \<notin> set (keys_of d) \<Longrightarrow> dict_setitem d k v = d @ [(k, v)]"
  by (simp add: dict_setitem_def update_fresh)

lemma keys_of_setitem:
  "keys_of (dict_setitem d k v) = (if k \<in> set (keys_of d) then keys_of d else keys_of d @ [k])"
  by (simp add: dict_setitem_def update_keys)

lemma keys_of_dict_update:
  "wf_dict other \<Longrightarrow> keys_of (dict_update d other) =
     keys_of d @ filter (\<lambda>k. k \<notin> set (keys_of d)) (keys_of other)"
  by (simp add: wf_dict_def dict_update_def dict_items_def fold_setitem_conv fold_update_keys)

lemma dict_len_eq [simp]: "dict_len d = int (length d)"
  by (simp add: dict_len_def dict_items_def list_len_def)

section \<open>Entries of a result come from the arguments\<close>

lemma set_dict_update_subset: "set (dict_update d other) \<subseteq> set d \<union> set other"
  by (simp add: dict_update_def dict_items_def fold_setitem_conv set_fold_update_subset)

lemma set_dict_literal_subset: "set (dict_literal entries) \<subseteq> set entries"
  using set_fold_update_subset [of entries "[]"]
  by (simp add: dict_literal_def dict_empty_def fold_setitem_conv)

lemma set_dict_comprehension_subset:
  "set (dict_comprehension cond d) \<subseteq> {(k, v). (k, v) \<in> set d \<and> cond k v}"
  using set_fold_update_subset [of "filter (\<lambda>(k, v). cond k v) d" "[]"]
  by (auto simp: dict_comprehension_def dict_empty_def dict_items_def fold_setitem_conv)

section \<open>Refinement of finite maps\<close>

lemma dict_abs_empty [simp]: "dict_abs dict_empty = Map.empty"
  by (simp add: dict_abs_def dict_empty_def)

lemma dict_abs_setitem [simp]: "dict_abs (dict_setitem d k v) = (dict_abs d)(k \<mapsto> v)"
  by (simp add: dict_abs_def dict_setitem_def update_conv')

lemma dict_abs_update_rev: "dict_abs (dict_update d other) = dict_abs d ++ map_of (rev other)"
  by (simp only: dict_abs_def dict_update_def dict_items_def fold_setitem_conv
      fold_update_map_of)

lemma dict_abs_update [simp]:
  "wf_dict other \<Longrightarrow> dict_abs (dict_update d other) = dict_abs d ++ dict_abs other"
  by (simp only: dict_abs_update_rev) (simp add: dict_abs_def wf_dict_def map_of_rev_distinct)

lemma dict_abs_comprehension [simp]:
  "wf_dict d \<Longrightarrow> dict_abs (dict_comprehension cond d) = map_filter_kv cond (dict_abs d)"
  by (rule ext)
    (simp add: dict_comprehension_wf dict_abs_def map_filter_kv_def wf_dict_def
      map_of_filter_distinct)

lemma dict_abs_Some_iff: "wf_dict d \<Longrightarrow> dict_abs d k = Some v \<longleftrightarrow> (k, v) \<in> set d"
  by (simp add: dict_abs_def wf_dict_def)

lemma dom_dict_abs [simp]: "dom (dict_abs d) = set (keys_of d)"
  by (simp add: dict_abs_def dom_map_of_conv_image_fst)

lemma dict_eq_abs: "wf_dict d \<Longrightarrow> wf_dict e \<Longrightarrow> dict_eq d e \<longleftrightarrow> dict_abs d = dict_abs e"
  by (simp add: dict_eq_def dict_items_def dict_abs_def wf_dict_def map_of_inject_set)

lemma dict_getitem_abs:
  "dict_getitem d k = (case dict_abs d k of None \<Rightarrow> Inl KeyError | Some v \<Rightarrow> Inr v)"
  by (simp add: dict_getitem_def dict_abs_def)

lemma dict_getitem_Inr_iff:
  "wf_dict d \<Longrightarrow> dict_getitem d k = Inr v \<longleftrightarrow> (k, v) \<in> set (dict_items d)"
  by (simp add: dict_getitem_abs dict_items_def dict_abs_Some_iff [symmetric]
      split: option.split)

lemma dict_getitem_KeyError_iff: "dict_getitem d k = Inl e \<longleftrightarrow> k \<notin> set (keys_of d) \<and> e = KeyError"
proof (cases "map_of d k")
  case None
  then have "k \<notin> set (keys_of d)"
    by (simp add: map_of_eq_None_iff)
  with None show ?thesis
    by (auto simp: dict_getitem_def)
next
  case (Some v)
  then have "k \<in> set (keys_of d)"
    by (force dest: map_of_SomeD)
  with Some show ?thesis
    by (simp add: dict_getitem_def)
qed

lemma dict_abs_literal: "dict_abs (dict_literal entries) = map_of (rev entries)"
  by (simp add: dict_abs_def dict_literal_def dict_empty_def fold_setitem_conv
      fold_update_map_of)

lemma set_keys_dict_literal: "set (keys_of (dict_literal entries)) = set (keys_of entries)"
proof -
  have "dom (dict_abs (dict_literal entries)) = dom (map_of (rev entries))"
    by (simp only: dict_abs_literal)
  then show ?thesis
    by (simp add: dom_map_of_conv_image_fst)
qed

section \<open>The operations commute with a change of the values\<close>

text \<open>
  The operations look at the keys only, so applying a function to every value before an
  operation or after it gives the same dict.  This is what relates a dict of references
  to the dict of the objects referred to.
\<close>

lemma dict_map_values_Nil [simp]: "dict_map_values f [] = []"
  by (simp add: dict_map_values_def)

lemma dict_map_values_Cons [simp]:
  "dict_map_values f ((k, v) # d) = (k, f v) # dict_map_values f d"
  by (simp add: dict_map_values_def)

lemma dict_map_values_append [simp]:
  "dict_map_values f (d @ e) = dict_map_values f d @ dict_map_values f e"
  by (simp add: dict_map_values_def)

lemma dict_map_values_empty [simp]: "dict_map_values f dict_empty = dict_empty"
  by (simp add: dict_empty_def)

lemma keys_of_dict_map_values [simp]: "keys_of (dict_map_values f d) = keys_of d"
  by (induction d) auto

lemma length_dict_map_values [simp]: "length (dict_map_values f d) = length d"
  by (simp add: dict_map_values_def)

lemma wf_dict_map_values [simp]: "wf_dict (dict_map_values f d) \<longleftrightarrow> wf_dict d"
  by (simp add: wf_dict_def)

lemma dict_map_values_cong:
  "(\<And>k v. (k, v) \<in> set d \<Longrightarrow> f v = g v) \<Longrightarrow> dict_map_values f d = dict_map_values g d"
  by (auto simp: dict_map_values_def)

lemma dict_map_values_setitem:
  "dict_map_values f (dict_setitem d k v) = dict_setitem (dict_map_values f d) k (f v)"
  by (induction d) (auto simp: dict_setitem_def)

lemma dict_map_values_fold_setitem:
  "dict_map_values f (fold (\<lambda>(k, v) acc. dict_setitem acc k v) e d) =
     fold (\<lambda>(k, v) acc. dict_setitem acc k v) (dict_map_values f e) (dict_map_values f d)"
  by (induction e arbitrary: d) (auto simp: dict_map_values_setitem)

lemma dict_map_values_update:
  "dict_map_values f (dict_update d other) =
     dict_update (dict_map_values f d) (dict_map_values f other)"
  by (simp add: dict_update_def dict_items_def dict_map_values_fold_setitem)

lemma dict_map_values_filter:
  "dict_map_values f (filter (\<lambda>(k, v). cond k (f v)) d) =
     filter (\<lambda>(k, v). cond k v) (dict_map_values f d)"
  by (induction d) auto

lemma dict_map_values_comprehension:
  "dict_map_values f (dict_comprehension (\<lambda>k v. cond k (f v)) d) =
     dict_comprehension cond (dict_map_values f d)"
  by (simp add: dict_comprehension_def dict_items_def dict_empty_def
      dict_map_values_fold_setitem dict_map_values_filter)

lemma fold_setitem_map_values:
  assumes "wf_dict d" and "set (keys_of acc) \<inter> set (keys_of d) = {}"
  shows "fold (\<lambda>(k, v) acc. dict_setitem acc k (f v)) d acc = acc @ dict_map_values f d"
  using assms
proof (induction d arbitrary: acc)
  case Nil
  show ?case by simp
next
  case (Cons p d)
  obtain k v where p: "p = (k, v)" by (cases p)
  from Cons.prems p have fresh: "k \<notin> set (keys_of acc)" and wf: "wf_dict d"
    and disj: "set (keys_of (acc @ [(k, f v)])) \<inter> set (keys_of d) = {}"
    by auto
  from Cons.IH [OF wf disj] fresh p show ?case
    by (simp add: dict_setitem_fresh)
qed

lemma dict_abs_map_values:
  "dict_abs (dict_map_values f d) k = map_option f (dict_abs d k)"
  by (simp add: dict_map_values_def dict_abs_def map_of_map_value)

section \<open>Filtering a map\<close>

lemma map_filter_kv_Some_iff [simp]:
  "map_filter_kv cond m k = Some v \<longleftrightarrow> m k = Some v \<and> cond k v"
  by (auto simp: map_filter_kv_def split: option.splits)

lemma map_filter_kv_le: "map_filter_kv cond m \<subseteq>\<^sub>m m"
  by (auto simp: map_le_def dom_def)

lemma map_filter_kv_True [simp]: "map_filter_kv (\<lambda>_ _. True) m = m"
  by (rule ext) (simp add: map_filter_kv_def split: option.split)

lemma map_filter_kv_False [simp]: "map_filter_kv (\<lambda>_ _. False) m = Map.empty"
  by (rule ext) (simp add: map_filter_kv_def split: option.split)

section \<open>Displays with repeated keys\<close>

text \<open>
  A dict display with a repeated key keeps the value written last, and a display
  whose keys are all different is the list of its entries as written.
\<close>

lemma dict_literal_semantics:
  "dict_abs (dict_literal entries) = map_of (rev entries) \<and>
   set (dict_literal entries) \<subseteq> set entries \<and>
   (if wf_dict entries then dict_literal entries = entries
    else length (dict_literal entries) < length entries)"
proof (intro conjI)
  show "dict_abs (dict_literal entries) = map_of (rev entries)"
    by (rule dict_abs_literal)
  show "set (dict_literal entries) \<subseteq> set entries"
    by (rule set_dict_literal_subset)
  show "if wf_dict entries then dict_literal entries = entries
    else length (dict_literal entries) < length entries"
  proof (cases "wf_dict entries")
    case True
    then show ?thesis by (simp add: dict_literal_wf)
  next
    case False
    then have "card (set (keys_of entries)) \<noteq> length (keys_of entries)"
      using card_distinct [of "keys_of entries"] unfolding wf_dict_def by blast
    with card_length [of "keys_of entries"]
    have less: "card (set (keys_of entries)) < length (keys_of entries)"
      by (rule le_neq_trans)
    have "distinct (keys_of (dict_literal entries))"
      using wf_dict_literal [of entries] by (simp add: wf_dict_def)
    then have "length (keys_of (dict_literal entries)) = card (set (keys_of entries))"
      using distinct_card [of "keys_of (dict_literal entries)"]
      by (simp only: set_keys_dict_literal)
    with less False show ?thesis
      by simp
  qed
qed

end
