(* ===== verification/DataModel.thy ===== *)
theory DataModel
  imports PyDict
begin

text \<open>
  The entity definitions of \<^verbatim>\<open>unified_data_schema.py\<close>: the enumeration
  \<^verbatim>\<open>QuestionType\<close>, the enumeration \<^verbatim>\<open>ResponseScale\<close> whose members carry ordered
  lists of option labels, the dataclass \<^verbatim>\<open>QuestionMapping\<close>, and the four fields of
  the class \<^verbatim>\<open>UnifiedSchema\<close>.  An enumeration is a
  datatype with one constructor per member together with the function that gives a
  member's \<^verbatim>\<open>.value\<close>; the lemmas show that no two members share a value, which is
  what makes the members distinct objects in Python (members with equal values would be
  aliases of one another).
\<close>

section \<open>QuestionType\<close>

datatype QuestionType =
    LIKERT_5
  | LIKERT_4
  | LIKERT_3
  | MULTIPLE_CHOICE
  | MULTIPLE_SELECT
  | OPEN_TEXT
  | DEMOGRAPHIC
  | BINARY

fun QuestionType_value :: "QuestionType \<Rightarrow> string" where
  "QuestionType_value LIKERT_5 = ''likert_5''"
| "QuestionType_value LIKERT_4 = ''likert_4''"
| "QuestionType_value LIKERT_3 = ''likert_3''"
| "QuestionType_value MULTIPLE_CHOICE = ''multiple_choice''"
| "QuestionType_value MULTIPLE_SELECT = ''multiple_select''"
| "QuestionType_value OPEN_TEXT = ''open_text''"
| "QuestionType_value DEMOGRAPHIC = ''demographic''"
| "QuestionType_value BINARY = ''binary''"

definition QuestionType_members :: "QuestionType pylist" where
  "QuestionType_members =
     [LIKERT_5, LIKERT_4, LIKERT_3, MULTIPLE_CHOICE, MULTIPLE_SELECT, OPEN_TEXT,
      DEMOGRAPHIC, BINARY]"

section \<open>ResponseScale\<close>

datatype ResponseScale =
    AGREEMENT_5
  | AGREEMENT_5_ALT
  | FREQUENCY_4
  | FREQUENCY_4_ALT
  | YES_NO_UNSURE
  | YES_NO_DONT_KNOW
  | CREDIT_3
  | FAMILIARITY_3

fun ResponseScale_value :: "ResponseScale \<Rightarrow> string pylist" where
  "ResponseScale_value AGREEMENT_5 =
     [''Strongly disagree'', ''Somewhat disagree'', ''Neutral'', ''Somewhat agree'',
      ''Strongly agree'']"
| "ResponseScale_value AGREEMENT_5_ALT =
     [''Strongly disagree'', ''Somewhat disagree'', ''Neutral / No opinion'',
      ''Somewhat agree'', ''Strongly agree'']"
| "ResponseScale_value FREQUENCY_4 = [''Never'', ''Rarely'', ''Sometimes'', ''Frequently'']"
| "ResponseScale_value FREQUENCY_4_ALT = [''Never'', ''Rarely'', ''Often'', ''Always'']"
| "ResponseScale_value YES_NO_UNSURE = [''Yes'', ''No'', ''Unsure'']"
| "ResponseScale_value YES_NO_DONT_KNOW = [''Yes'', ''No'', ''Don't know'']"
| "ResponseScale_value CREDIT_3 = [''No, too little credit'', ''Yes'', ''No, too much credit'']"
| "ResponseScale_value FAMILIARITY_3 =
     [''I am familiar with the data principles'',
      ''I have previously heard of the data principles but I am not familiar with them'',
      ''I have never heard of the data principles before now'']"

definition ResponseScale_members :: "ResponseScale pylist" where
  "ResponseScale_members =
     [AGREEMENT_5, AGREEMENT_5_ALT, FREQUENCY_4, FREQUENCY_4_ALT, YES_NO_UNSURE,
      YES_NO_DONT_KNOW, CREDIT_3, FAMILIARITY_3]"

section \<open>QuestionMapping\<close>

record QuestionMapping =
  question_id :: string
  question_text :: string
  question_type :: QuestionType
  response_scale :: "string pylist"
  years_available :: "int pylist"
  column_mappings :: "(int, string) pydict"
  notes_opt :: "string option"

type_synonym question_dict = "(string, QuestionMapping) pydict"

section \<open>UnifiedSchema\<close>

record UnifiedSchema =
  core_questions :: question_dict
  demographic_questions :: question_dict
  supplementary_questions :: question_dict
  historical_questions :: question_dict

section \<open>The members are exactly the constructors\<close>

lemma QuestionType_members_UNIV: "set QuestionType_members = UNIV"
proof -
  have "x \<in> set QuestionType_members" for x
    by (cases x) (simp_all add: QuestionType_members_def)
  then show ?thesis by blast
qed

lemma ResponseScale_members_UNIV: "set ResponseScale_members = UNIV"
proof -
  have "x \<in> set ResponseScale_members" for x
    by (cases x) (simp_all add: ResponseScale_members_def)
  then show ?thesis by blast
qed

lemma distinct_QuestionType_members: "distinct QuestionType_members"
  by (simp add: QuestionType_members_def)

lemma distinct_ResponseScale_members: "distinct ResponseScale_members"
  by (simp add: ResponseScale_members_def)

section \<open>The enumerations as finite, enumerable types\<close>

text \<open>
  Python's enumeration classes are iterable in definition order.  The class \<open>enum\<close>
  carries that enumeration, so that quantifiers over members are executable.
\<close>

instantiation QuestionType :: enum
begin

definition "enum_QuestionType = QuestionType_members"

definition "enum_all_QuestionType P = list_all P QuestionType_members"

definition "enum_ex_QuestionType P = list_ex P QuestionType_members"

instance
proof
  show "UNIV = set (enum_class.enum :: QuestionType list)"
    by (simp add: enum_QuestionType_def QuestionType_members_UNIV)
  show "distinct (enum_class.enum :: QuestionType list)"
    by (simp add: enum_QuestionType_def distinct_QuestionType_members)
  show "enum_class.enum_all P = Ball (UNIV :: QuestionType set) P" for P
    by (simp add: enum_all_QuestionType_def list_all_iff QuestionType_members_UNIV)
  show "enum_class.enum_ex P = Bex (UNIV :: QuestionType set) P" for P
    by (simp add: enum_ex_QuestionType_def list_ex_iff QuestionType_members_UNIV)
qed

end

instantiation ResponseScale :: enum
begin

definition "enum_ResponseScale = ResponseScale_members"

definition "enum_all_ResponseScale P = list_all P ResponseScale_members"

definition "enum_ex_ResponseScale P = list_ex P ResponseScale_members"

instance
proof
  show "UNIV = set (enum_class.enum :: ResponseScale list)"
    by (simp add: enum_ResponseScale_def ResponseScale_members_UNIV)
  show "distinct (enum_class.enum :: ResponseScale list)"
    by (simp add: enum_ResponseScale_def distinct_ResponseScale_members)
  show "enum_class.enum_all P = Ball (UNIV :: ResponseScale set) P" for P
    by (simp add: enum_all_ResponseScale_def list_all_iff ResponseScale_members_UNIV)
  show "enum_class.enum_ex P = Bex (UNIV :: ResponseScale set) P" for P
    by (simp add: enum_ex_ResponseScale_def list_ex_iff ResponseScale_members_UNIV)
qed

end

section \<open>No two members share a value\<close>

lemma distinct_QuestionType_values: "distinct (map QuestionType_value QuestionType_members)"
  by (simp add: QuestionType_members_def)

lemma distinct_ResponseScale_values:
  "distinct (map ResponseScale_value ResponseScale_members)"
  by (simp add: ResponseScale_members_def)

lemma inj_on_members:
  assumes "distinct (map f xs)" and "set xs = UNIV"
  shows "inj f"
proof -
  from assms(1) have "inj_on f (set xs)"
    by (simp add: distinct_map)
  with assms(2) show ?thesis by simp
qed

text \<open>
  C38. Python turns enumeration members with equal values into aliases of one member.  The
  values of \<^verbatim>\<open>QuestionType\<close> are pairwise different and so are those of
  \<^verbatim>\<open>ResponseScale\<close>, hence every declared name is a member of its own and a member
  is determined by its value.
\<close>

theorem enum_members_not_aliased:
  "inj QuestionType_value \<and> inj ResponseScale_value \<and>
   length (remdups (map QuestionType_value QuestionType_members)) = 8 \<and>
   length (remdups (map ResponseScale_value ResponseScale_members)) = 8"
proof -
  have "inj QuestionType_value"
    by (rule inj_on_members [OF distinct_QuestionType_values QuestionType_members_UNIV])
  moreover have "inj ResponseScale_value"
    by (rule inj_on_members [OF distinct_ResponseScale_values ResponseScale_members_UNIV])
  moreover have "length (map QuestionType_value QuestionType_members) = 8"
    and "length (map ResponseScale_value ResponseScale_members) = 8"
    by (simp_all add: QuestionType_members_def ResponseScale_members_def)
  ultimately show ?thesis
    using distinct_QuestionType_values distinct_ResponseScale_values
    by (simp add: distinct_remdups_id)
qed

section \<open>Shape of the named scales\<close>

lemma ResponseScale_value_distinct: "distinct (ResponseScale_value s)"
  by (cases s) simp_all

lemma ResponseScale_value_length:
  "length (ResponseScale_value s) =
     (if s \<in> {AGREEMENT_5, AGREEMENT_5_ALT} then 5
      else if s \<in> {FREQUENCY_4, FREQUENCY_4_ALT} then 4 else 3)"
  by (cases s) simp_all

end
