(* ===== verification/Validation.thy ===== *)
theory Validation
  imports DataModel
begin

text \<open>
  The invariants that the data model promises of every \<^verbatim>\<open>QuestionMapping\<close> and of a
  schema object as a whole, as executable predicates.  The module never checks them at
  run time.  For one question: the dict key of the entry is its \<^verbatim>\<open>question_id\<close>, its
  years are non-empty, without repetition and among the years the survey ran, and the keys
  of its column mapping are exactly its years.  For a schema object: every category is a
  well-formed dict of valid questions and no question id occurs in two categories.

  Two conventions of the data are predicates as well: a question typed as an n-point
  Likert item has n response options (the comments of \<^verbatim>\<open>QuestionType\<close> give n), and a
  column name ends in the wildcard \<open>*\<close> exactly for the multiple-select questions.

  The lemmas are the ones the later theories share: validity of appended and filtered
  dicts, and that a valid question has a column for exactly its years.
\<close>

section \<open>Representation invariant of a schema object\<close>

definition wf_schema :: "UnifiedSchema \<Rightarrow> bool" where
  "wf_schema s \<longleftrightarrow>
     wf_dict (core_questions s) \<and> wf_dict (demographic_questions s) \<and>
     wf_dict (supplementary_questions s) \<and> wf_dict (historical_questions s)"

definition all_question_ids :: "UnifiedSchema \<Rightarrow> string list" where
  "all_question_ids s =
     keys_of (core_questions s) @ keys_of (demographic_questions s) @
     keys_of (supplementary_questions s) @ keys_of (historical_questions s)"

definition unique_ids :: "UnifiedSchema \<Rightarrow> bool" where
  "unique_ids s \<longleftrightarrow> distinct (all_question_ids s)"

section \<open>Validity of questions and schemas\<close>

definition survey_years :: "int list" where
  "survey_years = [2017, 2019, 2021, 2022, 2023, 2024]"

definition valid_question :: "string \<Rightarrow> QuestionMapping \<Rightarrow> bool" where
  "valid_question qid q \<longleftrightarrow>
     question_id q = qid \<and>
     years_available q \<noteq> [] \<and> distinct (years_available q) \<and>
     set (years_available q) \<subseteq> set survey_years \<and>
     wf_dict (column_mappings q) \<and>
     set (keys_of (column_mappings q)) = set (years_available q)"

definition valid_questions :: "question_dict \<Rightarrow> bool" where
  "valid_questions d = list_all (\<lambda>(qid, q). valid_question qid q) d"

definition valid_schema :: "UnifiedSchema \<Rightarrow> bool" where
  "valid_schema s \<longleftrightarrow>
     unique_ids s \<and>
     valid_questions (core_questions s) \<and> valid_questions (demographic_questions s) \<and>
     valid_questions (supplementary_questions s) \<and> valid_questions (historical_questions s)"

section \<open>Conventions of the data\<close>

fun likert_points :: "QuestionType \<Rightarrow> nat option" where
  "likert_points LIKERT_5 = Some 5"
| "likert_points LIKERT_4 = Some 4"
| "likert_points LIKERT_3 = Some 3"
| "likert_points _ = None"

definition scale_fits_type :: "QuestionMapping \<Rightarrow> bool" where
  "scale_fits_type q =
     (case likert_points (question_type q) of
        None \<Rightarrow> True
      | Some n \<Rightarrow> length (response_scale q) = n)"

definition is_wildcard :: "string \<Rightarrow> bool" where
  "is_wildcard col \<longleftrightarrow> col \<noteq> [] \<and> last col = CHR ''*''"

definition wildcard_convention :: "QuestionMapping \<Rightarrow> bool" where
  "wildcard_convention q =
     list_all (\<lambda>(year, col). is_wildcard col = (question_type q = MULTIPLE_SELECT))
       (dict_items (column_mappings q))"

definition chronological :: "QuestionMapping \<Rightarrow> bool" where
  "chronological q \<longleftrightarrow>
     sorted_wrt (<) (years_available q) \<and>
     keys_of (column_mappings q) = years_available q"

section \<open>Shared lemmas\<close>

lemma distinct_survey_years [simp]: "distinct survey_years"
  by (simp add: survey_years_def)

lemma unique_ids_wf_schema: "unique_ids s \<Longrightarrow> wf_schema s"
  by (simp add: unique_ids_def all_question_ids_def wf_schema_def wf_dict_def)

lemma valid_schema_unique_ids: "valid_schema s \<Longrightarrow> unique_ids s"
  by (simp add: valid_schema_def)

lemma valid_schema_wf_schema: "valid_schema s \<Longrightarrow> wf_schema s"
  by (simp add: valid_schema_def unique_ids_wf_schema)

lemma valid_questions_Nil [simp]: "valid_questions []"
  by (simp add: valid_questions_def)

lemma valid_questions_Cons [simp]:
  "valid_questions ((qid, q) # d) \<longleftrightarrow> valid_question qid q \<and> valid_questions d"
  by (simp add: valid_questions_def)

lemma valid_questions_append [simp]:
  "valid_questions (d @ e) \<longleftrightarrow> valid_questions d \<and> valid_questions e"
  by (simp add: valid_questions_def)

lemma valid_questions_filter: "valid_questions d \<Longrightarrow> valid_questions (filter P d)"
  by (auto simp: valid_questions_def list_all_iff)

lemma valid_questions_mem:
  "valid_questions d \<Longrightarrow> (qid, q) \<in> set d \<Longrightarrow> valid_question qid q"
  by (auto simp: valid_questions_def list_all_iff)

lemma chronological_valid_columns:
  "chronological q \<Longrightarrow>
     distinct (years_available q) \<and> wf_dict (column_mappings q) \<and>
     set (keys_of (column_mappings q)) = set (years_available q)"
  by (simp add: chronological_def wf_dict_def strict_sorted_iff)

section \<open>A valid question has a column for exactly its years\<close>

lemma valid_question_column_iff:
  assumes "valid_question qid q"
  shows "(\<exists>col. dict_getitem (column_mappings q) year = Inr col)
           \<longleftrightarrow> year \<in> set (years_available q)"
proof -
  from assms have keys: "set (keys_of (column_mappings q)) = set (years_available q)"
    by (simp add: valid_question_def)
  show ?thesis
  proof (cases "dict_getitem (column_mappings q) year")
    case (Inl e)
    then have "year \<notin> set (keys_of (column_mappings q))"
      by (simp add: dict_getitem_KeyError_iff)
    with Inl keys show ?thesis by simp
  next
    case (Inr col)
    then have "dict_getitem (column_mappings q) year \<noteq> Inl KeyError"
      by simp
    then have "year \<in> set (keys_of (column_mappings q))"
      by (simp add: dict_getitem_KeyError_iff)
    with Inr keys show ?thesis by simp
  qed
qed

lemma valid_question_no_column:
  assumes "valid_question qid q" and "year \<notin> set (years_available q)"
  shows "dict_getitem (column_mappings q) year = Inl KeyError"
  using assms by (simp add: valid_question_def dict_getitem_KeyError_iff)

end
