(* ===== verification/Catalogue.thy ===== *)
theory Catalogue
  imports Validation
begin

text \<open>
  The literal data of \<^verbatim>\<open>UnifiedSchema\<close>: one record per \<^verbatim>\<open>QuestionMapping(...)\<close>
  expression, named after its question id, then the four builder methods
  \<^verbatim>\<open>_define_core_questions\<close>, \<^verbatim>\<open>_define_demographic_questions\<close>,
  \<^verbatim>\<open>_define_supplementary_questions\<close> and \<^verbatim>\<open>_define_historical_questions\<close> (each a
  dict display keyed by question id, none of them reads \<^verbatim>\<open>self\<close>) and the
  constructor \<^verbatim>\<open>__init__\<close>.  The field \<^verbatim>\<open>notes\<close> is called \<open>notes_opt\<close> here,
  since \<open>notes\<close> is reserved.

  The lemmas give each display as the list of its entries (its keys are distinct, so no
  entry is overwritten) and the tables of ids, years and columns that later proofs
  compute with.  The theorems show that the constructed schema satisfies the invariants
  and conventions of theory \<open>Validation\<close>.
\<close>

section \<open>Core questions\<close>

definition open_access_attitude :: QuestionMapping where
  "open_access_attitude = \<lparr>
     question_id = ''open_access_attitude'',
     question_text =
       ''Making research articles open access should be common scholarly practice'',
     question_type = LIKERT_5,
     response_scale = ResponseScale_value AGREEMENT_5,
     years_available = [2021, 2022, 2023, 2024],
     column_mappings = dict_literal
       [(2021, ''Q2.7_1''), (2022, ''Q2.11_1''), (2023, ''Q2.10.a''), (2024, ''Q12_1'')],
     notes_opt = Some ''Highest consistency across years - core trend indicator''\<rparr>"

definition open_data_attitude :: QuestionMapping where
  "open_data_attitude = \<lparr>
     question_id = ''open_data_attitude'',
     question_text =
       ''Making research data openly available should be common scholarly practice'',
     question_type = LIKERT_5,
     response_scale = ResponseScale_value AGREEMENT_5,
     years_available = [2021, 2022, 2023, 2024],
     column_mappings = dict_literal
       [(2021, ''Q2.7_2''), (2022, ''Q2.11_2''), (2023, ''Q2.10.b''), (2024, ''Q12_2'')],
     notes_opt = Some ''Core data sharing attitude - primary outcome measure''\<rparr>"

definition open_peer_review_attitude :: QuestionMapping where
  "open_peer_review_attitude = \<lparr>
     question_id = ''open_peer_review_attitude'',
     question_text =
       ''Making peer review open should be common scholarly practice'',
     question_type = LIKERT_5,
     response_scale = ResponseScale_value AGREEMENT_5,
     years_available = [2022, 2023, 2024],
     column_mappings = dict_literal
       [(2022, ''Q2.11_3''), (2023, ''Q2.10.c''), (2024, ''Q12_3'')],
     notes_opt = Some ''Introduced in 2022 - good trend indicator''\<rparr>"

definition preprinting_attitude :: QuestionMapping where
  "preprinting_attitude = \<lparr>
     question_id = ''preprinting_attitude'',
     question_text =
       ''Preprinting should be common scholarly practice'',
     question_type = LIKERT_5,
     response_scale = ResponseScale_value AGREEMENT_5,
     years_available = [2022, 2023, 2024],
     column_mappings = dict_literal
       [(2022, ''Q2.11_4''), (2023, ''Q2.10.d''), (2024, ''Q12_4'')],
     notes_opt = Some ''Introduced in 2022 - tracks preprint adoption attitudes''\<rparr>"

definition data_sharing_frequency :: QuestionMapping where
  "data_sharing_frequency = \<lparr>
     question_id = ''data_sharing_frequency'',
     question_text =
       ''How often have you made your research data openly available?'',
     question_type = LIKERT_4,
     response_scale = ResponseScale_value FREQUENCY_4,
     years_available = [2017],
     column_mappings = dict_literal
       [(2017, ''Q2.2'')],
     notes_opt = Some ''Core behavioral measure - need to map similar questions in other years''\<rparr>"

definition credit_for_sharing :: QuestionMapping where
  "credit_for_sharing = \<lparr>
     question_id = ''credit_for_sharing'',
     question_text =
       ''Do you think researchers currently get sufficient credit for sharing data?'',
     question_type = MULTIPLE_CHOICE,
     response_scale = ResponseScale_value CREDIT_3,
     years_available = [2019, 2022],
     column_mappings = dict_literal
       [(2019, ''Q2.4''), (2022, ''Q3.2'')],
     notes_opt = Some ''Important motivational factor''\<rparr>"

definition fair_principles_awareness :: QuestionMapping where
  "fair_principles_awareness = \<lparr>
     question_id = ''fair_principles_awareness'',
     question_text =
       ''How familiar are you with FAIR data principles (Findable, Accessible, Interoperable, Reusable)?'',
     question_type = MULTIPLE_CHOICE,
     response_scale = ResponseScale_value FAMILIARITY_3,
     years_available = [2022, 2023],
     column_mappings = dict_literal
       [(2022, ''Q3.1_1''), (2023, ''Q2.11.a'')],
     notes_opt = Some ''Key knowledge indicator for data management''\<rparr>"

definition define_core_questions :: question_dict where
  "define_core_questions = dict_literal
     [(''open_access_attitude'', open_access_attitude),
      (''open_data_attitude'', open_data_attitude),
      (''open_peer_review_attitude'', open_peer_review_attitude),
      (''preprinting_attitude'', preprinting_attitude),
      (''data_sharing_frequency'', data_sharing_frequency),
      (''credit_for_sharing'', credit_for_sharing),
      (''fair_principles_awareness'', fair_principles_awareness)]"

section \<open>Demographic questions\<close>

definition job_title :: QuestionMapping where
  "job_title = \<lparr>
     question_id = ''job_title'',
     question_text =
       ''Which of the following job titles best applies to you?'',
     question_type = MULTIPLE_CHOICE,
     response_scale =
       [''Professor'', ''Associate Professor'', ''Research Scientist'', ''PhD Student'',
        ''Postdoc'', ''Other''],
     years_available = [2017, 2019, 2022, 2023, 2024],
     column_mappings = dict_literal
       [(2017, ''Q10.5''), (2019, ''Q6.5''), (2022, ''Q2.6''), (2023, ''Q2.6''),
        (2024, ''Q7'')],
     notes_opt = Some ''Response categories vary by year but can be harmonized''\<rparr>"

definition research_area :: QuestionMapping where
  "research_area = \<lparr>
     question_id = ''research_area'',
     question_text =
       ''Which of the following best describes your primary area of interest?'',
     question_type = MULTIPLE_CHOICE,
     response_scale =
       [''Medicine'', ''Engineering'', ''Physics'', ''Biology'', ''Other''],
     years_available = [2021, 2022, 2023, 2024],
     column_mappings = dict_literal
       [(2021, ''Q2.4''), (2022, ''Q2.7''), (2023, ''Q2.7''), (2024, ''Q8'')],
     notes_opt = Some ''Consistent categories with some variation''\<rparr>"

definition publication_history :: QuestionMapping where
  "publication_history = \<lparr>
     question_id = ''publication_history'',
     question_text =
       ''When was the last occasion that you published or submitted a manuscript to a journal?'',
     question_type = MULTIPLE_CHOICE,
     response_scale =
       [''Within the last year'', ''1-2 years ago'', ''3-5 years ago'',
        ''More than 5 years ago'', ''Never''],
     years_available = [2021, 2022, 2023, 2024],
     column_mappings = dict_literal
       [(2021, ''Q2.1''), (2022, ''Q2.3''), (2023, ''Q2.1''), (2024, ''Q4'')],
     notes_opt = Some ''Good indicator of research activity level''\<rparr>"

definition organization_type :: QuestionMapping where
  "organization_type = \<lparr>
     question_id = ''organization_type'',
     question_text =
       ''Which type of organisation do you work in?'',
     question_type = MULTIPLE_CHOICE,
     response_scale =
       [''University'', ''Research institution'', ''Medical school'', ''Private company'',
        ''Other''],
     years_available = [2022, 2023, 2024],
     column_mappings = dict_literal
       [(2022, ''Q2.4''), (2023, ''Q2.4''), (2024, ''Q5'')],
     notes_opt = Some ''Institutional context indicator''\<rparr>"

definition define_demographic_questions :: question_dict where
  "define_demographic_questions = dict_literal
     [(''job_title'', job_title), (''research_area'', research_area),
      (''publication_history'', publication_history),
      (''organization_type'', organization_type)]"

section \<open>Supplementary questions\<close>

definition funder_mandate_support :: QuestionMapping where
  "funder_mandate_support = \<lparr>
     question_id = ''funder_mandate_support'',
     question_text =
       ''Should funders make the sharing of research data part of their requirements for awarding grants?'',
     question_type = LIKERT_3,
     response_scale = ResponseScale_value YES_NO_DONT_KNOW,
     years_available = [2019],
     column_mappings = dict_literal
       [(2019, ''Q2.2'')],
     notes_opt = Some ''Important policy question - 2019 focus''\<rparr>"

definition national_mandate_support :: QuestionMapping where
  "national_mandate_support = \<lparr>
     question_id = ''national_mandate_support'',
     question_text =
       ''How supportive would you be of a national mandate for making primary research data openly available?'',
     question_type = LIKERT_5,
     response_scale =
       [''Strongly oppose'', ''Somewhat oppose'', ''Neutral'', ''Somewhat support'',
        ''Strongly support''],
     years_available = [2019],
     column_mappings = dict_literal
       [(2019, ''Q2.3'')],
     notes_opt = Some ''Policy attitude indicator''\<rparr>"

definition care_principles_awareness :: QuestionMapping where
  "care_principles_awareness = \<lparr>
     question_id = ''care_principles_awareness'',
     question_text =
       ''How familiar are you with CARE principles for Indigenous Data Governance?'',
     question_type = MULTIPLE_CHOICE,
     response_scale = ResponseScale_value FAMILIARITY_3,
     years_available = [2022],
     column_mappings = dict_literal
       [(2022, ''Q3.1_2'')],
     notes_opt = Some ''Ethical data governance awareness''\<rparr>"

definition define_supplementary_questions :: question_dict where
  "define_supplementary_questions = dict_literal
     [(''funder_mandate_support'', funder_mandate_support),
      (''national_mandate_support'', national_mandate_support),
      (''care_principles_awareness'', care_principles_awareness)]"

section \<open>Historical questions\<close>

definition data_sharing_motivations :: QuestionMapping where
  "data_sharing_motivations = \<lparr>
     question_id = ''data_sharing_motivations'',
     question_text =
       ''What circumstances would motivate you to share your data?'',
     question_type = MULTIPLE_SELECT,
     response_scale =
       [''Institution requirement'', ''Funder requirement'', ''Transparency'', ''Credit'',
        ''Other''],
     years_available = [2017],
     column_mappings = dict_literal
       [(2017, ''Q2.3_*'')],
     notes_opt = Some ''Comprehensive motivation analysis - 2017 baseline''\<rparr>"

definition data_sharing_effort :: QuestionMapping where
  "data_sharing_effort = \<lparr>
     question_id = ''data_sharing_effort'',
     question_text =
       ''How much effort is typically required to make your data re-usable by others?'',
     question_type = LIKERT_4,
     response_scale =
       [''No effort'', ''Little effort'', ''Some effort'', ''A lot of effort''],
     years_available = [2017],
     column_mappings = dict_literal
       [(2017, ''Q2.5'')],
     notes_opt = Some ''Barrier assessment - effort required''\<rparr>"

definition data_ownership_before_pub :: QuestionMapping where
  "data_ownership_before_pub = \<lparr>
     question_id = ''data_ownership_before_pub'',
     question_text =
       ''Who owns the data you produce during the course of your research before publication?'',
     question_type = MULTIPLE_SELECT,
     response_scale =
       [''You'', ''Your institution'', ''Your funder'', ''Other''],
     years_available = [2017],
     column_mappings = dict_literal
       [(2017, ''Q2.6_*'')],
     notes_opt = Some ''Ownership understanding - pre-publication''\<rparr>"

definition data_ownership_after_pub :: QuestionMapping where
  "data_ownership_after_pub = \<lparr>
     question_id = ''data_ownership_after_pub'',
     question_text =
       ''Who owns the data you produce during the course of your research after publication?'',
     question_type = MULTIPLE_SELECT,
     response_scale =
       [''You'', ''Your institution'', ''Your funder'', ''Other''],
     years_available = [2017],
     column_mappings = dict_literal
       [(2017, ''Q2.7_*'')],
     notes_opt = Some ''Ownership understanding - post-publication''\<rparr>"

definition define_historical_questions :: question_dict where
  "define_historical_questions = dict_literal
     [(''data_sharing_motivations'', data_sharing_motivations),
      (''data_sharing_effort'', data_sharing_effort),
      (''data_ownership_before_pub'', data_ownership_before_pub),
      (''data_ownership_after_pub'', data_ownership_after_pub)]"

section \<open>The schema object\<close>

definition UnifiedSchema_init :: UnifiedSchema where
  "UnifiedSchema_init = \<lparr>
     core_questions = define_core_questions,
     demographic_questions = define_demographic_questions,
     supplementary_questions = define_supplementary_questions,
     historical_questions = define_historical_questions\<rparr>"

lemmas [question_defs] =
  open_access_attitude_def open_data_attitude_def open_peer_review_attitude_def
  preprinting_attitude_def data_sharing_frequency_def credit_for_sharing_def
  fair_principles_awareness_def job_title_def research_area_def publication_history_def
  organization_type_def funder_mandate_support_def national_mandate_support_def
  care_principles_awareness_def data_sharing_motivations_def data_sharing_effort_def
  data_ownership_before_pub_def data_ownership_after_pub_def

lemmas [builder_defs] =
  define_core_questions_def define_demographic_questions_def
  define_supplementary_questions_def define_historical_questions_def
  UnifiedSchema_init_def

section \<open>The constructed schema satisfies the invariants\<close>

text \<open>
  C5. The schema built by \<^verbatim>\<open>UnifiedSchema()\<close> satisfies every invariant of the data
  model: question ids are unique across the four categories, each entry is stored under
  its own \<^verbatim>\<open>question_id\<close>, its years are non-empty, pairwise different and among the
  survey years 2017, 2019 and 2021 to 2024, and the keys of its \<^verbatim>\<open>column_mappings\<close> are
  exactly its \<^verbatim>\<open>years_available\<close>.
\<close>

theorem catalogue_valid: "valid_schema UnifiedSchema_init"
  by (simp add: valid_schema_def unique_ids_def all_question_ids_def valid_questions_def
      valid_question_def survey_years_def wf_dict_def builder_defs question_defs py_defs)

text \<open>
  C35. In every question of the catalogue the years are listed in strictly ascending
  order and the column mapping lists the same years in the same order, so iterating
  \<^verbatim>\<open>column_mappings\<close> visits the years chronologically.
\<close>

theorem catalogue_chronological:
  "list_all (\<lambda>(qid, q). chronological q)
     (define_core_questions @ define_demographic_questions @
      define_supplementary_questions @ define_historical_questions)"
  by (simp add: chronological_def builder_defs question_defs py_defs)

text \<open>
  C36. Every question typed \<^verbatim>\<open>LIKERT_5\<close>, \<^verbatim>\<open>LIKERT_4\<close> or \<^verbatim>\<open>LIKERT_3\<close> has a response
  scale of five, four or three options; the other question types put no constraint on the
  scale.
\<close>

theorem likert_scale_sizes:
  "list_all (\<lambda>(qid, q). scale_fits_type q)
     (define_core_questions @ define_demographic_questions @
      define_supplementary_questions @ define_historical_questions)"
  by (simp add: scale_fits_type_def builder_defs question_defs py_defs)

text \<open>
  C37. A source column of the catalogue carries the wildcard suffix \<open>*\<close> if and only if
  its question is of type \<^verbatim>\<open>MULTIPLE_SELECT\<close>: exactly the questions whose answers fan
  out over a family of columns are marked so.
\<close>

theorem wildcard_columns_multiselect:
  "list_all (\<lambda>(qid, q). wildcard_convention q)
     (define_core_questions @ define_demographic_questions @
      define_supplementary_questions @ define_historical_questions)"
  by (simp add: wildcard_convention_def is_wildcard_def builder_defs question_defs py_defs)

section \<open>The displays as entry lists\<close>

text \<open>
  The keys of each display are distinct, so building it entry by entry overwrites nothing
  and the dict is the list of entries in the order written.
\<close>

lemma define_core_questions_entries:
  "define_core_questions =
     [(''open_access_attitude'', open_access_attitude),
      (''open_data_attitude'', open_data_attitude),
      (''open_peer_review_attitude'', open_peer_review_attitude),
      (''preprinting_attitude'', preprinting_attitude),
      (''data_sharing_frequency'', data_sharing_frequency),
      (''credit_for_sharing'', credit_for_sharing),
      (''fair_principles_awareness'', fair_principles_awareness)]"
  by (simp add: define_core_questions_def py_defs)

lemma define_demographic_questions_entries:
  "define_demographic_questions =
     [(''job_title'', job_title), (''research_area'', research_area),
      (''publication_history'', publication_history),
      (''organization_type'', organization_type)]"
  by (simp add: define_demographic_questions_def py_defs)

lemma define_supplementary_questions_entries:
  "define_supplementary_questions =
     [(''funder_mandate_support'', funder_mandate_support),
      (''national_mandate_support'', national_mandate_support),
      (''care_principles_awareness'', care_principles_awareness)]"
  by (simp add: define_supplementary_questions_def py_defs)

lemma define_historical_questions_entries:
  "define_historical_questions =
     [(''data_sharing_motivations'', data_sharing_motivations),
      (''data_sharing_effort'', data_sharing_effort),
      (''data_ownership_before_pub'', data_ownership_before_pub),
      (''data_ownership_after_pub'', data_ownership_after_pub)]"
  by (simp add: define_historical_questions_def py_defs)

lemmas builder_entries =
  define_core_questions_entries define_demographic_questions_entries
  define_supplementary_questions_entries define_historical_questions_entries

section \<open>Field tables\<close>

text \<open>
  The fields the queries read, question by question.  Later proofs rewrite with these
  tables and leave the records themselves folded.
\<close>

lemma question_id_simps [simp]:
  "question_id open_access_attitude = ''open_access_attitude''"
  "question_id open_data_attitude = ''open_data_attitude''"
  "question_id open_peer_review_attitude = ''open_peer_review_attitude''"
  "question_id preprinting_attitude = ''preprinting_attitude''"
  "question_id data_sharing_frequency = ''data_sharing_frequency''"
  "question_id credit_for_sharing = ''credit_for_sharing''"
  "question_id fair_principles_awareness = ''fair_principles_awareness''"
  "question_id job_title = ''job_title''"
  "question_id research_area = ''research_area''"
  "question_id publication_history = ''publication_history''"
  "question_id organization_type = ''organization_type''"
  "question_id funder_mandate_support = ''funder_mandate_support''"
  "question_id national_mandate_support = ''national_mandate_support''"
  "question_id care_principles_awareness = ''care_principles_awareness''"
  "question_id data_sharing_motivations = ''data_sharing_motivations''"
  "question_id data_sharing_effort = ''data_sharing_effort''"
  "question_id data_ownership_before_pub = ''data_ownership_before_pub''"
  "question_id data_ownership_after_pub = ''data_ownership_after_pub''"
  by (simp_all add: question_defs)

lemma years_available_simps [simp]:
  "years_available open_access_attitude = [2021, 2022, 2023, 2024]"
  "years_available open_data_attitude = [2021, 2022, 2023, 2024]"
  "years_available open_peer_review_attitude = [2022, 2023, 2024]"
  "years_available preprinting_attitude = [2022, 2023, 2024]"
  "years_available data_sharing_frequency = [2017]"
  "years_available credit_for_sharing = [2019, 2022]"
  "years_available fair_principles_awareness = [2022, 2023]"
  "years_available job_title = [2017, 2019, 2022, 2023, 2024]"
  "years_available research_area = [2021, 2022, 2023, 2024]"
  "years_available publication_history = [2021, 2022, 2023, 2024]"
  "years_available organization_type = [2022, 2023, 2024]"
  "years_available funder_mandate_support = [2019]"
  "years_available national_mandate_support = [2019]"
  "years_available care_principles_awareness = [2022]"
  "years_available data_sharing_motivations = [2017]"
  "years_available data_sharing_effort = [2017]"
  "years_available data_ownership_before_pub = [2017]"
  "years_available data_ownership_after_pub = [2017]"
  by (simp_all add: question_defs)

lemma column_mappings_simps [simp]:
  "column_mappings open_access_attitude =
     [(2021, ''Q2.7_1''), (2022, ''Q2.11_1''), (2023, ''Q2.10.a''), (2024, ''Q12_1'')]"
  "column_mappings open_data_attitude =
     [(2021, ''Q2.7_2''), (2022, ''Q2.11_2''), (2023, ''Q2.10.b''), (2024, ''Q12_2'')]"
  "column_mappings open_peer_review_attitude =
     [(2022, ''Q2.11_3''), (2023, ''Q2.10.c''), (2024, ''Q12_3'')]"
  "column_mappings preprinting_attitude =
     [(2022, ''Q2.11_4''), (2023, ''Q2.10.d''), (2024, ''Q12_4'')]"
  "column_mappings data_sharing_frequency = [(2017, ''Q2.2'')]"
  "column_mappings credit_for_sharing = [(2019, ''Q2.4''), (2022, ''Q3.2'')]"
  "column_mappings fair_principles_awareness = [(2022, ''Q3.1_1''), (2023, ''Q2.11.a'')]"
  "column_mappings job_title =
     [(2017, ''Q10.5''), (2019, ''Q6.5''), (2022, ''Q2.6''), (2023, ''Q2.6''), (2024, ''Q7'')]"
  "column_mappings research_area =
     [(2021, ''Q2.4''), (2022, ''Q2.7''), (2023, ''Q2.7''), (2024, ''Q8'')]"
  "column_mappings publication_history =
     [(2021, ''Q2.1''), (2022, ''Q2.3''), (2023, ''Q2.1''), (2024, ''Q4'')]"
  "column_mappings organization_type = [(2022, ''Q2.4''), (2023, ''Q2.4''), (2024, ''Q5'')]"
  "column_mappings funder_mandate_support = [(2019, ''Q2.2'')]"
  "column_mappings national_mandate_support = [(2019, ''Q2.3'')]"
  "column_mappings care_principles_awareness = [(2022, ''Q3.1_2'')]"
  "column_mappings data_sharing_motivations = [(2017, ''Q2.3_*'')]"
  "column_mappings data_sharing_effort = [(2017, ''Q2.5'')]"
  "column_mappings data_ownership_before_pub = [(2017, ''Q2.6_*'')]"
  "column_mappings data_ownership_after_pub = [(2017, ''Q2.7_*'')]"
  by (simp_all add: question_defs py_defs)

section \<open>Invariants of the constructed schema, for later proofs\<close>

lemma wf_schema_init: "wf_schema UnifiedSchema_init"
  by (simp add: wf_schema_def UnifiedSchema_init_def builder_defs)

lemma unique_ids_init: "unique_ids UnifiedSchema_init"
  by (simp add: unique_ids_def all_question_ids_def UnifiedSchema_init_def builder_entries)

lemma valid_questions_builders:
  "valid_questions define_core_questions"
  "valid_questions define_demographic_questions"
  "valid_questions define_supplementary_questions"
  "valid_questions define_historical_questions"
  by (simp_all add: builder_entries valid_question_def survey_years_def)

lemma schema_init_simps [simp]:
  "core_questions UnifiedSchema_init = define_core_questions"
  "demographic_questions UnifiedSchema_init = define_demographic_questions"
  "supplementary_questions UnifiedSchema_init = define_supplementary_questions"
  "historical_questions UnifiedSchema_init = define_historical_questions"
  by (simp_all add: UnifiedSchema_init_def)

lemmas valid_init = valid_schema_def unique_ids_init valid_questions_builders


end
