(* ===== verification/Queries.thy ===== *)
theory Queries
  imports Catalogue
begin

text \<open>
  The read-only query methods of \<^verbatim>\<open>UnifiedSchema\<close>: \<^verbatim>\<open>get_all_questions\<close>,
  \<^verbatim>\<open>get_questions_by_year\<close>, \<^verbatim>\<open>get_longitudinal_questions\<close> (with its default
  argument) and \<^verbatim>\<open>get_core_trend_questions\<close>.  Each takes the schema object as its
  first argument and returns a fresh dict; none of them changes the object.

  The lemmas are stated for an arbitrary schema object.  They give the merge as a map
  union in which the later category wins, its key order, its list form when question ids
  are unique, each comprehension as a \<open>filter\<close> of the merge, and the relations between
  the queries: the years a question is reported for (\<open>reporting_years\<close>) against the
  number of years the longitudinal query counts, and the core trend questions against
  the longitudinal ones.
\<close>

section \<open>Operations\<close>

definition get_all_questions :: "UnifiedSchema \<Rightarrow> question_dict" where
  "get_all_questions self =
     (let all_questions = dict_empty;
          all_questions = dict_update all_questions (core_questions self);
          all_questions = dict_update all_questions (demographic_questions self);
          all_questions = dict_update all_questions (supplementary_questions self);
          all_questions = dict_update all_questions (historical_questions self)
      in all_questions)"

definition get_questions_by_year :: "UnifiedSchema \<Rightarrow> int \<Rightarrow> question_dict" where
  "get_questions_by_year self year =
     dict_comprehension (\<lambda>qid q. list_contains (years_available q) year)
       (get_all_questions self)"

definition get_longitudinal_questions :: "UnifiedSchema \<Rightarrow> int \<Rightarrow> question_dict" where
  "get_longitudinal_questions self min_years =
     dict_comprehension (\<lambda>qid q. list_len (years_available q) \<ge> min_years)
       (get_all_questions self)"

definition get_longitudinal_questions_default :: "UnifiedSchema \<Rightarrow> question_dict" where
  "get_longitudinal_questions_default self = get_longitudinal_questions self 2"

definition get_core_trend_questions :: "UnifiedSchema \<Rightarrow> question_dict" where
  "get_core_trend_questions self =
     dict_comprehension (\<lambda>qid q. list_len (years_available q) \<ge> 3) (core_questions self)"

section \<open>Number of years of a question\<close>

definition span :: "QuestionMapping \<Rightarrow> int" where
  "span q = list_len (years_available q)"

definition reporting_years :: "UnifiedSchema \<Rightarrow> string \<Rightarrow> QuestionMapping \<Rightarrow> int list" where
  "reporting_years s qid q =
     filter (\<lambda>year. (qid, q) \<in> set (get_questions_by_year s year)) survey_years"

lemmas [query_defs] = get_all_questions_def get_questions_by_year_def
  get_longitudinal_questions_def get_longitudinal_questions_default_def
  get_core_trend_questions_def

lemma span_nonneg [simp]: "0 \<le> span q"
  by (simp add: span_def)

lemma span_eq_length: "span q = int (length (years_available q))"
  by (simp add: span_def list_len_def)

section \<open>The merge of the four categories\<close>

lemma wf_get_all_questions [simp, intro]: "wf_dict (get_all_questions s)"
  by (simp add: get_all_questions_def Let_def)

lemma dict_abs_get_all_questions:
  assumes "wf_schema s"
  shows "dict_abs (get_all_questions s) =
           dict_abs (core_questions s) ++ dict_abs (demographic_questions s) ++
           dict_abs (supplementary_questions s) ++ dict_abs (historical_questions s)"
  using assms by (simp add: get_all_questions_def Let_def wf_schema_def)

lemma keys_of_get_all_questions:
  assumes "wf_schema s"
  shows "keys_of (get_all_questions s) =
    (keys_of (core_questions s) @
     filter (\<lambda>k. k \<notin> set (keys_of (core_questions s))) (keys_of (demographic_questions s)) @
     filter (\<lambda>k. k \<notin> set (keys_of (core_questions s)) \<and>
                k \<notin> set (keys_of (demographic_questions s)))
       (keys_of (supplementary_questions s)) @
     filter (\<lambda>k. k \<notin> set (keys_of (core_questions s)) \<and>
                k \<notin> set (keys_of (demographic_questions s)) \<and>
                k \<notin> set (keys_of (supplementary_questions s)))
       (keys_of (historical_questions s)))"
    (is "_ = ?rhs")
proof -
  have "keys_of (get_all_questions s) =
     keys_of (core_questions s) @
     filter (\<lambda>k. k \<notin> set (keys_of (core_questions s))) (keys_of (demographic_questions s)) @
     filter (\<lambda>k. k \<notin> set (keys_of (dict_update (core_questions s) (demographic_questions s))))
       (keys_of (supplementary_questions s)) @
     filter (\<lambda>k. k \<notin> set (keys_of (dict_update
         (dict_update (core_questions s) (demographic_questions s))
         (supplementary_questions s))))
       (keys_of (historical_questions s))"
    using assms
    by (simp add: get_all_questions_def Let_def wf_schema_def keys_of_dict_update
        dict_update_empty_left)
  also have "\<dots> = ?rhs"
    using assms
    by (intro arg_cong2 [where f = "(@)"] filter_cong refl)
      (auto simp: wf_schema_def keys_of_dict_update)
  finally show ?thesis .
qed

lemma set_keys_get_all_questions:
  assumes "wf_schema s"
  shows "set (keys_of (get_all_questions s)) = set (all_question_ids s)"
  using assms
  by (auto simp: get_all_questions_def Let_def wf_schema_def all_question_ids_def
      keys_of_dict_update dict_empty_def)

lemma get_all_questions_unique:
  assumes "unique_ids s"
  shows "get_all_questions s =
           core_questions s @ demographic_questions s @ supplementary_questions s @
           historical_questions s"
  using assms
  by (simp add: get_all_questions_def Let_def unique_ids_def all_question_ids_def
      dict_update_chain)

lemma get_all_questions_shadow:
  assumes "wf_schema s"
  shows "dict_abs (get_all_questions s) qid =
     (case dict_abs (historical_questions s) qid of Some q \<Rightarrow> Some q
      | None \<Rightarrow> (case dict_abs (supplementary_questions s) qid of Some q \<Rightarrow> Some q
      | None \<Rightarrow> (case dict_abs (demographic_questions s) qid of Some q \<Rightarrow> Some q
      | None \<Rightarrow> dict_abs (core_questions s) qid)))"
  by (simp add: dict_abs_get_all_questions [OF assms] map_add_def split: option.split)

section \<open>The comprehensions as filters of the merge\<close>

lemma get_questions_by_year_filter:
  "get_questions_by_year s year =
     filter (\<lambda>(qid, q). year \<in> set (years_available q)) (get_all_questions s)"
  by (simp add: get_questions_by_year_def dict_comprehension_wf)

lemma get_longitudinal_questions_filter:
  "get_longitudinal_questions s min_years =
     filter (\<lambda>(qid, q). min_years \<le> span q) (get_all_questions s)"
  by (simp add: get_longitudinal_questions_def dict_comprehension_wf span_def)

lemma get_core_trend_questions_filter:
  "wf_dict (core_questions s) \<Longrightarrow>
     get_core_trend_questions s = filter (\<lambda>(qid, q). 3 \<le> span q) (core_questions s)"
  by (simp add: get_core_trend_questions_def dict_comprehension_wf span_def)

lemma wf_get_questions_by_year [simp, intro]: "wf_dict (get_questions_by_year s year)"
  by (simp add: get_questions_by_year_def)

lemma wf_get_longitudinal_questions [simp, intro]:
  "wf_dict (get_longitudinal_questions s min_years)"
  by (simp add: get_longitudinal_questions_def)

lemma wf_get_core_trend_questions [simp, intro]: "wf_dict (get_core_trend_questions s)"
  by (simp add: get_core_trend_questions_def)

section \<open>Lookup in the results\<close>

lemma get_questions_by_year_lookup:
  "dict_abs (get_questions_by_year s year) qid = Some q \<longleftrightarrow>
     dict_abs (get_all_questions s) qid = Some q \<and> year \<in> set (years_available q)"
  by (simp add: get_questions_by_year_def)

lemma get_longitudinal_questions_lookup:
  "dict_abs (get_longitudinal_questions s min_years) qid = Some q \<longleftrightarrow>
     dict_abs (get_all_questions s) qid = Some q \<and> min_years \<le> span q"
  by (simp add: get_longitudinal_questions_def span_def)

lemma get_core_trend_questions_lookup:
  "wf_dict (core_questions s) \<Longrightarrow>
     dict_abs (get_core_trend_questions s) qid = Some q \<longleftrightarrow>
       dict_abs (core_questions s) qid = Some q \<and> 3 \<le> span q"
  by (simp add: get_core_trend_questions_def span_def)

lemma mem_get_questions_by_year:
  "(qid, q) \<in> set (get_questions_by_year s year) \<longleftrightarrow>
     (qid, q) \<in> set (get_all_questions s) \<and> year \<in> set (years_available q)"
  by (auto simp: get_questions_by_year_filter)

lemma mem_get_longitudinal_questions:
  "(qid, q) \<in> set (get_longitudinal_questions s min_years) \<longleftrightarrow>
     (qid, q) \<in> set (get_all_questions s) \<and> min_years \<le> span q"
  by (auto simp: get_longitudinal_questions_filter)

section \<open>Thresholds\<close>

lemma get_longitudinal_questions_nonpositive:
  "min_years \<le> 0 \<Longrightarrow> get_longitudinal_questions s min_years = get_all_questions s"
  by (auto simp: get_longitudinal_questions_filter filter_eq_self_iff intro: order_trans)

lemma get_longitudinal_questions_refine:
  assumes "k \<le> m"
  shows "get_longitudinal_questions s m =
           filter (\<lambda>(qid, q). m \<le> span q) (get_longitudinal_questions s k)"
proof -
  have "(m \<le> span q \<and> k \<le> span q) = (m \<le> span q)" for q
    using assms by auto
  then show ?thesis
    by (simp add: get_longitudinal_questions_filter case_prod_unfold conj_commute)
qed

lemma get_longitudinal_questions_antimono:
  "k \<le> m \<Longrightarrow> set (get_longitudinal_questions s m) \<subseteq> set (get_longitudinal_questions s k)"
  by (auto simp: get_longitudinal_questions_filter)

lemma get_longitudinal_questions_above:
  assumes "\<And>qid q. (qid, q) \<in> set (get_all_questions s) \<Longrightarrow> span q < min_years"
  shows "get_longitudinal_questions s min_years = dict_empty"
proof -
  have "\<not> min_years \<le> span q" if "(qid, q) \<in> set (get_all_questions s)" for qid q
    using assms [OF that] by simp
  then show ?thesis
    by (auto simp: get_longitudinal_questions_filter filter_eq_Nil_iff dict_empty_def)
qed

section \<open>Core trend questions\<close>

lemma get_core_trend_questions_subset:
  "set (get_core_trend_questions s) \<subseteq> set (core_questions s)"
  using set_dict_comprehension_subset [of _ "core_questions s"]
  by (auto simp: get_core_trend_questions_def)

lemma get_core_trend_questions_span:
  "(qid, q) \<in> set (get_core_trend_questions s) \<Longrightarrow> 3 \<le> span q"
  using set_dict_comprehension_subset [of _ "core_questions s"]
  by (auto simp: get_core_trend_questions_def span_def)

lemma get_core_trend_questions_longitudinal:
  assumes "unique_ids s"
  shows "set (get_core_trend_questions s) \<subseteq> set (get_longitudinal_questions s 3)"
proof -
  from assms have "wf_dict (core_questions s)"
    using unique_ids_wf_schema by (simp add: wf_schema_def)
  then show ?thesis
    by (auto simp: get_core_trend_questions_filter get_longitudinal_questions_filter
        get_all_questions_unique [OF assms])
qed

section \<open>Validity carries over to the merge\<close>

lemma valid_get_all_questions: "valid_schema s \<Longrightarrow> valid_questions (get_all_questions s)"
  by (simp add: valid_schema_def get_all_questions_unique)

lemma valid_question_get_all:
  "valid_schema s \<Longrightarrow> (qid, q) \<in> set (get_all_questions s) \<Longrightarrow> valid_question qid q"
  by (auto intro: valid_questions_mem valid_get_all_questions)

section \<open>The merge of the constructed schema\<close>

lemma get_all_questions_init:
  "get_all_questions UnifiedSchema_init =
     define_core_questions @ define_demographic_questions @
     define_supplementary_questions @ define_historical_questions"
  by (simp add: get_all_questions_unique [OF unique_ids_init])

lemma span_simps [simp]:
  "span open_access_attitude = 4" "span open_data_attitude = 4"
  "span open_peer_review_attitude = 3" "span preprinting_attitude = 3"
  "span data_sharing_frequency = 1" "span credit_for_sharing = 2"
  "span fair_principles_awareness = 2" "span job_title = 5" "span research_area = 4"
  "span publication_history = 4" "span organization_type = 3"
  "span funder_mandate_support = 1" "span national_mandate_support = 1"
  "span care_principles_awareness = 1" "span data_sharing_motivations = 1"
  "span data_sharing_effort = 1" "span data_ownership_before_pub = 1"
  "span data_ownership_after_pub = 1"
  by (simp_all add: span_eq_length)

section \<open>Theorems about the merge\<close>

text \<open>
  C2. \<^verbatim>\<open>get_all_questions\<close> is the union of the four categories in which, for a
  question id that occurs in several categories, the definition of the category merged
  last is the one returned: historical before supplementary before demographic before
  core.
\<close>

theorem get_all_questions_last_category_wins:
  assumes "wf_schema s"
  shows "dict_abs (get_all_questions s) qid =
     (case dict_abs (historical_questions s) qid of Some q \<Rightarrow> Some q
      | None \<Rightarrow> (case dict_abs (supplementary_questions s) qid of Some q \<Rightarrow> Some q
      | None \<Rightarrow> (case dict_abs (demographic_questions s) qid of Some q \<Rightarrow> Some q
      | None \<Rightarrow> dict_abs (core_questions s) qid)))"
  using assms
  by (simp add: get_all_questions_def Let_def wf_schema_def map_add_def split: option.split)

theorem get_all_questions_last_category_wins_witness:
  "wf_schema UnifiedSchema_init \<and>
   dict_abs (get_all_questions UnifiedSchema_init) ''job_title'' = Some job_title"
  using get_all_questions_last_category_wins [OF wf_schema_init, of "''job_title''"]
  by (simp add: wf_schema_init builder_entries dict_abs_def)

text \<open>
  C16. The keys of \<^verbatim>\<open>get_all_questions\<close> come in the order of first insertion: the core
  ids, then the demographic ids not seen before, then the new supplementary ids, then the
  new historical ids.  A colliding id keeps the position of its first category while
  taking the value of its last.
\<close>

theorem get_all_questions_key_order:
  assumes "wf_schema s"
  shows "keys_of (get_all_questions s) =
    (keys_of (core_questions s) @
     filter (\<lambda>k. k \<notin> set (keys_of (core_questions s))) (keys_of (demographic_questions s)) @
     filter (\<lambda>k. k \<notin> set (keys_of (core_questions s)) \<and>
                k \<notin> set (keys_of (demographic_questions s)))
       (keys_of (supplementary_questions s)) @
     filter (\<lambda>k. k \<notin> set (keys_of (core_questions s)) \<and>
                k \<notin> set (keys_of (demographic_questions s)) \<and>
                k \<notin> set (keys_of (supplementary_questions s)))
       (keys_of (historical_questions s)))"
  using assms by (rule keys_of_get_all_questions)

theorem get_all_questions_key_order_witness:
  "wf_schema UnifiedSchema_init \<and>
   keys_of (get_all_questions UnifiedSchema_init) =
     [''open_access_attitude'', ''open_data_attitude'', ''open_peer_review_attitude'',
      ''preprinting_attitude'', ''data_sharing_frequency'', ''credit_for_sharing'',
      ''fair_principles_awareness'', ''job_title'', ''research_area'',
      ''publication_history'', ''organization_type'', ''funder_mandate_support'',
      ''national_mandate_support'', ''care_principles_awareness'',
      ''data_sharing_motivations'', ''data_sharing_effort'', ''data_ownership_before_pub'',
      ''data_ownership_after_pub'']"
  using get_all_questions_key_order [OF wf_schema_init]
  by (simp add: wf_schema_init builder_entries)

text \<open>
  C9. When no question id occurs in two categories, \<^verbatim>\<open>get_all_questions\<close> is the
  concatenation of the four categories in the order core, demographic, supplementary,
  historical: nothing is overwritten and its length is the sum of the four lengths.
\<close>

theorem get_all_questions_concat:
  assumes "unique_ids s"
  shows "get_all_questions s =
           core_questions s @ demographic_questions s @ supplementary_questions s @
           historical_questions s \<and>
         dict_len (get_all_questions s) =
           dict_len (core_questions s) + dict_len (demographic_questions s) +
           dict_len (supplementary_questions s) + dict_len (historical_questions s)"
  using assms
  by (simp add: get_all_questions_def Let_def unique_ids_def all_question_ids_def
      dict_update_chain)

theorem get_all_questions_concat_witness:
  "unique_ids UnifiedSchema_init \<and> dict_len (get_all_questions UnifiedSchema_init) = 18"
  using get_all_questions_concat [OF unique_ids_init]
  by (simp add: unique_ids_init builder_entries)

section \<open>Theorems about the filters\<close>

text \<open>
  C1. \<^verbatim>\<open>get_questions_by_year\<close> returns exactly the entries of
  \<^verbatim>\<open>get_all_questions\<close> whose \<^verbatim>\<open>years_available\<close> contains the year, in the order of
  the merge; a lookup in the result succeeds precisely for those questions.  It holds for
  every schema object and every integer, so no year makes the method fail.
\<close>

theorem get_questions_by_year_exact:
  "get_questions_by_year s year =
     filter (\<lambda>(qid, q). year \<in> set (years_available q)) (get_all_questions s) \<and>
   (dict_abs (get_questions_by_year s year) qid = Some q \<longleftrightarrow>
      dict_abs (get_all_questions s) qid = Some q \<and> year \<in> set (years_available q))"
proof (intro conjI)
  show "get_questions_by_year s year =
      filter (\<lambda>(qid, q). year \<in> set (years_available q)) (get_all_questions s)"
    by (simp add: get_questions_by_year_def dict_comprehension_wf)
  show "dict_abs (get_questions_by_year s year) qid = Some q \<longleftrightarrow>
      dict_abs (get_all_questions s) qid = Some q \<and> year \<in> set (years_available q)"
    by (simp add: get_questions_by_year_def)
qed

text \<open>
  C3. \<^verbatim>\<open>get_longitudinal_questions\<close> returns exactly the entries of
  \<^verbatim>\<open>get_all_questions\<close> that list at least \<^verbatim>\<open>min_years\<close> years, for every integer
  threshold, and the call without argument uses the threshold 2.
\<close>

theorem get_longitudinal_questions_exact:
  "get_longitudinal_questions s min_years =
     filter (\<lambda>(qid, q). min_years \<le> int (length (years_available q))) (get_all_questions s) \<and>
   (dict_abs (get_longitudinal_questions s min_years) qid = Some q \<longleftrightarrow>
      dict_abs (get_all_questions s) qid = Some q \<and>
      min_years \<le> int (length (years_available q))) \<and>
   get_longitudinal_questions_default s = get_longitudinal_questions s 2"
proof (intro conjI)
  show "get_longitudinal_questions s min_years =
      filter (\<lambda>(qid, q). min_years \<le> int (length (years_available q)))
        (get_all_questions s)"
    by (simp add: get_longitudinal_questions_def dict_comprehension_wf list_len_def)
  show "dict_abs (get_longitudinal_questions s min_years) qid = Some q \<longleftrightarrow>
      dict_abs (get_all_questions s) qid = Some q \<and>
      min_years \<le> int (length (years_available q))"
    by (simp add: get_longitudinal_questions_def list_len_def)
  show "get_longitudinal_questions_default s = get_longitudinal_questions s 2"
    by (simp add: get_longitudinal_questions_default_def)
qed

text \<open>
  C4. \<^verbatim>\<open>get_core_trend_questions\<close> returns exactly the entries of the core category
  that list at least three years.  It reads the core category only, so a question of
  another category is never returned, however many years it spans.
\<close>

theorem get_core_trend_questions_exact:
  assumes "wf_dict (core_questions s)"
  shows "get_core_trend_questions s =
           filter (\<lambda>(qid, q). 3 \<le> int (length (years_available q))) (core_questions s) \<and>
         (dict_abs (get_core_trend_questions s) qid = Some q \<longleftrightarrow>
            dict_abs (core_questions s) qid = Some q \<and>
            3 \<le> int (length (years_available q)))"
proof (intro conjI)
  show "get_core_trend_questions s =
      filter (\<lambda>(qid, q). 3 \<le> int (length (years_available q))) (core_questions s)"
    using assms by (simp add: get_core_trend_questions_def dict_comprehension_wf list_len_def)
  show "dict_abs (get_core_trend_questions s) qid = Some q \<longleftrightarrow>
      dict_abs (core_questions s) qid = Some q \<and> 3 \<le> int (length (years_available q))"
    using assms by (simp add: get_core_trend_questions_def list_len_def)
qed

theorem get_core_trend_questions_exact_witness:
  "wf_dict (core_questions UnifiedSchema_init) \<and>
   get_core_trend_questions UnifiedSchema_init =
     [(''open_access_attitude'', open_access_attitude),
      (''open_data_attitude'', open_data_attitude),
      (''open_peer_review_attitude'', open_peer_review_attitude),
      (''preprinting_attitude'', preprinting_attitude)] \<and>
   dict_abs (get_core_trend_questions UnifiedSchema_init) ''job_title'' = None"
proof -
  have wf: "wf_dict (core_questions UnifiedSchema_init)"
    using wf_schema_init by (simp add: wf_schema_def)
  have none: "dict_abs (get_core_trend_questions UnifiedSchema_init) ''job_title'' = None"
  proof (cases "dict_abs (get_core_trend_questions UnifiedSchema_init) ''job_title''")
    case (Some q)
    with get_core_trend_questions_exact [OF wf, of "''job_title''" q] show ?thesis
      by (simp add: builder_entries dict_abs_def)
  qed simp
  have "get_core_trend_questions UnifiedSchema_init =
     [(''open_access_attitude'', open_access_attitude),
      (''open_data_attitude'', open_data_attitude),
      (''open_peer_review_attitude'', open_peer_review_attitude),
      (''preprinting_attitude'', preprinting_attitude)]"
    using get_core_trend_questions_exact [OF wf]
    by (simp add: builder_entries)
  with none wf show ?thesis
    by simp
qed

section \<open>Theorems about thresholds\<close>

text \<open>
  C31. A threshold of zero or below makes \<^verbatim>\<open>get_longitudinal_questions\<close> return
  everything \<^verbatim>\<open>get_all_questions\<close> returns.
\<close>

theorem get_longitudinal_nonpositive_all:
  assumes "min_years \<le> 0"
  shows "get_longitudinal_questions s min_years = get_all_questions s"
  using assms by (rule get_longitudinal_questions_nonpositive)

theorem get_longitudinal_nonpositive_all_witness:
  "(-3 :: int) \<le> 0 \<and>
   get_longitudinal_questions UnifiedSchema_init (-3) = get_all_questions UnifiedSchema_init"
  using get_longitudinal_nonpositive_all [of "-3" UnifiedSchema_init]
  by simp

text \<open>
  C30. Raising the threshold of \<^verbatim>\<open>get_longitudinal_questions\<close> only removes entries:
  the result for a larger threshold is the result for a smaller one, filtered again.
\<close>

theorem get_longitudinal_monotone:
  assumes "k \<le> m"
  shows "get_longitudinal_questions s m =
           filter (\<lambda>(qid, q). m \<le> int (length (years_available q)))
             (get_longitudinal_questions s k) \<and>
         set (get_longitudinal_questions s m) \<subseteq> set (get_longitudinal_questions s k)"
  using get_longitudinal_questions_refine [OF assms, of s]
    get_longitudinal_questions_antimono [OF assms, of s]
  by (simp add: span_eq_length)

theorem get_longitudinal_monotone_witness:
  "(2 :: int) \<le> 3 \<and>
   set (get_longitudinal_questions UnifiedSchema_init 3)
     \<subseteq> set (get_longitudinal_questions UnifiedSchema_init 2)"
  using get_longitudinal_monotone [of 2 3 UnifiedSchema_init]
  by simp

text \<open>
  C32. A threshold above the number of years of every question makes
  \<^verbatim>\<open>get_longitudinal_questions\<close> return the empty dict.
\<close>

theorem get_longitudinal_above_max_empty:
  assumes "list_all (\<lambda>(qid, q). int (length (years_available q)) < min_years)
             (get_all_questions s)"
  shows "get_longitudinal_questions s min_years = dict_empty"
proof (rule get_longitudinal_questions_above)
  fix qid q
  assume "(qid, q) \<in> set (get_all_questions s)"
  with assms show "span q < min_years"
    by (auto simp: list_all_iff span_eq_length)
qed

theorem get_longitudinal_above_max_empty_witness:
  "list_all (\<lambda>(qid, q). int (length (years_available q)) < 6)
     (get_all_questions UnifiedSchema_init) \<and>
   get_longitudinal_questions UnifiedSchema_init 6 = []"
proof -
  have small: "list_all (\<lambda>(qid, q). int (length (years_available q)) < 6)
      (get_all_questions UnifiedSchema_init)"
    by (simp add: get_all_questions_init builder_entries)
  from get_longitudinal_above_max_empty [OF small] small show ?thesis
    by (simp add: dict_empty_def)
qed

section \<open>Theorems relating the queries by year and by number of years\<close>

text \<open>
  C18. On a valid schema no question is lost by asking year by year: the questions of
  \<^verbatim>\<open>get_all_questions\<close> are exactly those that \<^verbatim>\<open>get_questions_by_year\<close> reports for
  one of the survey years.
\<close>

theorem every_question_reported_in_some_year:
  assumes "valid_schema s"
  shows "set (get_all_questions s) =
           (\<Union>year \<in> set survey_years. set (get_questions_by_year s year))"
proof (intro equalityI subsetI)
  fix e assume e: "e \<in> set (get_all_questions s)"
  obtain qid q where eq: "e = (qid, q)" by (cases e)
  from assms e eq have "valid_question qid q"
    by (simp add: valid_question_get_all)
  then obtain year where "year \<in> set (years_available q)" "year \<in> set survey_years"
    by (cases "years_available q") (auto simp: valid_question_def)
  with e eq show "e \<in> (\<Union>year \<in> set survey_years. set (get_questions_by_year s year))"
    by (auto simp: mem_get_questions_by_year)
next
  fix e assume "e \<in> (\<Union>year \<in> set survey_years. set (get_questions_by_year s year))"
  then show "e \<in> set (get_all_questions s)"
    by (auto simp: get_questions_by_year_filter)
qed

theorem every_question_reported_in_some_year_witness:
  "valid_schema UnifiedSchema_init \<and>
   set (get_all_questions UnifiedSchema_init) =
     (\<Union>year \<in> set survey_years. set (get_questions_by_year UnifiedSchema_init year))"
proof -
  have v: "valid_schema UnifiedSchema_init"
    by (simp add: valid_init)
  from every_question_reported_in_some_year [OF v] v show ?thesis
    by (rule conjI [rotated])
qed

text \<open>
  C17. The two queries count the same thing.  For a question of a valid schema the number
  of years \<^verbatim>\<open>get_longitudinal_questions\<close> compares with its threshold is the number of
  survey years for which \<^verbatim>\<open>get_questions_by_year\<close> reports the question, so the question
  is longitudinal for a threshold exactly when it is reported for at least that many
  survey years.
\<close>

theorem longitudinal_iff_reported_years:
  assumes "valid_schema s" and "(qid, q) \<in> set (get_all_questions s)"
  shows "span q = int (length (reporting_years s qid q)) \<and>
         ((qid, q) \<in> set (get_longitudinal_questions s min_years) \<longleftrightarrow>
            min_years \<le> int (length (reporting_years s qid q)))"
proof -
  from assms have "valid_question qid q"
    by (rule valid_question_get_all)
  then have "length (filter (\<lambda>year. year \<in> set (years_available q)) survey_years) =
      length (years_available q)"
    by (intro length_filter_mem_distinct) (simp_all add: valid_question_def)
  with assms(2) have "span q = int (length (reporting_years s qid q))"
    by (simp add: reporting_years_def mem_get_questions_by_year span_eq_length)
  with assms(2) show ?thesis
    by (simp add: mem_get_longitudinal_questions)
qed

theorem longitudinal_iff_reported_years_witness:
  "reporting_years UnifiedSchema_init ''job_title'' job_title = [2017, 2019, 2022, 2023, 2024] \<and>
   span job_title = 5 \<and>
   (''job_title'', job_title) \<in> set (get_longitudinal_questions UnifiedSchema_init 5) \<and>
   (''job_title'', job_title) \<notin> set (get_longitudinal_questions UnifiedSchema_init 6)"
proof -
  have v: "valid_schema UnifiedSchema_init"
    by (simp add: valid_init)
  have mem: "(''job_title'', job_title) \<in> set (get_all_questions UnifiedSchema_init)"
    by (simp add: get_all_questions_init builder_entries)
  have years: "reporting_years UnifiedSchema_init ''job_title'' job_title =
      [2017, 2019, 2022, 2023, 2024]"
    using mem by (simp add: reporting_years_def mem_get_questions_by_year survey_years_def)
  from longitudinal_iff_reported_years [OF v mem, of 5]
    longitudinal_iff_reported_years [OF v mem, of 6] years
  show ?thesis by simp
qed

section \<open>Theorems about core trend questions\<close>

text \<open>
  Whatever the schema object holds, every entry returned by
  \<^verbatim>\<open>get_core_trend_questions\<close> is an entry of the core category that lists at least
  three years.
\<close>

lemma get_core_trend_only_core:
  "set (get_core_trend_questions s) \<subseteq>
     {(qid, q). (qid, q) \<in> set (core_questions s) \<and> 3 \<le> int (length (years_available q))}"
  using get_core_trend_questions_subset [of s] get_core_trend_questions_span [of _ _ s]
  by (auto simp: span_eq_length)

text \<open>
  C19. When question ids are unique across the categories, every core trend question is
  also returned by \<^verbatim>\<open>get_longitudinal_questions(3)\<close>.
\<close>

theorem core_trend_within_longitudinal:
  assumes "unique_ids s"
  shows "set (get_core_trend_questions s) \<subseteq> set (get_longitudinal_questions s 3)"
  using assms by (rule get_core_trend_questions_longitudinal)

theorem core_trend_within_longitudinal_witness:
  "unique_ids UnifiedSchema_init \<and>
   set (get_core_trend_questions UnifiedSchema_init)
     \<subseteq> set (get_longitudinal_questions UnifiedSchema_init 3)"
  using core_trend_within_longitudinal [OF unique_ids_init] unique_ids_init
  by simp

text \<open>
  C21. Uniqueness of ids is needed for that: there is a well-formed schema object, equal
  to the constructed one except that its historical category reuses a core id, for which
  a core trend question is not among the longitudinal questions, because the merge returns
  the historical definition under that id.
\<close>

theorem core_trend_shadowed:
  "\<exists>s. wf_schema s \<and>
     \<not> set (get_core_trend_questions s) \<subseteq> set (get_longitudinal_questions s 3)"
proof -
  let ?s = "UnifiedSchema_init\<lparr>historical_questions :=
      [(''open_access_attitude'', data_sharing_effort)]\<rparr>"
  have wf: "wf_schema ?s"
    using wf_schema_init by (simp add: wf_schema_def)
  have core: "(''open_access_attitude'', open_access_attitude)
      \<in> set (get_core_trend_questions ?s)"
    using wf by (simp add: get_core_trend_questions_filter wf_schema_def builder_entries)
  have merged: "dict_abs (get_all_questions ?s) ''open_access_attitude''
      = Some data_sharing_effort"
    unfolding get_all_questions_shadow [OF wf] by (simp add: dict_abs_def)
  have neq: "data_sharing_effort \<noteq> open_access_attitude"
  proof
    assume "data_sharing_effort = open_access_attitude"
    then have "span data_sharing_effort = span open_access_attitude"
      by simp
    then show False by simp
  qed
  have "(''open_access_attitude'', open_access_attitude)
      \<notin> set (get_longitudinal_questions ?s 3)"
  proof
    assume "(''open_access_attitude'', open_access_attitude)
      \<in> set (get_longitudinal_questions ?s 3)"
    then have "dict_abs (get_longitudinal_questions ?s 3) ''open_access_attitude''
        = Some open_access_attitude"
      by (simp add: dict_abs_Some_iff)
    then have "dict_abs (get_all_questions ?s) ''open_access_attitude''
        = Some open_access_attitude"
      by (simp add: get_longitudinal_questions_lookup)
    with merged neq show False by simp
  qed
  with core wf show ?thesis
    by blast
qed

text \<open>
  C20. The cause of the disagreement, for every schema object: when a core question with
  three or more years has its id reused in the historical category by a different
  definition, \<^verbatim>\<open>get_core_trend_questions\<close> returns the core question while the merge
  holds the historical definition under that id, so \<^verbatim>\<open>get_longitudinal_questions(3)\<close>
  does not return the core question.
\<close>

theorem shadowed_core_question:
  assumes "wf_schema s" and "(qid, q) \<in> set (core_questions s)" and "3 \<le> span q"
    and "dict_abs (historical_questions s) qid = Some q'" and "q' \<noteq> q"
  shows "(qid, q) \<in> set (get_core_trend_questions s) \<and>
         dict_abs (get_all_questions s) qid = Some q' \<and>
         (qid, q) \<notin> set (get_longitudinal_questions s 3)"
proof -
  from assms(1) have wf: "wf_dict (core_questions s)"
    by (simp add: wf_schema_def)
  with assms(2,3) have core: "(qid, q) \<in> set (get_core_trend_questions s)"
    by (simp add: get_core_trend_questions_filter)
  from assms(1,4) have merged: "dict_abs (get_all_questions s) qid = Some q'"
    by (simp add: get_all_questions_shadow)
  with assms(5) have "(qid, q) \<notin> set (get_all_questions s)"
    by (simp add: dict_abs_Some_iff [symmetric])
  with core merged show ?thesis
    by (simp add: mem_get_longitudinal_questions)
qed

theorem shadowed_core_question_witness:
  "(''open_access_attitude'', open_access_attitude) \<in> set
     (get_core_trend_questions
        (UnifiedSchema_init\<lparr>historical_questions :=
           [(''open_access_attitude'', data_sharing_effort)]\<rparr>)) \<and>
   dict_abs
     (get_all_questions
        (UnifiedSchema_init\<lparr>historical_questions :=
           [(''open_access_attitude'', data_sharing_effort)]\<rparr>))
     ''open_access_attitude'' = Some data_sharing_effort \<and>
   (''open_access_attitude'', open_access_attitude) \<notin> set
     (get_longitudinal_questions
        (UnifiedSchema_init\<lparr>historical_questions :=
           [(''open_access_attitude'', data_sharing_effort)]\<rparr>) 3)"
proof (rule shadowed_core_question)
  show "wf_schema (UnifiedSchema_init\<lparr>historical_questions :=
      [(''open_access_attitude'', data_sharing_effort)]\<rparr>)"
    using wf_schema_init by (simp add: wf_schema_def)
  show "(''open_access_attitude'', open_access_attitude) \<in> set (core_questions
      (UnifiedSchema_init\<lparr>historical_questions :=
        [(''open_access_attitude'', data_sharing_effort)]\<rparr>))"
    by (simp add: builder_entries)
  show "3 \<le> span open_access_attitude"
    by simp
  show "dict_abs (historical_questions
      (UnifiedSchema_init\<lparr>historical_questions :=
        [(''open_access_attitude'', data_sharing_effort)]\<rparr>)) ''open_access_attitude'' =
      Some data_sharing_effort"
    by (simp add: dict_abs_def)
  show "data_sharing_effort \<noteq> open_access_attitude"
  proof
    assume "data_sharing_effort = open_access_attitude"
    then have "span data_sharing_effort = span open_access_attitude"
      by simp
    then show False by simp
  qed
qed

end
