(* ===== verification/Harmonize.thy ===== *)
theory Harmonize
  imports Queries
begin

text \<open>
  The two module-level utilities.  \<^verbatim>\<open>harmonize_response_scale\<close> maps a response label
  to the label at the same position of another scale and passes the response through
  unchanged when it is not on the source scale or the target scale is too short.  Its
  calls to \<^verbatim>\<open>list.index\<close> and to the subscript can raise in Python, so the model
  returns a \<open>py_result\<close>; the first theorem shows that the guards of the function
  exclude both exceptions.  \<^verbatim>\<open>create_harmonized_column_mapping\<close> builds a fresh schema
  and collects the column mapping of every question with a loop of item assignments.
\<close>

section \<open>Operations\<close>

definition harmonize_response_scale ::
    "string \<Rightarrow> string pylist \<Rightarrow> string pylist \<Rightarrow> string py_result" where
  "harmonize_response_scale response source_scale target_scale =
     (if list_contains source_scale response then
        (case list_index source_scale response of
           Inl e \<Rightarrow> Inl e
         | Inr idx \<Rightarrow>
             if int idx < list_len target_scale then list_getitem target_scale (int idx)
             else Inr response)
      else Inr response)"

definition create_harmonized_column_mapping :: "(string, (int, string) pydict) pydict" where
  "create_harmonized_column_mapping =
     (let schema = UnifiedSchema_init;
          mapping = dict_empty
      in fold (\<lambda>(qid, question) mapping. dict_setitem mapping qid (column_mappings question))
           (dict_items (get_all_questions schema)) mapping)"

section \<open>Reference definitions\<close>

definition first_index :: "'a list \<Rightarrow> 'a \<Rightarrow> nat" where
  "first_index xs x = length (takeWhile (\<lambda>y. y \<noteq> x) xs)"

definition harmonize_spec :: "string \<Rightarrow> string list \<Rightarrow> string list \<Rightarrow> string" where
  "harmonize_spec response source target =
     (if response \<in> set source \<and> first_index source response < length target
      then target ! first_index source response else response)"

definition project_columns :: "question_dict \<Rightarrow> (string, (int, string) pydict) pydict" where
  "project_columns d = map (\<lambda>(qid, q). (qid, column_mappings q)) d"

section \<open>Position of a response on its scale\<close>

lemma list_index_first_index:
  "x \<in> set xs \<Longrightarrow> list_index xs x = Inr (first_index xs x)"
  by (induction xs) (auto simp: first_index_def)

lemma first_index_less: "x \<in> set xs \<Longrightarrow> first_index xs x < length xs"
  using list_index_first_index [of x xs] by (auto dest: list_index_Inr_D)

lemma nth_first_index: "x \<in> set xs \<Longrightarrow> xs ! first_index xs x = x"
  using list_index_first_index [of x xs] by (auto dest: list_index_Inr_D)

lemma first_index_nth_distinct:
  "distinct xs \<Longrightarrow> i < length xs \<Longrightarrow> first_index xs (xs ! i) = i"
  using list_index_nth_distinct [of xs i] list_index_first_index [of "xs ! i" xs]
  by simp

section \<open>harmonize_response_scale\<close>

lemma harmonize_response_scale_eq_spec:
  "harmonize_response_scale r src tgt = Inr (harmonize_spec r src tgt)"
  by (simp add: harmonize_response_scale_def harmonize_spec_def list_index_first_index
      list_getitem_nat)

lemma harmonize_spec_not_member: "r \<notin> set src \<Longrightarrow> harmonize_spec r src tgt = r"
  by (simp add: harmonize_spec_def)

lemma harmonize_spec_short_target:
  "length tgt \<le> first_index src r \<Longrightarrow> harmonize_spec r src tgt = r"
  by (simp add: harmonize_spec_def)

lemma harmonize_spec_range: "harmonize_spec r src tgt \<in> insert r (set tgt)"
  by (simp add: harmonize_spec_def)

lemma harmonize_spec_same_scale: "harmonize_spec r scale scale = r"
  by (simp add: harmonize_spec_def nth_first_index)

lemma harmonize_spec_nth:
  assumes "distinct src" and "i < length src" and "i < length tgt"
  shows "harmonize_spec (src ! i) src tgt = tgt ! i"
  using assms by (simp add: harmonize_spec_def first_index_nth_distinct)

lemma harmonize_spec_inverse:
  assumes "distinct tgt" and "r \<in> set src" and "length src \<le> length tgt"
  shows "harmonize_spec (harmonize_spec r src tgt) tgt src = r"
proof -
  let ?i = "first_index src r"
  from assms(2) have i: "?i < length src" and r: "src ! ?i = r"
    by (simp_all add: first_index_less nth_first_index)
  with assms(3) have it: "?i < length tgt" by simp
  with assms(2) have fwd: "harmonize_spec r src tgt = tgt ! ?i"
    by (simp add: harmonize_spec_def)
  from it have mem: "tgt ! ?i \<in> set tgt"
    by simp
  from assms(1) it have pos: "first_index tgt (tgt ! ?i) = ?i"
    by (rule first_index_nth_distinct)
  from mem pos i have "harmonize_spec (tgt ! ?i) tgt src = src ! ?i"
    by (simp add: harmonize_spec_def)
  with fwd r show ?thesis
    by simp
qed

section \<open>create_harmonized_column_mapping\<close>

lemma fold_setitem_project:
  assumes "wf_dict d" and "set (keys_of acc) \<inter> set (keys_of d) = {}"
  shows "fold (\<lambda>(qid, question) mapping. dict_setitem mapping qid (column_mappings question))
           d acc = acc @ project_columns d"
  using assms
proof (induction d arbitrary: acc)
  case Nil
  then show ?case by (simp add: project_columns_def)
next
  case (Cons p d)
  obtain qid q where p: "p = (qid, q)" by (cases p)
  from Cons.prems p have fresh: "qid \<notin> set (keys_of acc)" and wf: "wf_dict d"
    and disj: "set (keys_of (acc @ [(qid, column_mappings q)])) \<inter> set (keys_of d) = {}"
    by auto
  from Cons.IH [OF wf disj] fresh p show ?case
    by (simp add: dict_setitem_fresh project_columns_def)
qed

lemma create_harmonized_column_mapping_project:
  "create_harmonized_column_mapping = project_columns (get_all_questions UnifiedSchema_init)"
  using fold_setitem_project [of "get_all_questions UnifiedSchema_init" "[]"]
  by (simp add: create_harmonized_column_mapping_def Let_def dict_items_def dict_empty_def)

lemma keys_of_project_columns [simp]: "keys_of (project_columns d) = keys_of d"
  by (induction d) (auto simp: project_columns_def)

lemma wf_project_columns [simp]: "wf_dict (project_columns d) \<longleftrightarrow> wf_dict d"
  by (simp add: wf_dict_def)

lemma dict_abs_project_columns:
  "dict_abs (project_columns d) qid = map_option column_mappings (dict_abs d qid)"
  by (simp add: project_columns_def dict_abs_def map_of_map_value)

section \<open>Theorems about harmonize_response_scale\<close>

text \<open>
  C6. \<^verbatim>\<open>harmonize_response_scale\<close> computes the positional mapping
  \<open>harmonize_spec\<close>: a response found on the source scale at a position the target scale
  has is replaced by the target label at that position, counted from the first occurrence,
  and every other response is returned as it is.
\<close>

theorem harmonize_refines_spec:
  "harmonize_response_scale response source_scale target_scale =
     Inr (if response \<in> set source_scale \<and>
             first_index source_scale response < length target_scale
          then target_scale ! first_index source_scale response else response)"
  by (simp add: harmonize_response_scale_def list_index_first_index list_getitem_nat)

text \<open>
  C7. \<^verbatim>\<open>harmonize_response_scale\<close> never raises: the membership test guards
  \<^verbatim>\<open>list.index\<close> against \<^verbatim>\<open>ValueError\<close> and the length test guards the subscript
  against \<^verbatim>\<open>IndexError\<close>.  Its result is the response itself or a label of the target
  scale.
\<close>

theorem harmonize_never_raises:
  "\<exists>out. harmonize_response_scale response source_scale target_scale = Inr out \<and>
     out \<in> insert response (set target_scale)"
proof (cases "response \<in> set source_scale")
  case True
  then show ?thesis
    by (simp add: harmonize_response_scale_def list_index_first_index list_getitem_nat)
next
  case False
  then show ?thesis
    by (simp add: harmonize_response_scale_def)
qed

text \<open>
  C29. A response that is not on the source scale passes through unchanged.
\<close>

theorem harmonize_passthrough_not_member:
  assumes "response \<notin> set source_scale"
  shows "harmonize_response_scale response source_scale target_scale = Inr response"
  using assms by (simp add: harmonize_response_scale_eq_spec harmonize_spec_not_member)

theorem harmonize_passthrough_not_member_witness:
  "''Unknown'' \<notin> set (ResponseScale_value AGREEMENT_5) \<and>
   harmonize_response_scale ''Unknown'' (ResponseScale_value AGREEMENT_5)
     (ResponseScale_value FREQUENCY_4) = Inr ''Unknown''"
proof -
  have notin: "''Unknown'' \<notin> set (ResponseScale_value AGREEMENT_5)"
    by simp
  from harmonize_passthrough_not_member [OF notin] notin show ?thesis
    by blast
qed

text \<open>
  C28. A response whose position on the source scale has no counterpart on a shorter
  target scale passes through unchanged; no index error occurs.
\<close>

theorem harmonize_passthrough_short_target:
  assumes "length target_scale \<le> first_index source_scale response"
  shows "harmonize_response_scale response source_scale target_scale = Inr response"
  using assms by (simp add: harmonize_response_scale_eq_spec harmonize_spec_short_target)

theorem harmonize_passthrough_short_target_witness:
  "length (ResponseScale_value FREQUENCY_4)
     \<le> first_index (ResponseScale_value AGREEMENT_5) ''Strongly agree'' \<and>
   harmonize_response_scale ''Strongly agree'' (ResponseScale_value AGREEMENT_5)
     (ResponseScale_value FREQUENCY_4) = Inr ''Strongly agree''"
proof -
  have short: "length (ResponseScale_value FREQUENCY_4)
      \<le> first_index (ResponseScale_value AGREEMENT_5) ''Strongly agree''"
    by (simp add: first_index_def)
  from harmonize_passthrough_short_target [OF short] short show ?thesis
    by blast
qed

text \<open>
  C27. On a source scale without repeated labels, the label at position \<open>i\<close> is mapped
  to the label at position \<open>i\<close> of the target scale whenever the target has that position.
\<close>

theorem harmonize_positional:
  assumes "distinct source_scale" and "i < length source_scale" and "i < length target_scale"
  shows "harmonize_response_scale (source_scale ! i) source_scale target_scale =
           Inr (target_scale ! i)"
  using assms by (simp add: harmonize_response_scale_eq_spec harmonize_spec_nth)

theorem harmonize_positional_witness:
  "distinct (ResponseScale_value AGREEMENT_5) \<and>
   2 < length (ResponseScale_value AGREEMENT_5) \<and>
   2 < length (ResponseScale_value AGREEMENT_5_ALT) \<and>
   harmonize_response_scale ''Neutral'' (ResponseScale_value AGREEMENT_5)
     (ResponseScale_value AGREEMENT_5_ALT) = Inr ''Neutral / No opinion''"
  using harmonize_positional [of "ResponseScale_value AGREEMENT_5" 2
      "ResponseScale_value AGREEMENT_5_ALT"]
  by simp

text \<open>
  C26. Mapping a response of the source scale to a target scale that is at least as long
  and has no repeated labels, and then mapping the result back, returns the response.
\<close>

theorem harmonize_roundtrip:
  assumes "distinct target_scale" and "response \<in> set source_scale"
    and "length source_scale \<le> length target_scale"
  shows "\<exists>mid. harmonize_response_scale response source_scale target_scale = Inr mid \<and>
           harmonize_response_scale mid target_scale source_scale = Inr response"
  using harmonize_spec_inverse [OF assms]
  by (simp add: harmonize_response_scale_eq_spec)

theorem harmonize_roundtrip_witness:
  "distinct (ResponseScale_value FREQUENCY_4_ALT) \<and>
   ''Sometimes'' \<in> set (ResponseScale_value FREQUENCY_4) \<and>
   length (ResponseScale_value FREQUENCY_4) \<le> length (ResponseScale_value FREQUENCY_4_ALT) \<and>
   (\<exists>mid. harmonize_response_scale ''Sometimes'' (ResponseScale_value FREQUENCY_4)
             (ResponseScale_value FREQUENCY_4_ALT) = Inr mid \<and>
          harmonize_response_scale mid (ResponseScale_value FREQUENCY_4_ALT)
             (ResponseScale_value FREQUENCY_4) = Inr ''Sometimes'')"
proof -
  have d: "distinct (ResponseScale_value FREQUENCY_4_ALT)"
    and m: "''Sometimes'' \<in> set (ResponseScale_value FREQUENCY_4)"
    and l: "length (ResponseScale_value FREQUENCY_4)
      \<le> length (ResponseScale_value FREQUENCY_4_ALT)"
    by simp_all
  from harmonize_roundtrip [OF d m l] d m l show ?thesis
    by blast
qed

text \<open>
  Harmonizing a scale with itself changes no response, whether or not the response
  is on the scale and whether or not the scale repeats labels.
\<close>

lemma harmonize_same_scale:
  "harmonize_response_scale response scale scale = Inr response"
  by (simp add: harmonize_response_scale_eq_spec harmonize_spec_same_scale)

text \<open>
  The mapping is by position and not by label: \<^verbatim>\<open>"Yes"\<close> of the credit scale is
  mapped to \<^verbatim>\<open>"No"\<close> of the yes/no/unsure scale, although that scale has the label
  \<^verbatim>\<open>"Yes"\<close> itself, because the two scales place it at different positions.
\<close>

lemma harmonize_positional_not_semantic:
  "harmonize_response_scale ''Yes'' (ResponseScale_value CREDIT_3)
     (ResponseScale_value YES_NO_UNSURE) = Inr ''No'' \<and>
   ''Yes'' \<in> set (ResponseScale_value YES_NO_UNSURE)"
  by (simp add: harmonize_response_scale_eq_spec harmonize_spec_def first_index_def)

section \<open>Theorems about create_harmonized_column_mapping\<close>

text \<open>
  C8. The loop of \<^verbatim>\<open>create_harmonized_column_mapping\<close> yields, for every question of a
  freshly built schema and in the order of \<^verbatim>\<open>get_all_questions\<close>, the question id with
  that question's \<^verbatim>\<open>column_mappings\<close>; no assignment of the loop overwrites an earlier
  one.
\<close>

theorem create_harmonized_column_mapping_projection:
  "create_harmonized_column_mapping =
     map (\<lambda>(qid, q). (qid, column_mappings q)) (get_all_questions UnifiedSchema_init) \<and>
   wf_dict create_harmonized_column_mapping \<and>
   dict_len create_harmonized_column_mapping = 18"
proof -
  have eq: "create_harmonized_column_mapping =
      project_columns (get_all_questions UnifiedSchema_init)"
    using fold_setitem_project [of "get_all_questions UnifiedSchema_init" "[]"]
    by (simp add: create_harmonized_column_mapping_def Let_def dict_items_def dict_empty_def)
  have len: "length (get_all_questions UnifiedSchema_init) = 18"
    by (simp add: get_all_questions_init builder_entries)
  show ?thesis
    unfolding eq
  proof (intro conjI)
    show "project_columns (get_all_questions UnifiedSchema_init) =
        map (\<lambda>(qid, q). (qid, column_mappings q)) (get_all_questions UnifiedSchema_init)"
      by (simp add: project_columns_def)
    show "wf_dict (project_columns (get_all_questions UnifiedSchema_init))"
      by simp
    show "dict_len (project_columns (get_all_questions UnifiedSchema_init)) = 18"
      using len by (simp add: project_columns_def)
  qed
qed

end
