(* ===== verification/PyStr.thy ===== *)
theory PyStr
  imports PyList
begin

text \<open>
  The string formatting the demonstration at the end of the module relies on:
  \<^verbatim>\<open>str\<close> of an integer (what an f-string field \<^verbatim>\<open>{n}\<close> inserts), \<^verbatim>\<open>str\<close> of a
  list of integers (\<^verbatim>\<open>[2021, 2022]\<close>), \<^verbatim>\<open>", ".join\<close>, and \<^verbatim>\<open>print\<close>, which appends
  its argument and a newline to the standard output.  The standard output is the string
  written so far.

  The lemmas unfold the numeral of a number one digit at a time, evaluate it on literals,
  and show that printing only appends.
\<close>

section \<open>Operations\<close>

definition digit_char :: "nat \<Rightarrow> char" where
  "digit_char d = ''0123456789'' ! d"

fun str_nat :: "nat \<Rightarrow> string" where
  "str_nat n = (if n < 10 then [digit_char n] else str_nat (n div 10) @ [digit_char (n mod 10)])"

definition str_int :: "int \<Rightarrow> string" where
  "str_int i = (if i < 0 then CHR ''-'' # str_nat (nat (- i)) else str_nat (nat i))"

fun str_join :: "string \<Rightarrow> string list \<Rightarrow> string" where
  "str_join sep [] = []"
| "str_join sep [x] = x"
| "str_join sep (x # y # ys) = x @ sep @ str_join sep (y # ys)"

definition str_int_list :: "int pylist \<Rightarrow> string" where
  "str_int_list xs = ''['' @ str_join '', '' (map str_int xs) @ '']''"

definition py_print :: "string \<Rightarrow> string \<Rightarrow> string" where
  "py_print stdout s = stdout @ s @ [CHR 0x0A]"

declare str_nat.simps [simp del]

section \<open>Numerals\<close>

lemma str_nat_nonempty [simp]: "str_nat n \<noteq> []"
  by (subst str_nat.simps) simp

lemma str_nat_digit: "n < 10 \<Longrightarrow> str_nat n = [digit_char n]"
  by (subst str_nat.simps) simp

section \<open>Printing appends\<close>

lemma py_print_append: "py_print (out @ s) t = out @ py_print s t"
  by (simp add: py_print_def)

lemma length_py_print [simp]: "length (py_print out s) = length out + length s + 1"
  by (simp add: py_print_def)

lemma fold_py_print_append:
  "fold (\<lambda>x out. py_print out (f x)) xs (out @ s) = out @ fold (\<lambda>x out. py_print out (f x)) xs s"
  by (induction xs arbitrary: s) (simp_all add: py_print_append)

section \<open>Evaluation on literals\<close>

lemma str_nat_numeral [simp]:
  "str_nat (numeral k) =
     (if (numeral k :: nat) < 10 then [digit_char (numeral k)]
      else str_nat (numeral k div 10) @ [digit_char (numeral k mod 10)])"
  by (rule str_nat.simps)

lemma str_nat_0 [simp]: "str_nat 0 = ''0''"
  by (simp add: str_nat.simps digit_char_def)

lemma str_nat_Suc_0 [simp]: "str_nat (Suc 0) = ''1''"
  by (subst str_nat.simps) (simp add: digit_char_def)

lemma str_int_examples:
  "str_int 2024 = ''2024''" "str_int 0 = ''0''" "str_int (- 15) = ''-15''"
  "str_int_list [2017, 2019] = ''[2017, 2019]''" "str_int_list [] = ''[]''"
  by (simp_all add: str_int_def str_int_list_def digit_char_def)

end
