(* ===== verification/Demo.thy ===== *)
theory Demo
  imports Harmonize PyStr
begin

text \<open>
  The demonstration under \<^verbatim>\<open>if __name__ == "__main__"\<close>: it builds a schema, runs
  three queries and prints a heading, one line per core trend question and two counts.
  \<open>main\<close> takes the standard output written so far and returns it with the lines of
  the demonstration appended; each \<^verbatim>\<open>print\<close> call is one \<open>py_print\<close>, the loop over
  the core trend questions is a \<open>fold\<close> over the items of the dict.
\<close>

section \<open>Operation\<close>

definition main :: "string \<Rightarrow> string" where
  "main stdout =
     (let schema = UnifiedSchema_init;
          core_qs = get_core_trend_questions schema;
          stdout = py_print stdout ''Core trend questions (3+ years):'';
          stdout = fold (\<lambda>(qid, q) stdout. py_print stdout
                     (''  '' @ qid @ '': '' @ str_int (list_len (years_available q)) @
                      '' years ('' @ str_int_list (years_available q) @ '')''))
                     (dict_items core_qs) stdout;
          questions_2024 = get_questions_by_year schema 2024;
          stdout = py_print stdout
                     (''\<newline>2024 questions available: '' @ str_int (dict_len questions_2024));
          longitudinal = get_longitudinal_questions_default schema;
          stdout = py_print stdout
                     (''\<newline>Longitudinal questions (2+ years): '' @
                      str_int (dict_len longitudinal))
      in stdout)"

section \<open>Reference: a text given by its lines\<close>

definition text_of_lines :: "string list \<Rightarrow> string" where
  "text_of_lines ls = concat (map (\<lambda>l. l @ [CHR 0x0A]) ls)"

section \<open>Lemmas\<close>

lemma core_trend_init:
  "get_core_trend_questions UnifiedSchema_init =
     [(''open_access_attitude'', open_access_attitude),
      (''open_data_attitude'', open_data_attitude),
      (''open_peer_review_attitude'', open_peer_review_attitude),
      (''preprinting_attitude'', preprinting_attitude)]"
proof -
  have "wf_dict (core_questions UnifiedSchema_init)"
    using wf_schema_init by (simp add: wf_schema_def)
  then show ?thesis
    by (simp add: get_core_trend_questions_filter builder_entries)
qed

lemma length_by_year_2024: "length (get_questions_by_year UnifiedSchema_init 2024) = 8"
  by (simp add: get_questions_by_year_filter get_all_questions_init builder_entries)

lemma length_longitudinal_default:
  "length (get_longitudinal_questions_default UnifiedSchema_init) = 10"
  by (simp add: get_longitudinal_questions_default_def get_longitudinal_questions_filter
      get_all_questions_init builder_entries)

lemma main_appends: "main (out @ s) = out @ main s"
  by (simp add: main_def Let_def py_print_append fold_py_print_append case_prod_unfold)

section \<open>Theorems\<close>

text \<open>
  C10. Run on an empty standard output, the demonstration prints nine lines: the heading,
  the four core trend questions with their number of years and their years, an empty
  line, the count 8 of the questions of 2024, an empty line, and the count 10 of the
  longitudinal questions.
\<close>

theorem main_output:
  "main [] = text_of_lines
     [''Core trend questions (3+ years):'',
      ''  open_access_attitude: 4 years ([2021, 2022, 2023, 2024])'',
      ''  open_data_attitude: 4 years ([2021, 2022, 2023, 2024])'',
      ''  open_peer_review_attitude: 3 years ([2022, 2023, 2024])'',
      ''  preprinting_attitude: 3 years ([2022, 2023, 2024])'',
      [],
      ''2024 questions available: 8'',
      [],
      ''Longitudinal questions (2+ years): 10'']"
  by (simp add: main_def Let_def core_trend_init length_by_year_2024
      length_longitudinal_default dict_items_def py_print_def text_of_lines_def
      str_int_def str_int_list_def list_len_def str_nat_digit digit_char_def)

end
