(* ===== verification/Store.thy ===== *)
theory Store
  imports Queries "HOL-Library.Sublist"
begin

text \<open>
  The objects behind the values.  In Python the catalogue is a graph of objects: a
  \<^verbatim>\<open>UnifiedSchema\<close> object refers to four dict objects, a dict object refers to
  \<^verbatim>\<open>QuestionMapping\<close> objects, and every query returns a new dict object that refers to
  the question objects of the catalogue.  This theory models that graph as a store with
  one list of objects per class, a reference being the position of the object in its list,
  and gives the constructor and the queries as operations on the store.

  A question object is held with its fields as a value; the list and the dict inside it
  are not objects of their own.  Nothing is ever removed from the store, so a reference
  that was valid stays valid; \<open>wf_store\<close> says that every reference in the store is valid.

  The lemmas show that the operations only allocate, and that the dict an operation
  returns denotes (\<open>abs_dict\<close>) the result of the corresponding function of theory
  \<open>Queries\<close> on the schema the object denotes (\<open>abs_schema\<close>).
\<close>

section \<open>References, objects and the store\<close>

type_synonym qref = nat
type_synonym dref = nat
type_synonym sref = nat
type_synonym ref_dict = "(string, qref) pydict"

record schema_obj =
  core_ref :: dref
  demographic_ref :: dref
  supplementary_ref :: dref
  historical_ref :: dref

record store =
  question_objs :: "QuestionMapping list"
  dict_objs :: "ref_dict list"
  schema_objs :: "schema_obj list"

definition empty_store :: store where
  "empty_store = \<lparr>question_objs = [], dict_objs = [], schema_objs = []\<rparr>"

section \<open>Allocation\<close>

definition new_question :: "QuestionMapping \<Rightarrow> store \<Rightarrow> qref \<times> store" where
  "new_question q s = (length (question_objs s), s\<lparr>question_objs := question_objs s @ [q]\<rparr>)"

definition new_dict :: "ref_dict \<Rightarrow> store \<Rightarrow> dref \<times> store" where
  "new_dict d s = (length (dict_objs s), s\<lparr>dict_objs := dict_objs s @ [d]\<rparr>)"

definition new_schema :: "schema_obj \<Rightarrow> store \<Rightarrow> sref \<times> store" where
  "new_schema obj s = (length (schema_objs s), s\<lparr>schema_objs := schema_objs s @ [obj]\<rparr>)"

fun new_questions :: "(string \<times> QuestionMapping) list \<Rightarrow> store \<Rightarrow> (string \<times> qref) list \<times> store" where
  "new_questions [] s = ([], s)"
| "new_questions ((k, q) # entries) s =
     (let (a, s) = new_question q s;
          (refs, s) = new_questions entries s
      in ((k, a) # refs, s))"

section \<open>The constructor and the queries on the store\<close>

definition build_category :: "question_dict \<Rightarrow> store \<Rightarrow> dref \<times> store" where
  "build_category d s =
     (let (refs, s) = new_questions (dict_items d) s
      in new_dict (dict_literal refs) s)"

definition UnifiedSchema_new :: "store \<Rightarrow> sref \<times> store" where
  "UnifiedSchema_new s =
     (let (c, s) = build_category define_core_questions s;
          (d, s) = build_category define_demographic_questions s;
          (u, s) = build_category define_supplementary_questions s;
          (h, s) = build_category define_historical_questions s
      in new_schema \<lparr>core_ref = c, demographic_ref = d, supplementary_ref = u,
                      historical_ref = h\<rparr> s)"

definition merged_refs :: "store \<Rightarrow> sref \<Rightarrow> ref_dict" where
  "merged_refs s self =
     (let obj = schema_objs s ! self;
          all_questions = dict_empty;
          all_questions = dict_update all_questions (dict_objs s ! core_ref obj);
          all_questions = dict_update all_questions (dict_objs s ! demographic_ref obj);
          all_questions = dict_update all_questions (dict_objs s ! supplementary_ref obj);
          all_questions = dict_update all_questions (dict_objs s ! historical_ref obj)
      in all_questions)"

definition get_all_questions_h :: "store \<Rightarrow> sref \<Rightarrow> dref \<times> store" where
  "get_all_questions_h s self = new_dict (merged_refs s self) s"

definition get_questions_by_year_h :: "store \<Rightarrow> sref \<Rightarrow> int \<Rightarrow> dref \<times> store" where
  "get_questions_by_year_h s self year =
     (let (all_questions, s) = get_all_questions_h s self
      in new_dict
           (dict_comprehension
              (\<lambda>qid q. list_contains (years_available (question_objs s ! q)) year)
              (dict_objs s ! all_questions)) s)"

definition get_longitudinal_questions_h :: "store \<Rightarrow> sref \<Rightarrow> int \<Rightarrow> dref \<times> store" where
  "get_longitudinal_questions_h s self min_years =
     (let (all_questions, s) = get_all_questions_h s self
      in new_dict
           (dict_comprehension
              (\<lambda>qid q. list_len (years_available (question_objs s ! q)) \<ge> min_years)
              (dict_objs s ! all_questions)) s)"

definition get_core_trend_questions_h :: "store \<Rightarrow> sref \<Rightarrow> dref \<times> store" where
  "get_core_trend_questions_h s self =
     new_dict
       (dict_comprehension
          (\<lambda>qid q. list_len (years_available (question_objs s ! q)) \<ge> 3)
          (dict_objs s ! core_ref (schema_objs s ! self))) s"

section \<open>What the objects denote\<close>

definition deref_values :: "store \<Rightarrow> ref_dict \<Rightarrow> question_dict" where
  "deref_values s d = dict_map_values (\<lambda>a. question_objs s ! a) d"

definition abs_dict :: "store \<Rightarrow> dref \<Rightarrow> question_dict" where
  "abs_dict s r = deref_values s (dict_objs s ! r)"

definition abs_schema :: "store \<Rightarrow> sref \<Rightarrow> UnifiedSchema" where
  "abs_schema s self =
     (let obj = schema_objs s ! self
      in \<lparr>core_questions = abs_dict s (core_ref obj),
          demographic_questions = abs_dict s (demographic_ref obj),
          supplementary_questions = abs_dict s (supplementary_ref obj),
          historical_questions = abs_dict s (historical_ref obj)\<rparr>)"

definition wf_ref_dict :: "store \<Rightarrow> ref_dict \<Rightarrow> bool" where
  "wf_ref_dict s d \<longleftrightarrow> wf_dict d \<and> list_all (\<lambda>(k, a). a < length (question_objs s)) d"

definition wf_schema_obj :: "store \<Rightarrow> schema_obj \<Rightarrow> bool" where
  "wf_schema_obj s obj \<longleftrightarrow>
     core_ref obj < length (dict_objs s) \<and> demographic_ref obj < length (dict_objs s) \<and>
     supplementary_ref obj < length (dict_objs s) \<and> historical_ref obj < length (dict_objs s)"

definition wf_store :: "store \<Rightarrow> bool" where
  "wf_store s \<longleftrightarrow>
     list_all (wf_ref_dict s) (dict_objs s) \<and> list_all (wf_schema_obj s) (schema_objs s)"

definition extends :: "store \<Rightarrow> store \<Rightarrow> bool" where
  "extends s s' \<longleftrightarrow>
     prefix (question_objs s) (question_objs s') \<and>
     prefix (dict_objs s) (dict_objs s') \<and>
     prefix (schema_objs s) (schema_objs s')"

section \<open>Allocation extends the store\<close>

lemma empty_store_simps [simp]:
  "question_objs empty_store = []" "dict_objs empty_store = []" "schema_objs empty_store = []"
  by (simp_all add: empty_store_def)

lemma extends_refl [simp, intro]: "extends s s"
  by (simp add: extends_def)

lemma extends_trans [trans]: "extends s s' \<Longrightarrow> extends s' s'' \<Longrightarrow> extends s s''"
  unfolding extends_def by (blast intro: prefix_order.trans)

lemma extends_length:
  assumes "extends s s'"
  shows "length (question_objs s) \<le> length (question_objs s')"
    and "length (dict_objs s) \<le> length (dict_objs s')"
    and "length (schema_objs s) \<le> length (schema_objs s')"
  using assms by (simp_all add: extends_def prefix_length_le)

lemma prefix_nth: "prefix xs ys \<Longrightarrow> i < length xs \<Longrightarrow> ys ! i = xs ! i"
  by (auto simp: prefix_def nth_append)

lemma extends_nth:
  assumes "extends s s'"
  shows "a < length (question_objs s) \<Longrightarrow> question_objs s' ! a = question_objs s ! a"
    and "r < length (dict_objs s) \<Longrightarrow> dict_objs s' ! r = dict_objs s ! r"
    and "self < length (schema_objs s) \<Longrightarrow> schema_objs s' ! self = schema_objs s ! self"
  using assms by (simp_all add: extends_def prefix_nth)

lemma new_question_simps [simp]:
  "fst (new_question q s) = length (question_objs s)"
  "question_objs (snd (new_question q s)) = question_objs s @ [q]"
  "dict_objs (snd (new_question q s)) = dict_objs s"
  "schema_objs (snd (new_question q s)) = schema_objs s"
  by (simp_all add: new_question_def)

lemma new_dict_simps [simp]:
  "fst (new_dict d s) = length (dict_objs s)"
  "dict_objs (snd (new_dict d s)) = dict_objs s @ [d]"
  "question_objs (snd (new_dict d s)) = question_objs s"
  "schema_objs (snd (new_dict d s)) = schema_objs s"
  by (simp_all add: new_dict_def)

lemma new_schema_simps [simp]:
  "fst (new_schema obj s) = length (schema_objs s)"
  "schema_objs (snd (new_schema obj s)) = schema_objs s @ [obj]"
  "question_objs (snd (new_schema obj s)) = question_objs s"
  "dict_objs (snd (new_schema obj s)) = dict_objs s"
  by (simp_all add: new_schema_def)

lemma extends_new [simp]:
  "extends s (snd (new_question q s))"
  "extends s (snd (new_dict d s))"
  "extends s (snd (new_schema obj s))"
  by (simp_all add: extends_def)

lemma new_questions_Cons:
  "new_questions ((k, q) # entries) s =
     ((k, length (question_objs s)) # fst (new_questions entries (snd (new_question q s))),
      snd (new_questions entries (snd (new_question q s))))"
  by (simp add: case_prod_unfold Let_def)

lemma fst_new_questions:
  "fst (new_questions entries s) =
     zip (keys_of entries) [length (question_objs s) ..< length (question_objs s) + length entries]"
proof (induction entries arbitrary: s)
  case Nil
  show ?case by simp
next
  case (Cons e entries)
  obtain k q where e: "e = (k, q)" by (cases e)
  show ?case
    unfolding e new_questions_Cons
    by (simp add: Cons.IH upt_conv_Cons del: upt_Suc)
qed

lemma snd_new_questions [simp]:
  "question_objs (snd (new_questions entries s)) = question_objs s @ map snd entries"
  "dict_objs (snd (new_questions entries s)) = dict_objs s"
  "schema_objs (snd (new_questions entries s)) = schema_objs s"
  by (induction entries arbitrary: s) (auto simp: case_prod_unfold Let_def)

section \<open>Well-formedness and denotation under extension\<close>

lemma deref_values_cong:
  "question_objs s' = question_objs s \<Longrightarrow> deref_values s' d = deref_values s d"
  by (simp add: deref_values_def)

lemma wf_ref_dictD:
  "wf_ref_dict s d \<Longrightarrow> (k, a) \<in> set d \<Longrightarrow> a < length (question_objs s)"
  by (auto simp: wf_ref_dict_def list_all_iff)

lemma wf_ref_dict_extends: "wf_ref_dict s d \<Longrightarrow> extends s s' \<Longrightarrow> wf_ref_dict s' d"
proof -
  assume wf: "wf_ref_dict s d" and "extends s s'"
  then have le: "length (question_objs s) \<le> length (question_objs s')"
    by (simp add: extends_length(1))
  have "a < length (question_objs s')" if "(k, a) \<in> set d" for k a
    using wf_ref_dictD [OF wf that] le by simp
  with wf show ?thesis
    by (auto simp: wf_ref_dict_def list_all_iff)
qed

lemma wf_schema_obj_extends: "wf_schema_obj s obj \<Longrightarrow> extends s s' \<Longrightarrow> wf_schema_obj s' obj"
  using extends_length(2) [of s s'] by (simp add: wf_schema_obj_def)

lemma wf_ref_dict_subset:
  "wf_dict d \<Longrightarrow> set d \<subseteq> set e \<Longrightarrow> wf_ref_dict s e \<Longrightarrow> wf_ref_dict s d"
  by (auto simp: wf_ref_dict_def list_all_iff)

lemma wf_store_dict: "wf_store s \<Longrightarrow> r < length (dict_objs s) \<Longrightarrow> wf_ref_dict s (dict_objs s ! r)"
  by (simp add: wf_store_def list_all_length)

lemma wf_store_schema:
  "wf_store s \<Longrightarrow> self < length (schema_objs s) \<Longrightarrow> wf_schema_obj s (schema_objs s ! self)"
  by (simp add: wf_store_def list_all_length)

lemma wf_store_empty [simp]: "wf_store empty_store"
  by (simp add: wf_store_def)

lemma deref_values_extends:
  assumes "wf_ref_dict s d" and "extends s s'"
  shows "deref_values s' d = deref_values s d"
  unfolding deref_values_def
  by (rule dict_map_values_cong) (simp add: extends_nth(1) [OF assms(2)] wf_ref_dictD [OF assms(1)])

lemma abs_dict_extends:
  assumes "wf_store s" and "extends s s'" and "r < length (dict_objs s)"
  shows "abs_dict s' r = abs_dict s r"
  using deref_values_extends [OF wf_store_dict [OF assms(1,3)] assms(2)] assms(3)
  by (simp add: abs_dict_def extends_nth(2) [OF assms(2)])

lemma abs_schema_extends:
  assumes "wf_store s" and "extends s s'" and "self < length (schema_objs s)"
  shows "abs_schema s' self = abs_schema s self"
proof -
  from assms have "wf_schema_obj s (schema_objs s ! self)"
    by (simp add: wf_store_schema)
  then show ?thesis
    using assms(3)
    by (simp add: abs_schema_def Let_def extends_nth(3) [OF assms(2)]
        abs_dict_extends [OF assms(1,2)] wf_schema_obj_def)
qed

lemma wf_store_new_dict:
  assumes "wf_store s" and "wf_ref_dict s d"
  shows "wf_store (snd (new_dict d s))"
proof -
  have ext: "extends s (snd (new_dict d s))"
    by simp
  have "wf_ref_dict (snd (new_dict d s)) e" if "e \<in> set (dict_objs s) \<or> e = d" for e
    using that assms wf_ref_dict_extends [OF _ ext] by (auto simp: wf_store_def list_all_iff)
  moreover have "wf_schema_obj (snd (new_dict d s)) obj" if "obj \<in> set (schema_objs s)" for obj
    using that assms(1) wf_schema_obj_extends [OF _ ext] by (auto simp: wf_store_def list_all_iff)
  ultimately show ?thesis
    by (auto simp: wf_store_def list_all_iff)
qed

lemma wf_store_more_questions:
  assumes "wf_store s" and "extends s s'"
    and "dict_objs s' = dict_objs s" and "schema_objs s' = schema_objs s"
  shows "wf_store s'"
  using assms wf_ref_dict_extends [OF _ assms(2)] wf_schema_obj_extends [OF _ assms(2)]
  by (auto simp: wf_store_def list_all_iff)

section \<open>The constructor builds the catalogue\<close>

lemma deref_new_questions:
  "dict_map_values ((!) (question_objs s @ map snd entries @ rest))
     (fst (new_questions entries s)) = entries"
proof (induction entries arbitrary: s)
  case Nil
  show ?case by simp
next
  case (Cons e entries)
  obtain k q where e: "e = (k, q)" by (cases e)
  from Cons.IH [of "snd (new_question q s)"] show ?case
    unfolding e new_questions_Cons by (simp add: nth_append)
qed

lemma keys_of_new_questions [simp]: "keys_of (fst (new_questions entries s)) = keys_of entries"
  by (simp add: fst_new_questions)

lemma new_questions_ref_valid:
  "(k, a) \<in> set (fst (new_questions entries s)) \<Longrightarrow>
     a < length (question_objs (snd (new_questions entries s)))"
  by (auto simp: fst_new_questions dest: set_zip_rightD)

lemma wf_new_questions:
  "wf_dict entries \<Longrightarrow>
     wf_ref_dict (snd (new_questions entries s)) (fst (new_questions entries s))"
  using new_questions_ref_valid [of _ _ entries s]
  by (auto simp: wf_ref_dict_def wf_dict_def list_all_iff simp del: snd_new_questions)

lemma build_category_simps [simp]:
  "fst (build_category d s) = length (dict_objs s)"
  "question_objs (snd (build_category d s)) = question_objs s @ map snd d"
  "dict_objs (snd (build_category d s)) = dict_objs s @ [dict_literal (fst (new_questions d s))]"
  "schema_objs (snd (build_category d s)) = schema_objs s"
  by (simp_all add: build_category_def case_prod_unfold Let_def dict_items_def)

lemma dict_objs_build_category:
  "wf_dict d \<Longrightarrow>
     dict_objs (snd (build_category d s)) =
       dict_objs s @
       [zip (keys_of d) [length (question_objs s) ..< length (question_objs s) + length d]]"
  by (simp add: fst_new_questions dict_literal_wf wf_dict_def)

lemma extends_build_category [simp]: "extends s (snd (build_category d s))"
  by (simp add: extends_def)

lemma wf_store_build_category:
  assumes "wf_store s" and "wf_dict d"
  shows "wf_store (snd (build_category d s))"
proof -
  let ?s = "snd (new_questions d s)" and ?refs = "fst (new_questions d s)"
  have "wf_store ?s"
    using assms(1) by (rule wf_store_more_questions) (simp_all add: extends_def)
  moreover have "wf_ref_dict ?s (dict_literal ?refs)"
    using wf_new_questions [OF assms(2), of s] by (simp add: dict_literal_wf wf_ref_dict_def)
  ultimately have "wf_store (snd (new_dict (dict_literal ?refs) ?s))"
    by (rule wf_store_new_dict)
  then show ?thesis
    by (simp add: build_category_def case_prod_unfold Let_def dict_items_def)
qed

lemma abs_build_category:
  assumes "wf_dict d" and "extends (snd (build_category d s)) s'"
  shows "abs_dict s' (fst (build_category d s)) = d"
proof -
  from assms(2) obtain rest where q: "question_objs s' = question_objs s @ map snd d @ rest"
    by (auto simp: extends_def prefix_def)
  have "dict_objs s' ! length (dict_objs s) = dict_literal (fst (new_questions d s))"
    using extends_nth(2) [OF assms(2), of "length (dict_objs s)"] by simp
  also have "\<dots> = fst (new_questions d s)"
    using assms(1) by (simp add: dict_literal_wf wf_dict_def)
  finally show ?thesis
    using deref_new_questions [of s d rest]
    by (simp add: abs_dict_def deref_values_def q [abs_def])
qed

lemma wf_builders [simp]:
  "wf_dict define_core_questions" "wf_dict define_demographic_questions"
  "wf_dict define_supplementary_questions" "wf_dict define_historical_questions"
  using wf_schema_init by (simp_all add: wf_schema_def)

lemma wf_store_new_schema:
  assumes "wf_store s" and "wf_schema_obj s obj"
  shows "wf_store (snd (new_schema obj s))"
proof -
  have "wf_ref_dict (snd (new_schema obj s)) = wf_ref_dict s"
    by (rule ext) (simp add: wf_ref_dict_def)
  moreover have "wf_schema_obj (snd (new_schema obj s)) = wf_schema_obj s"
    by (rule ext) (simp add: wf_schema_obj_def)
  ultimately show ?thesis
    using assms by (simp add: wf_store_def)
qed

lemma UnifiedSchema_new_unfold:
  "UnifiedSchema_new s =
     (let s1 = snd (build_category define_core_questions s);
          s2 = snd (build_category define_demographic_questions s1);
          s3 = snd (build_category define_supplementary_questions s2);
          s4 = snd (build_category define_historical_questions s3)
      in new_schema \<lparr>core_ref = length (dict_objs s), demographic_ref = length (dict_objs s1),
                      supplementary_ref = length (dict_objs s2),
                      historical_ref = length (dict_objs s3)\<rparr> s4)"
  by (simp add: UnifiedSchema_new_def case_prod_unfold Let_def)

lemma UnifiedSchema_new_simps [simp]:
  "fst (UnifiedSchema_new s) = length (schema_objs s)"
  "length (schema_objs (snd (UnifiedSchema_new s))) = Suc (length (schema_objs s))"
  by (simp_all add: UnifiedSchema_new_unfold Let_def)

lemma extends_UnifiedSchema_new [simp]: "extends s (snd (UnifiedSchema_new s))"
  by (simp add: UnifiedSchema_new_unfold Let_def extends_def)

lemma wf_store_UnifiedSchema_new:
  assumes "wf_store s"
  shows "wf_store (snd (UnifiedSchema_new s))"
  unfolding UnifiedSchema_new_unfold Let_def
  by (intro wf_store_new_schema wf_store_build_category assms) (simp_all add: wf_schema_obj_def)

lemma abs_UnifiedSchema_new:
  "abs_schema (snd (UnifiedSchema_new s)) (fst (UnifiedSchema_new s)) = UnifiedSchema_init"
proof -
  define s1 where "s1 = snd (build_category define_core_questions s)"
  define s2 where "s2 = snd (build_category define_demographic_questions s1)"
  define s3 where "s3 = snd (build_category define_supplementary_questions s2)"
  define s4 where "s4 = snd (build_category define_historical_questions s3)"
  define obj where "obj = \<lparr>core_ref = length (dict_objs s), demographic_ref = length (dict_objs s1),
    supplementary_ref = length (dict_objs s2), historical_ref = length (dict_objs s3)\<rparr>"
  define s5 where "s5 = snd (new_schema obj s4)"
  have new: "snd (UnifiedSchema_new s) = s5"
    by (simp add: UnifiedSchema_new_unfold Let_def s1_def s2_def s3_def s4_def s5_def obj_def)
  have e4: "extends s4 s5" by (simp add: s5_def)
  have e3: "extends s3 s5" using extends_trans [OF _ e4] by (simp add: s4_def)
  have e2: "extends s2 s5" using extends_trans [OF _ e3] by (simp add: s3_def)
  have e1: "extends s1 s5" using extends_trans [OF _ e2] by (simp add: s2_def)
  have "abs_dict s5 (length (dict_objs s)) = define_core_questions"
    using abs_build_category [of define_core_questions s s5] e1 by (simp add: s1_def)
  moreover have "abs_dict s5 (length (dict_objs s1)) = define_demographic_questions"
    using abs_build_category [of define_demographic_questions s1 s5] e2 by (simp add: s2_def)
  moreover have "abs_dict s5 (length (dict_objs s2)) = define_supplementary_questions"
    using abs_build_category [of define_supplementary_questions s2 s5] e3 by (simp add: s3_def)
  moreover have "abs_dict s5 (length (dict_objs s3)) = define_historical_questions"
    using abs_build_category [of define_historical_questions s3 s5] e4 by (simp add: s4_def)
  moreover have "schema_objs s5 ! length (schema_objs s) = obj"
    by (simp add: s5_def s4_def s3_def s2_def s1_def)
  ultimately show ?thesis
    by (simp add: new abs_schema_def Let_def obj_def UnifiedSchema_init_def)
qed

section \<open>The queries on the store compute the queries on the values\<close>

lemma wf_ref_dict_empty [simp]: "wf_ref_dict s dict_empty"
  by (simp add: wf_ref_dict_def dict_empty_def)

lemma wf_ref_dict_update:
  "wf_ref_dict s d \<Longrightarrow> wf_ref_dict s e \<Longrightarrow> wf_ref_dict s (dict_update d e)"
  using set_dict_update_subset [of d e] by (fastforce simp: wf_ref_dict_def list_all_iff)

lemma wf_ref_dict_comprehension:
  "wf_ref_dict s d \<Longrightarrow> wf_ref_dict s (dict_comprehension cond d)"
  using set_dict_comprehension_subset [of cond d] by (fastforce simp: wf_ref_dict_def list_all_iff)

lemma abs_dict_new_dict [simp]:
  "abs_dict (snd (new_dict d s)) (length (dict_objs s)) = deref_values s d"
  by (simp add: abs_dict_def deref_values_def)

lemma deref_merged_refs:
  "deref_values s (merged_refs s self) = get_all_questions (abs_schema s self)"
  by (simp add: merged_refs_def get_all_questions_def abs_schema_def abs_dict_def
      deref_values_def dict_map_values_update Let_def)

lemma wf_merged_refs:
  assumes "wf_store s" and "self < length (schema_objs s)"
  shows "wf_ref_dict s (merged_refs s self)"
  using wf_store_schema [OF assms] assms(1)
  unfolding merged_refs_def Let_def
  by (intro wf_ref_dict_update wf_ref_dict_empty wf_store_dict) (simp_all add: wf_schema_obj_def)

lemma deref_comprehension:
  "deref_values s (dict_comprehension (\<lambda>qid a. cond qid (question_objs s ! a)) d) =
     dict_comprehension cond (deref_values s d)"
  unfolding deref_values_def
  by (rule dict_map_values_comprehension [of "\<lambda>a. question_objs s ! a" cond d])

lemma get_all_questions_h_simps [simp]:
  "fst (get_all_questions_h s self) = length (dict_objs s)"
  "question_objs (snd (get_all_questions_h s self)) = question_objs s"
  "schema_objs (snd (get_all_questions_h s self)) = schema_objs s"
  "dict_objs (snd (get_all_questions_h s self)) = dict_objs s @ [merged_refs s self]"
  by (simp_all add: get_all_questions_h_def)

lemma get_questions_by_year_h_unfold:
  "get_questions_by_year_h s self year =
     new_dict
       (dict_comprehension
          (\<lambda>qid a. list_contains (years_available (question_objs s ! a)) year)
          (merged_refs s self))
       (snd (get_all_questions_h s self))"
  by (simp add: get_questions_by_year_h_def case_prod_unfold Let_def)

lemma get_longitudinal_questions_h_unfold:
  "get_longitudinal_questions_h s self min_years =
     new_dict
       (dict_comprehension
          (\<lambda>qid a. list_len (years_available (question_objs s ! a)) \<ge> min_years)
          (merged_refs s self))
       (snd (get_all_questions_h s self))"
  by (simp add: get_longitudinal_questions_h_def case_prod_unfold Let_def)

lemmas query_h_unfold =
  get_all_questions_h_def get_questions_by_year_h_unfold get_longitudinal_questions_h_unfold
  get_core_trend_questions_h_def

lemma abs_get_all_questions_h:
  "abs_dict (snd (get_all_questions_h s self)) (fst (get_all_questions_h s self)) =
     get_all_questions (abs_schema s self)"
  by (simp add: get_all_questions_h_def deref_merged_refs)

lemma abs_filtered:
  assumes "question_objs s1 = question_objs s"
  shows "abs_dict
           (snd (new_dict (dict_comprehension (\<lambda>qid a. cond qid (question_objs s ! a)) d) s1))
           (length (dict_objs s1)) =
         dict_comprehension cond (deref_values s d)"
  using deref_comprehension [of s cond d] deref_values_cong [OF assms]
  by simp

lemma abs_get_questions_by_year_h:
  "abs_dict (snd (get_questions_by_year_h s self year)) (fst (get_questions_by_year_h s self year)) =
     get_questions_by_year (abs_schema s self) year"
  using abs_filtered [of "snd (get_all_questions_h s self)" s
      "\<lambda>qid q. list_contains (years_available q) year" "merged_refs s self"]
  by (simp add: get_questions_by_year_h_unfold get_questions_by_year_def deref_merged_refs)

lemma abs_get_longitudinal_questions_h:
  "abs_dict (snd (get_longitudinal_questions_h s self min_years))
     (fst (get_longitudinal_questions_h s self min_years)) =
     get_longitudinal_questions (abs_schema s self) min_years"
  using abs_filtered [of "snd (get_all_questions_h s self)" s
      "\<lambda>qid q. list_len (years_available q) \<ge> min_years" "merged_refs s self"]
  by (simp add: get_longitudinal_questions_h_unfold get_longitudinal_questions_def
      deref_merged_refs)

lemma abs_get_core_trend_questions_h:
  "abs_dict (snd (get_core_trend_questions_h s self)) (fst (get_core_trend_questions_h s self)) =
     get_core_trend_questions (abs_schema s self)"
  using abs_filtered [of s s "\<lambda>qid q. list_len (years_available q) \<ge> 3"
      "dict_objs s ! core_ref (schema_objs s ! self)"]
  by (simp add: get_core_trend_questions_h_def get_core_trend_questions_def abs_schema_def
      abs_dict_def Let_def)

lemmas abs_query_h =
  abs_get_all_questions_h abs_get_questions_by_year_h abs_get_longitudinal_questions_h
  abs_get_core_trend_questions_h

section \<open>The queries only allocate dicts\<close>

definition allocates_dicts :: "store \<Rightarrow> store \<Rightarrow> bool" where
  "allocates_dicts s s' \<longleftrightarrow>
     question_objs s' = question_objs s \<and> schema_objs s' = schema_objs s \<and>
     prefix (dict_objs s) (dict_objs s')"

lemma query_h_frame [simp]:
  "question_objs (snd (get_questions_by_year_h s self year)) = question_objs s"
  "schema_objs (snd (get_questions_by_year_h s self year)) = schema_objs s"
  "question_objs (snd (get_longitudinal_questions_h s self min_years)) = question_objs s"
  "schema_objs (snd (get_longitudinal_questions_h s self min_years)) = schema_objs s"
  "question_objs (snd (get_core_trend_questions_h s self)) = question_objs s"
  "schema_objs (snd (get_core_trend_questions_h s self)) = schema_objs s"
  by (simp_all add: query_h_unfold)

lemma allocates_dicts_extends: "allocates_dicts s s' \<Longrightarrow> extends s s'"
  by (simp add: allocates_dicts_def extends_def)

lemma allocates_dicts_queries:
  "allocates_dicts s (snd (get_all_questions_h s self))"
  "allocates_dicts s (snd (get_questions_by_year_h s self year))"
  "allocates_dicts s (snd (get_longitudinal_questions_h s self min_years))"
  "allocates_dicts s (snd (get_core_trend_questions_h s self))"
  by (simp_all add: allocates_dicts_def query_h_unfold)

lemma wf_store_queries:
  assumes "wf_store s" and "self < length (schema_objs s)"
  shows "wf_store (snd (get_all_questions_h s self))"
    and "wf_store (snd (get_questions_by_year_h s self year))"
    and "wf_store (snd (get_longitudinal_questions_h s self min_years))"
    and "wf_store (snd (get_core_trend_questions_h s self))"
proof -
  let ?s1 = "snd (get_all_questions_h s self)"
  have merged: "wf_ref_dict s (merged_refs s self)"
    using assms by (rule wf_merged_refs)
  then show wf1: "wf_store ?s1"
    unfolding get_all_questions_h_def by (rule wf_store_new_dict [OF assms(1)])
  have filtered: "wf_ref_dict ?s1 (dict_comprehension cond (merged_refs s self))" for cond
    using wf_ref_dict_comprehension [OF merged, of cond] by (simp add: wf_ref_dict_def)
  show "wf_store (snd (get_questions_by_year_h s self year))"
    unfolding get_questions_by_year_h_unfold by (rule wf_store_new_dict [OF wf1 filtered])
  show "wf_store (snd (get_longitudinal_questions_h s self min_years))"
    unfolding get_longitudinal_questions_h_unfold by (rule wf_store_new_dict [OF wf1 filtered])
  have "wf_ref_dict s (dict_objs s ! core_ref (schema_objs s ! self))"
    using wf_store_schema [OF assms] assms(1) by (simp add: wf_store_dict wf_schema_obj_def)
  then show "wf_store (snd (get_core_trend_questions_h s self))"
    unfolding get_core_trend_questions_h_def
    by (intro wf_store_new_dict [OF assms(1)] wf_ref_dict_comprehension)
qed

text \<open>
  No operation changes an object that exists: the queries leave the question objects and
  the schema objects as they are and only add dict objects after the existing ones, and
  the constructor only adds objects after the existing ones.
\<close>

lemma store_operations_only_allocate:
  "extends s (snd (UnifiedSchema_new s)) \<and>
   allocates_dicts s (snd (get_all_questions_h s self)) \<and>
   allocates_dicts s (snd (get_questions_by_year_h s self year)) \<and>
   allocates_dicts s (snd (get_longitudinal_questions_h s self min_years)) \<and>
   allocates_dicts s (snd (get_core_trend_questions_h s self))"
  by (simp only: extends_UnifiedSchema_new allocates_dicts_queries simp_thms)

section \<open>Theorems\<close>

text \<open>
  C11. The operations on the store compute what the functions on values compute: the
  object the constructor returns denotes the constructed catalogue, and the dict each of
  the four queries returns denotes the result of the query of theory \<open>Queries\<close> on the
  schema that the object \<open>self\<close> denotes.  This holds in every store.
\<close>

theorem store_operations_refine:
  "abs_schema (snd (UnifiedSchema_new s)) (fst (UnifiedSchema_new s)) = UnifiedSchema_init \<and>
   abs_dict (snd (get_all_questions_h s self)) (fst (get_all_questions_h s self)) =
     get_all_questions (abs_schema s self) \<and>
   abs_dict (snd (get_questions_by_year_h s self year))
       (fst (get_questions_by_year_h s self year)) =
     get_questions_by_year (abs_schema s self) year \<and>
   abs_dict (snd (get_longitudinal_questions_h s self min_years))
       (fst (get_longitudinal_questions_h s self min_years)) =
     get_longitudinal_questions (abs_schema s self) min_years \<and>
   abs_dict (snd (get_core_trend_questions_h s self)) (fst (get_core_trend_questions_h s self)) =
     get_core_trend_questions (abs_schema s self)"
  by (simp only: abs_UnifiedSchema_new abs_query_h simp_thms)

end
