(* ===== verification/Session.thy ===== *)
theory Session
  imports Store
begin

text \<open>
  The module as its consumers see it: a process starts with no objects and calls the
  constructor and the four queries in any order, on any of the schema objects it has
  built.  A call is a value of \<open>api_call\<close>, \<open>api_step\<close> runs one call on the store, and
  \<open>reachable\<close> is the set of stores a process can be in.

  The lemmas show, by induction over the calls, that every schema object of a reachable
  store denotes the constructed catalogue, whatever was called before, so every call
  returns the value \<open>api_spec\<close> gives for it.  The last part looks at what a consumer can
  do with the references it was given, outside the module's own operations: assigning
  into a returned dict changes no catalogue, changing a returned question object does.
\<close>

section \<open>Calls and results\<close>

datatype api_call =
    Construct
  | GetAll sref
  | ByYear sref int
  | Longitudinal sref int
  | CoreTrend sref

datatype api_result = SchemaRef sref | DictRef dref

datatype api_value = SchemaValue UnifiedSchema | DictValue question_dict

fun api_step :: "api_call \<Rightarrow> store \<Rightarrow> api_result \<times> store" where
  "api_step Construct s = (let (r, s) = UnifiedSchema_new s in (SchemaRef r, s))"
| "api_step (GetAll self) s = (let (r, s) = get_all_questions_h s self in (DictRef r, s))"
| "api_step (ByYear self year) s =
     (let (r, s) = get_questions_by_year_h s self year in (DictRef r, s))"
| "api_step (Longitudinal self min_years) s =
     (let (r, s) = get_longitudinal_questions_h s self min_years in (DictRef r, s))"
| "api_step (CoreTrend self) s =
     (let (r, s) = get_core_trend_questions_h s self in (DictRef r, s))"

fun call_ok :: "store \<Rightarrow> api_call \<Rightarrow> bool" where
  "call_ok s Construct = True"
| "call_ok s (GetAll self) = (self < length (schema_objs s))"
| "call_ok s (ByYear self year) = (self < length (schema_objs s))"
| "call_ok s (Longitudinal self min_years) = (self < length (schema_objs s))"
| "call_ok s (CoreTrend self) = (self < length (schema_objs s))"

fun run :: "api_call list \<Rightarrow> store \<Rightarrow> store" where
  "run [] s = s"
| "run (c # cs) s = run cs (snd (api_step c s))"

fun calls_ok :: "store \<Rightarrow> api_call list \<Rightarrow> bool" where
  "calls_ok s [] = True"
| "calls_ok s (c # cs) = (call_ok s c \<and> calls_ok (snd (api_step c s)) cs)"

inductive reachable :: "store \<Rightarrow> bool" where
  initial: "reachable empty_store"
| call: "reachable s \<Longrightarrow> call_ok s c \<Longrightarrow> reachable (snd (api_step c s))"

section \<open>What a call returns on the constructed catalogue\<close>

fun result_value :: "store \<Rightarrow> api_result \<Rightarrow> api_value" where
  "result_value s (SchemaRef self) = SchemaValue (abs_schema s self)"
| "result_value s (DictRef r) = DictValue (abs_dict s r)"

fun api_spec :: "api_call \<Rightarrow> api_value" where
  "api_spec Construct = SchemaValue UnifiedSchema_init"
| "api_spec (GetAll self) = DictValue (get_all_questions UnifiedSchema_init)"
| "api_spec (ByYear self year) = DictValue (get_questions_by_year UnifiedSchema_init year)"
| "api_spec (Longitudinal self min_years) =
     DictValue (get_longitudinal_questions UnifiedSchema_init min_years)"
| "api_spec (CoreTrend self) = DictValue (get_core_trend_questions UnifiedSchema_init)"

definition catalogue_inv :: "store \<Rightarrow> bool" where
  "catalogue_inv s \<longleftrightarrow>
     wf_store s \<and>
     list_all (\<lambda>self. abs_schema s self = UnifiedSchema_init) [0 ..< length (schema_objs s)]"

section \<open>Edits a consumer can make through the references it holds\<close>

definition client_setitem :: "store \<Rightarrow> dref \<Rightarrow> string \<Rightarrow> qref \<Rightarrow> store" where
  "client_setitem s r k a = s\<lparr>dict_objs := (dict_objs s)[r := dict_setitem (dict_objs s ! r) k a]\<rparr>"

definition client_append_year :: "store \<Rightarrow> qref \<Rightarrow> int \<Rightarrow> store" where
  "client_append_year s a year =
     s\<lparr>question_objs := (question_objs s)
          [a := (question_objs s ! a)
                  \<lparr>years_available := years_available (question_objs s ! a) @ [year]\<rparr>]\<rparr>"

section \<open>One call\<close>

lemma fst_api_step [simp]:
  "fst (api_step Construct s) = SchemaRef (fst (UnifiedSchema_new s))"
  "fst (api_step (GetAll self) s) = DictRef (fst (get_all_questions_h s self))"
  "fst (api_step (ByYear self year) s) = DictRef (fst (get_questions_by_year_h s self year))"
  "fst (api_step (Longitudinal self min_years) s) =
     DictRef (fst (get_longitudinal_questions_h s self min_years))"
  "fst (api_step (CoreTrend self) s) = DictRef (fst (get_core_trend_questions_h s self))"
  by (simp_all add: case_prod_unfold Let_def)

lemma snd_api_step [simp]:
  "snd (api_step Construct s) = snd (UnifiedSchema_new s)"
  "snd (api_step (GetAll self) s) = snd (get_all_questions_h s self)"
  "snd (api_step (ByYear self year) s) = snd (get_questions_by_year_h s self year)"
  "snd (api_step (Longitudinal self min_years) s) =
     snd (get_longitudinal_questions_h s self min_years)"
  "snd (api_step (CoreTrend self) s) = snd (get_core_trend_questions_h s self)"
  by (simp_all add: case_prod_unfold Let_def)

declare api_step.simps [simp del]

lemma extends_api_step [simp]: "extends s (snd (api_step c s))"
  by (cases c) (simp_all add: allocates_dicts_extends allocates_dicts_queries)

lemma wf_store_api_step: "wf_store s \<Longrightarrow> call_ok s c \<Longrightarrow> wf_store (snd (api_step c s))"
  by (cases c) (simp_all add: wf_store_UnifiedSchema_new wf_store_queries)

lemma call_ok_extends: "call_ok s c \<Longrightarrow> extends s s' \<Longrightarrow> call_ok s' c"
  using extends_length(3) [of s s'] by (cases c) simp_all

lemma length_schema_objs_api_step:
  "length (schema_objs (snd (api_step c s))) =
     (if c = Construct then Suc (length (schema_objs s)) else length (schema_objs s))"
  using allocates_dicts_queries [of s]
  by (cases c) (simp_all add: allocates_dicts_def)

lemma result_value_api_step:
  "result_value (snd (api_step c s)) (fst (api_step c s)) =
     (case c of
        Construct \<Rightarrow> SchemaValue UnifiedSchema_init
      | GetAll self \<Rightarrow> DictValue (get_all_questions (abs_schema s self))
      | ByYear self year \<Rightarrow> DictValue (get_questions_by_year (abs_schema s self) year)
      | Longitudinal self min_years \<Rightarrow>
          DictValue (get_longitudinal_questions (abs_schema s self) min_years)
      | CoreTrend self \<Rightarrow> DictValue (get_core_trend_questions (abs_schema s self)))"
  by (cases c)
    (simp_all only: fst_api_step snd_api_step result_value.simps abs_UnifiedSchema_new
      abs_query_h api_call.case)

lemma result_value_extends:
  assumes "wf_store s" and "extends s s'" and "call_ok s c"
  shows "result_value (snd (api_step c s')) (fst (api_step c s')) =
         result_value (snd (api_step c s)) (fst (api_step c s))"
  unfolding result_value_api_step
  using assms(3) abs_schema_extends [OF assms(1,2)] by (cases c) simp_all

section \<open>Sequences of calls\<close>

lemma run_append [simp]: "run (cs @ ds) s = run ds (run cs s)"
  by (induction cs arbitrary: s) simp_all

lemma extends_run: "extends s (run cs s)"
proof (induction cs arbitrary: s)
  case Nil
  show ?case by simp
next
  case (Cons c cs)
  from extends_api_step Cons.IH show ?case
    unfolding run.simps by (rule extends_trans)
qed

lemma wf_store_run: "wf_store s \<Longrightarrow> calls_ok s cs \<Longrightarrow> wf_store (run cs s)"
  by (induction cs arbitrary: s) (simp_all add: wf_store_api_step)

lemma reachable_run: "reachable s \<Longrightarrow> calls_ok s cs \<Longrightarrow> reachable (run cs s)"
  by (induction cs arbitrary: s) (simp_all add: reachable.call)

lemma reachable_iff_run: "reachable s \<longleftrightarrow> (\<exists>cs. calls_ok empty_store cs \<and> s = run cs empty_store)"
proof
  assume "reachable s"
  then show "\<exists>cs. calls_ok empty_store cs \<and> s = run cs empty_store"
  proof induction
    case initial
    have "calls_ok empty_store [] \<and> empty_store = run [] empty_store" by simp
    then show ?case by blast
  next
    case (call s c)
    then obtain cs where cs: "calls_ok empty_store cs" "s = run cs empty_store"
      by blast
    have "calls_ok t (ds @ [d]) \<longleftrightarrow> calls_ok t ds \<and> call_ok (run ds t) d" for t ds d
      by (induction ds arbitrary: t) simp_all
    with cs call.hyps(2) have "calls_ok empty_store (cs @ [c])"
      and "snd (api_step c s) = run (cs @ [c]) empty_store"
      by simp_all
    then show ?case by blast
  qed
next
  assume "\<exists>cs. calls_ok empty_store cs \<and> s = run cs empty_store"
  then show "reachable s"
    using reachable_run [OF reachable.initial] by blast
qed

section \<open>The invariant of a process\<close>

lemma catalogue_inv_iff:
  "catalogue_inv s \<longleftrightarrow>
     wf_store s \<and> (\<forall>self < length (schema_objs s). abs_schema s self = UnifiedSchema_init)"
  by (auto simp: catalogue_inv_def list_all_iff)

lemma catalogue_inv_empty [simp]: "catalogue_inv empty_store"
  by (simp add: catalogue_inv_def)

lemma catalogue_inv_api_step:
  assumes "catalogue_inv s" and "call_ok s c"
  shows "catalogue_inv (snd (api_step c s))"
proof -
  let ?s = "snd (api_step c s)"
  from assms have wf: "wf_store s" and wf': "wf_store ?s"
    by (simp_all add: catalogue_inv_iff wf_store_api_step)
  have "abs_schema ?s self = UnifiedSchema_init" if "self < length (schema_objs ?s)" for self
  proof (cases "self < length (schema_objs s)")
    case True
    with assms(1) abs_schema_extends [OF wf extends_api_step, of self c] show ?thesis
      by (simp add: catalogue_inv_iff)
  next
    case False
    with that have "c = Construct" and "self = length (schema_objs s)"
      by (simp_all add: length_schema_objs_api_step split: if_splits)
    then show ?thesis
      using abs_UnifiedSchema_new [of s] by simp
  qed
  with wf' show ?thesis
    by (simp add: catalogue_inv_iff)
qed

section \<open>References stay valid\<close>

fun ref_ok :: "store \<Rightarrow> api_result \<Rightarrow> bool" where
  "ref_ok s (SchemaRef self) = (self < length (schema_objs s))"
| "ref_ok s (DictRef r) = (r < length (dict_objs s))"

lemma ref_ok_api_step [simp]: "ref_ok (snd (api_step c s)) (fst (api_step c s))"
  by (cases c) (simp_all add: query_h_unfold)

lemma result_value_ref_extends:
  assumes "wf_store s" and "extends s s'" and "ref_ok s r"
  shows "result_value s' r = result_value s r"
  using assms(3) abs_schema_extends [OF assms(1,2)] abs_dict_extends [OF assms(1,2)]
  by (cases r) simp_all

section \<open>Edits by a consumer\<close>

lemma abs_schema_client_setitem:
  assumes "wf_store s" and "self < length (schema_objs s)" and "allocates_dicts s s'"
    and "length (dict_objs s) \<le> r"
  shows "abs_schema (client_setitem s' r k a) self = abs_schema s self"
proof -
  have kept: "abs_dict (client_setitem s' r k a) d = abs_dict s d" if "d < length (dict_objs s)" for d
  proof -
    from that assms(4) have "abs_dict (client_setitem s' r k a) d = abs_dict s' d"
      by (simp add: abs_dict_def deref_values_def client_setitem_def)
    with abs_dict_extends [OF assms(1) allocates_dicts_extends [OF assms(3)] that]
    show ?thesis by simp
  qed
  have "schema_objs (client_setitem s' r k a) = schema_objs s"
    using assms(3) by (simp add: client_setitem_def allocates_dicts_def)
  with wf_store_schema [OF assms(1,2)] show ?thesis
    by (simp add: abs_schema_def Let_def kept wf_schema_obj_def)
qed

lemma result_ref_new:
  "fst (api_step c s) = DictRef r \<Longrightarrow> length (dict_objs s) \<le> r \<and> c \<noteq> Construct"
  by (cases c) (auto simp: query_h_unfold)

lemma allocates_dicts_api_step: "c \<noteq> Construct \<Longrightarrow> allocates_dicts s (snd (api_step c s))"
  by (cases c) (simp_all add: allocates_dicts_queries)

section \<open>The store after one construction\<close>

lemma constructed_store:
  "question_objs (snd (UnifiedSchema_new empty_store)) =
     map snd (define_core_questions @ define_demographic_questions @
              define_supplementary_questions @ define_historical_questions)"
  "schema_objs (snd (UnifiedSchema_new empty_store)) =
     [\<lparr>core_ref = 0, demographic_ref = 1, supplementary_ref = 2, historical_ref = 3\<rparr>]"
  "dict_objs (snd (UnifiedSchema_new empty_store)) =
     [zip (keys_of define_core_questions) [0 ..< 7],
      zip (keys_of define_demographic_questions) [7 ..< 11],
      zip (keys_of define_supplementary_questions) [11 ..< 14],
      zip (keys_of define_historical_questions) [14 ..< 18]]"
  by (simp_all add: UnifiedSchema_new_unfold Let_def dict_objs_build_category
      builder_entries upt_conv_Cons del: build_category_simps(3) new_questions.simps upt_Suc)

lemma merged_refs_constructed:
  "merged_refs (snd (UnifiedSchema_new empty_store)) 0 =
     zip (keys_of (get_all_questions UnifiedSchema_init)) [0 ..< 18]"
  by (simp add: merged_refs_def Let_def constructed_store get_all_questions_init builder_entries
      py_defs upt_conv_Cons del: upt_Suc)

lemma job_title_ref:
  "dict_getitem (merged_refs (snd (UnifiedSchema_new empty_store)) 0) ''job_title'' = Inr 7"
  by (simp add: merged_refs_constructed get_all_questions_init builder_entries dict_getitem_def
      upt_conv_Cons del: upt_Suc)

lemma abs_schema_edited:
  "abs_schema
     (client_append_year (snd (get_all_questions_h (snd (UnifiedSchema_new empty_store)) 0)) 7 2025)
     0 =
   UnifiedSchema_init\<lparr>demographic_questions :=
     dict_setitem define_demographic_questions ''job_title''
       (job_title\<lparr>years_available := years_available job_title @ [2025]\<rparr>)\<rparr>"
  by (simp add: abs_schema_def abs_dict_def deref_values_def client_append_year_def Let_def
      constructed_store builder_entries UnifiedSchema_init_def py_defs upt_conv_Cons
      del: upt_Suc)

lemma catalogue_inv_constructed: "catalogue_inv (snd (UnifiedSchema_new empty_store))"
  using catalogue_inv_api_step [OF catalogue_inv_empty, of Construct] by simp

section \<open>Theorems\<close>

text \<open>
  C12. Immutability after construction: in every store a process can reach by calling the
  constructor and the queries, in any order and on any of its schema objects, all
  references are valid and every schema object denotes the catalogue as it was
  constructed.
\<close>

theorem reachable_catalogue_inv: "reachable s \<Longrightarrow> catalogue_inv s"
  by (induction rule: reachable.induct) (simp_all add: catalogue_inv_api_step)

theorem reachable_catalogue_inv_witness:
  "catalogue_inv
     (run [Construct, GetAll 0, Construct, ByYear 1 2024, CoreTrend 0, Longitudinal 1 2]
        empty_store)"
  by (rule reachable_catalogue_inv, rule reachable_run [OF reachable.initial])
    simp

text \<open>
  C13. In a store that satisfies the invariant of a process, every call returns the value
  the specification of the interface gives for it (the constructed catalogue, or the
  result of the query on the constructed catalogue) and leaves a store that satisfies
  the invariant again.
\<close>

theorem api_call_returns_spec:
  assumes "catalogue_inv s" and "call_ok s c"
  shows "result_value (snd (api_step c s)) (fst (api_step c s)) = api_spec c \<and>
         catalogue_inv (snd (api_step c s))"
  unfolding result_value_api_step
  using assms catalogue_inv_api_step [OF assms]
  by (cases c) (simp_all add: catalogue_inv_iff)

theorem api_call_returns_spec_witness:
  "result_value (snd (api_step (ByYear 0 2024) (snd (UnifiedSchema_new empty_store))))
     (fst (api_step (ByYear 0 2024) (snd (UnifiedSchema_new empty_store)))) =
     api_spec (ByYear 0 2024) \<and>
   catalogue_inv (snd (api_step (ByYear 0 2024) (snd (UnifiedSchema_new empty_store))))"
  by (rule api_call_returns_spec [OF catalogue_inv_constructed]) simp

text \<open>
  C14. Idempotence: in a well-formed store, a call repeated after any sequence of other
  calls returns a value structurally equal to the one it returned the first time, and
  the object returned the first time still denotes that value.
\<close>

theorem query_idempotent:
  assumes "wf_store s" and "call_ok s c" and "calls_ok (snd (api_step c s)) cs"
  shows "(let (r1, s1) = api_step c s;
              s2 = run cs s1;
              (r2, s3) = api_step c s2
          in result_value s3 r2 = result_value s1 r1 \<and> result_value s3 r1 = result_value s1 r1)"
proof -
  let ?s1 = "snd (api_step c s)"
  let ?s2 = "run cs ?s1"
  let ?s3 = "snd (api_step c ?s2)"
  have wf1: "wf_store ?s1"
    using assms(1,2) by (rule wf_store_api_step)
  have e02: "extends s ?s2"
    using extends_api_step extends_run by (rule extends_trans)
  have e13: "extends ?s1 ?s3"
    using extends_run extends_api_step by (rule extends_trans)
  have "result_value ?s3 (fst (api_step c ?s2)) = result_value ?s1 (fst (api_step c s))"
    using assms(1) e02 assms(2) by (rule result_value_extends)
  moreover have "result_value ?s3 (fst (api_step c s)) = result_value ?s1 (fst (api_step c s))"
    using wf1 e13 ref_ok_api_step by (rule result_value_ref_extends)
  ultimately show ?thesis
    by (simp add: case_prod_unfold)
qed

theorem query_idempotent_witness:
  "(let (r1, s1) = api_step (ByYear 0 2024) (snd (UnifiedSchema_new empty_store));
        s2 = run [Construct, GetAll 1] s1;
        (r2, s3) = api_step (ByYear 0 2024) s2
    in result_value s3 r2 = result_value s1 r1 \<and> result_value s3 r1 = result_value s1 r1)"
  by (rule query_idempotent)
    (simp_all add: wf_store_UnifiedSchema_new)

text \<open>
  C23. The dict a query returns is a new object: a consumer that assigns into it changes
  no catalogue, whichever schema object of the store one looks at.
\<close>

theorem returned_dict_is_fresh:
  assumes "wf_store s" and "call_ok s c" and "fst (api_step c s) = DictRef r"
    and "self < length (schema_objs s)"
  shows "abs_schema (client_setitem (snd (api_step c s)) r k a) self = abs_schema s self"
  using assms(1,4) allocates_dicts_api_step result_ref_new [OF assms(3)]
  by (intro abs_schema_client_setitem) simp_all

theorem returned_dict_is_fresh_witness:
  "abs_schema
     (client_setitem (snd (api_step (GetAll 0) (snd (UnifiedSchema_new empty_store)))) 4
        ''job_title'' 0) 0 =
   abs_schema (snd (UnifiedSchema_new empty_store)) 0"
  by (rule returned_dict_is_fresh)
    (simp_all add: wf_store_UnifiedSchema_new constructed_store)

text \<open>
  C22. The question objects are shared: the dicts the queries return refer to the
  question objects of the catalogue itself.  A consumer that takes the object stored
  under \<^verbatim>\<open>job_title\<close> in the result of \<^verbatim>\<open>get_all_questions\<close> and appends the year 2025 to
  its \<^verbatim>\<open>years_available\<close> has changed the catalogue: \<^verbatim>\<open>get_questions_by_year(2025)\<close> on
  the same schema object now returns that question, where the constructed catalogue has
  no question for 2025.
\<close>

theorem question_objects_shared:
  "(let (self, s1) = UnifiedSchema_new empty_store;
        (r, s2) = get_all_questions_h s1 self
    in case dict_getitem (dict_objs s2 ! r) ''job_title'' of
         Inl e \<Rightarrow> False
       | Inr a \<Rightarrow>
           (let s3 = client_append_year s2 a 2025;
                (r', s4) = get_questions_by_year_h s3 self 2025
            in keys_of (abs_dict s4 r') = [''job_title''] \<and>
               get_questions_by_year UnifiedSchema_init 2025 = dict_empty \<and>
               abs_schema s3 self \<noteq> UnifiedSchema_init))"
proof -
  let ?edited = "UnifiedSchema_init\<lparr>demographic_questions :=
     dict_setitem define_demographic_questions ''job_title''
       (job_title\<lparr>years_available := years_available job_title @ [2025]\<rparr>)\<rparr>"
  have "unique_ids ?edited"
    by (simp add: unique_ids_def all_question_ids_def builder_entries py_defs)
  then have by_year: "keys_of (get_questions_by_year ?edited 2025) = [''job_title'']"
    by (simp add: get_questions_by_year_filter get_all_questions_unique builder_entries py_defs)
  have none: "get_questions_by_year UnifiedSchema_init 2025 = dict_empty"
    by (simp add: get_questions_by_year_filter get_all_questions_init builder_entries py_defs)
  have changed: "?edited \<noteq> UnifiedSchema_init"
    by (simp add: UnifiedSchema_init_def builder_entries py_defs job_title_def)
  show ?thesis
    using by_year none changed
    by (simp add: case_prod_unfold Let_def job_title_ref abs_schema_edited
        abs_get_questions_by_year_h [simplified])
qed

end
