(* ===== verification/Sharing.thy ===== *)
theory Sharing
  imports Session Harmonize
begin

text \<open>
  \<^verbatim>\<open>create_harmonized_column_mapping\<close> on the object store.  The function builds a
  schema object of its own and returns a new dict whose values are the
  \<^verbatim>\<open>column_mappings\<close> dicts of that schema's question objects: references, not copies.
  The dict \<^verbatim>\<open>column_mappings\<close> of a question object is created with the object and the
  module never replaces it, so a reference to it is represented by the reference to the
  question object that owns it (\<open>column_mappings_ref\<close>).

  The lemmas show that the dict returned denotes the value of theory \<open>Harmonize\<close>, and
  that it shares nothing with the catalogues the caller holds: an edit of a column
  mapping reached through the result shows in the result and changes no schema object
  that existed before the call.
\<close>

section \<open>Operation\<close>

type_synonym cref = qref

definition column_mappings_ref :: "qref \<Rightarrow> cref" where
  "column_mappings_ref question = question"

definition create_harmonized_column_mapping_h :: "store \<Rightarrow> dref \<times> store" where
  "create_harmonized_column_mapping_h s =
     (let (schema, s) = UnifiedSchema_new s;
          mapping = dict_empty;
          (all_questions, s) = get_all_questions_h s schema;
          mapping = fold (\<lambda>(qid, question) mapping.
                            dict_setitem mapping qid (column_mappings_ref question))
                      (dict_items (dict_objs s ! all_questions)) mapping
      in new_dict mapping s)"

section \<open>What the result denotes, and an edit through it\<close>

definition abs_columns :: "store \<Rightarrow> dref \<Rightarrow> (string, (int, string) pydict) pydict" where
  "abs_columns s r =
     dict_map_values (\<lambda>c. column_mappings (question_objs s ! c)) (dict_objs s ! r)"

definition client_set_column :: "store \<Rightarrow> cref \<Rightarrow> int \<Rightarrow> string \<Rightarrow> store" where
  "client_set_column s c year col =
     s\<lparr>question_objs := (question_objs s)
          [c := (question_objs s ! c)
                  \<lparr>column_mappings := dict_setitem (column_mappings (question_objs s ! c)) year col\<rparr>]\<rparr>"

section \<open>The store after a construction\<close>

lemma question_objs_UnifiedSchema_new:
  "question_objs (snd (UnifiedSchema_new s)) =
     question_objs s @ map snd (get_all_questions UnifiedSchema_init)"
  by (simp add: UnifiedSchema_new_unfold Let_def get_all_questions_init)

lemma merged_refs_UnifiedSchema_new:
  "merged_refs (snd (UnifiedSchema_new s)) (length (schema_objs s)) =
     zip (keys_of (get_all_questions UnifiedSchema_init))
       [length (question_objs s) ..< length (question_objs s) + 18]"
  by (simp add: merged_refs_def Let_def UnifiedSchema_new_unfold dict_objs_build_category
      get_all_questions_init builder_entries py_defs nth_append upt_conv_Cons
      del: build_category_simps(3) new_questions.simps upt_Suc)

lemma wf_merged_refs_new [simp]:
  "wf_dict (merged_refs (snd (UnifiedSchema_new s)) (length (schema_objs s)))"
  by (simp add: merged_refs_def Let_def)

lemma fresh_refs:
  assumes "(qid, c) \<in> set (merged_refs (snd (UnifiedSchema_new s)) (length (schema_objs s)))"
  shows "length (question_objs s) \<le> c"
    and "c < length (question_objs (snd (UnifiedSchema_new s)))"
  using set_zip_rightD [OF assms [unfolded merged_refs_UnifiedSchema_new]]
  by (simp_all add: question_objs_UnifiedSchema_new get_all_questions_init builder_entries)

section \<open>The result of the operation\<close>

lemma create_harmonized_column_mapping_h_unfold:
  "create_harmonized_column_mapping_h s =
     new_dict (merged_refs (snd (UnifiedSchema_new s)) (length (schema_objs s)))
       (snd (get_all_questions_h (snd (UnifiedSchema_new s)) (length (schema_objs s))))"
  using fold_setitem_map_values [of
      "merged_refs (snd (UnifiedSchema_new s)) (length (schema_objs s))" "[]" column_mappings_ref]
  by (simp add: create_harmonized_column_mapping_h_def case_prod_unfold Let_def dict_items_def
      dict_empty_def column_mappings_ref_def [abs_def] dict_map_values_def)

lemma create_harmonized_column_mapping_h_simps [simp]:
  "question_objs (snd (create_harmonized_column_mapping_h s)) =
     question_objs (snd (UnifiedSchema_new s))"
  "schema_objs (snd (create_harmonized_column_mapping_h s)) =
     schema_objs (snd (UnifiedSchema_new s))"
  "dict_objs (snd (create_harmonized_column_mapping_h s)) ! fst (create_harmonized_column_mapping_h s) =
     merged_refs (snd (UnifiedSchema_new s)) (length (schema_objs s))"
  by (simp_all add: create_harmonized_column_mapping_h_unfold nth_append)

lemma extends_create_harmonized_column_mapping_h [simp]:
  "extends s (snd (create_harmonized_column_mapping_h s))"
proof -
  have "extends s (snd (UnifiedSchema_new s))"
    by simp
  also have "extends (snd (UnifiedSchema_new s))
      (snd (get_all_questions_h (snd (UnifiedSchema_new s)) (length (schema_objs s))))"
    by (simp add: allocates_dicts_extends allocates_dicts_queries)
  also have "extends \<dots> (snd (create_harmonized_column_mapping_h s))"
    by (simp add: create_harmonized_column_mapping_h_unfold)
  finally show ?thesis .
qed

section \<open>An edit of a fresh question object\<close>

lemma abs_schema_edit_fresh:
  assumes "wf_store s" and "extends s s'" and "self < length (schema_objs s)"
    and "length (question_objs s) \<le> c"
  shows "abs_schema (client_set_column s' c year col) self = abs_schema s self"
proof -
  let ?s = "client_set_column s' c year col"
  have kept: "abs_dict ?s d = abs_dict s d" if "d < length (dict_objs s)" for d
  proof -
    have "deref_values ?s (dict_objs s ! d) = deref_values s' (dict_objs s ! d)"
      unfolding deref_values_def
    proof (rule dict_map_values_cong)
      fix k a assume "(k, a) \<in> set (dict_objs s ! d)"
      with wf_ref_dictD [OF wf_store_dict [OF assms(1) that]] assms(4) have "a \<noteq> c"
        by fastforce
      then show "question_objs ?s ! a = question_objs s' ! a"
        by (simp add: client_set_column_def)
    qed
    with abs_dict_extends [OF assms(1,2) that] that show ?thesis
      by (simp add: abs_dict_def client_set_column_def extends_nth(2) [OF assms(2)])
  qed
  have "schema_objs ?s ! self = schema_objs s ! self"
    using assms(3) by (simp add: client_set_column_def extends_nth(3) [OF assms(2)])
  with wf_store_schema [OF assms(1,3)] show ?thesis
    by (simp add: abs_schema_def Let_def kept wf_schema_obj_def)
qed

section \<open>Theorems\<close>

text \<open>
  C25. On the object store \<^verbatim>\<open>create_harmonized_column_mapping\<close> returns a dict that
  denotes the mapping computed on values: every question id of a newly built catalogue
  with the column mapping of its question, in every store.
\<close>

theorem harmonized_mapping_refines:
  "abs_columns (snd (create_harmonized_column_mapping_h s))
     (fst (create_harmonized_column_mapping_h s)) = create_harmonized_column_mapping"
proof -
  let ?s1 = "snd (UnifiedSchema_new s)"
  have "dict_map_values (\<lambda>c. column_mappings (question_objs ?s1 ! c))
      (merged_refs ?s1 (length (schema_objs s))) =
      dict_map_values column_mappings (deref_values ?s1 (merged_refs ?s1 (length (schema_objs s))))"
    by (simp add: deref_values_def dict_map_values_def case_prod_unfold comp_def)
  also have "\<dots> = project_columns (get_all_questions (abs_schema ?s1 (fst (UnifiedSchema_new s))))"
    by (simp add: deref_merged_refs project_columns_def dict_map_values_def)
  also have "\<dots> = create_harmonized_column_mapping"
    by (simp only: abs_UnifiedSchema_new create_harmonized_column_mapping_project)
  finally show ?thesis
    by (simp add: abs_columns_def)
qed

text \<open>
  C24. The dict of \<^verbatim>\<open>create_harmonized_column_mapping\<close> shares nothing with the
  catalogues of the caller.  Its values are the column mappings of question objects built
  during the call, so when a consumer assigns a column for a year to one of them, the
  change shows under that question id in the returned dict and every schema object that
  existed before the call denotes what it denoted.
\<close>

theorem harmonized_mapping_shares_nothing:
  assumes "wf_store s" and "self < length (schema_objs s)"
    and "(qid, c) \<in> set (dict_objs (snd (create_harmonized_column_mapping_h s)) !
            fst (create_harmonized_column_mapping_h s))"
  shows "abs_schema (client_set_column (snd (create_harmonized_column_mapping_h s)) c year col)
           self = abs_schema s self \<and>
         dict_abs
           (abs_columns (client_set_column (snd (create_harmonized_column_mapping_h s)) c year col)
              (fst (create_harmonized_column_mapping_h s))) qid =
           Some (dict_setitem
                   (column_mappings (question_objs (snd (create_harmonized_column_mapping_h s)) ! c))
                   year col)"
proof -
  let ?s' = "snd (create_harmonized_column_mapping_h s)"
  let ?r = "fst (create_harmonized_column_mapping_h s)"
  from assms(3) have mem: "(qid, c) \<in> set (merged_refs (snd (UnifiedSchema_new s))
      (length (schema_objs s)))"
    by simp
  note fresh = fresh_refs [OF mem]
  have "abs_schema (client_set_column ?s' c year col) self = abs_schema s self"
    using assms(1) extends_create_harmonized_column_mapping_h assms(2) fresh(1)
    by (rule abs_schema_edit_fresh)
  moreover have "dict_abs (dict_objs ?s' ! ?r) qid = Some c"
    using mem by (simp add: dict_abs_Some_iff)
  then have "dict_abs (abs_columns (client_set_column ?s' c year col) ?r) qid =
      Some (dict_setitem (column_mappings (question_objs ?s' ! c)) year col)"
    using fresh(2)
    by (simp add: abs_columns_def dict_abs_map_values client_set_column_def)
  ultimately show ?thesis ..
qed

theorem harmonized_mapping_shares_nothing_witness:
  "abs_schema
     (client_set_column
        (snd (create_harmonized_column_mapping_h (snd (UnifiedSchema_new empty_store))))
        25 2025 ''Q1'') 0 =
   abs_schema (snd (UnifiedSchema_new empty_store)) 0 \<and>
   dict_abs
     (abs_columns
        (client_set_column
           (snd (create_harmonized_column_mapping_h (snd (UnifiedSchema_new empty_store))))
           25 2025 ''Q1'')
        (fst (create_harmonized_column_mapping_h (snd (UnifiedSchema_new empty_store)))))
     ''job_title'' =
   Some (dict_setitem
           (column_mappings
              (question_objs
                 (snd (create_harmonized_column_mapping_h (snd (UnifiedSchema_new empty_store)))) !
               25))
           2025 ''Q1'')"
proof (rule harmonized_mapping_shares_nothing)
  show "wf_store (snd (UnifiedSchema_new empty_store))"
    by (simp add: wf_store_UnifiedSchema_new)
  show "0 < length (schema_objs (snd (UnifiedSchema_new empty_store)))"
    by simp
  show "(''job_title'', 25) \<in> set
      (dict_objs (snd (create_harmonized_column_mapping_h (snd (UnifiedSchema_new empty_store)))) !
       fst (create_harmonized_column_mapping_h (snd (UnifiedSchema_new empty_store))))"
    using merged_refs_UnifiedSchema_new [of "snd (UnifiedSchema_new empty_store)"]
    by (simp add: question_objs_UnifiedSchema_new get_all_questions_init builder_entries
        upt_conv_Cons del: upt_Suc)
qed

end
