(* ===== verification/Spec2Isabelle.thy ===== *)
theory Spec2Isabelle
  imports Demo Sharing
begin

text \<open>
  \<^bold>\<open>A verification development for the unified survey schema.\<close>

  The program is the Python module \<^verbatim>\<open>src/unified_data_schema.py\<close>: a catalogue of
  survey questions (for each question concept its wording, response scale, the survey
  years it was asked in and the source column of each year), four read-only queries over
  the catalogue, and two utilities for harmonizing data across years.  The module keeps
  no state beyond the catalogue it builds, performs no input or output apart from the
  demonstration at its end, and never mutates a catalogue after building it.

  The development has two levels.  On the level of values a dict is the list of its
  entries and a question is a record; all theories but \<open>Store\<close>, \<open>Session\<close> and
  \<open>Sharing\<close> work there.  On the level of objects a dict holds references into a store;
  these three theories give the same operations on the store and show that they compute
  what the operations on values compute.

  \<^bold>\<open>Parts of the program and the theories that model them.\<close>

  \<^item> The Python built-ins the module calls.  Theory \<open>PyList\<close> models \<^verbatim>\<open>in\<close>,
    \<^verbatim>\<open>len\<close>, \<^verbatim>\<open>list.index\<close> and the list subscript, with \<^verbatim>\<open>ValueError\<close> and
    \<^verbatim>\<open>IndexError\<close> as values of \<open>py_error + 'a\<close>.  The third exception of
    \<open>py_error\<close>, \<^verbatim>\<open>KeyError\<close>, is that of the dict subscript; the module never
    evaluates one, its consumers do on the results.  Theory \<open>PyDict\<close> models the
    insertion-ordered \<^verbatim>\<open>dict\<close> as an association list with distinct keys: the display,
    item assignment, \<^verbatim>\<open>update\<close>, \<^verbatim>\<open>items\<close>, \<^verbatim>\<open>len\<close>, the subscript and the filtering
    comprehension.  Its lemmas show that every operation keeps the keys distinct, that the
    operations refine those of finite maps (\<open>dict_abs\<close>), and what the order of the
    entries of a result is.  Equality of lists is finer than Python's \<^verbatim>\<open>==\<close> on dicts,
    which ignores order; \<open>dict_eq\<close> is the coarser one.
  \<^item> The data model (classes \<^verbatim>\<open>QuestionType\<close>, \<^verbatim>\<open>ResponseScale\<close>,
    \<^verbatim>\<open>QuestionMapping\<close> and the fields of \<^verbatim>\<open>UnifiedSchema\<close>).  Theory \<open>DataModel\<close>:
    the enumerations are datatypes with a value function, the dataclass and the schema
    object are records.  Years and thresholds are \<open>int\<close>, as Python's integers are
    unbounded; strings are \<open>string\<close> and all literals of the module are ASCII.
  \<^item> The invariants the data model states but the code never checks.  Theory
    \<open>Validation\<close>: \<open>wf_schema\<close>, \<open>unique_ids\<close>, \<open>valid_question\<close>, \<open>valid_schema\<close>,
    and the conventions \<open>scale_fits_type\<close>, \<open>wildcard_convention\<close> and
    \<open>chronological\<close>.
  \<^item> The catalogue (methods \<^verbatim>\<open>_define_core_questions\<close>,
    \<^verbatim>\<open>_define_demographic_questions\<close>, \<^verbatim>\<open>_define_supplementary_questions\<close>,
    \<^verbatim>\<open>_define_historical_questions\<close> and \<^verbatim>\<open>__init__\<close>).  Theory \<open>Catalogue\<close>: one
    constant per \<^verbatim>\<open>QuestionMapping(...)\<close> expression, named after its question id, one
    constant per builder, and \<open>UnifiedSchema_init\<close>.  Its theorems show that the built
    schema is valid and follows the conventions.
  \<^item> The queries (methods \<^verbatim>\<open>get_all_questions\<close>, \<^verbatim>\<open>get_questions_by_year\<close>,
    \<^verbatim>\<open>get_longitudinal_questions\<close>, \<^verbatim>\<open>get_core_trend_questions\<close>).  Theory
    \<open>Queries\<close>: each method is a function of the schema object.  Its theorems hold for
    every schema object: the merge is a map union in which the later category wins, keys
    keep the position of their first insertion, the comprehensions are filters of the
    merge, thresholds behave monotonically, on a valid schema the number of years a
    question is reported for is the number the longitudinal query compares, and core
    trend questions are longitudinal when ids are unique (and are not when a later
    category reuses their id).
  \<^item> The utilities (functions \<^verbatim>\<open>harmonize_response_scale\<close> and
    \<^verbatim>\<open>create_harmonized_column_mapping\<close>).  Theory \<open>Harmonize\<close>: the first returns a
    \<open>py_result\<close> because its calls can raise in Python, and is shown never to raise and to
    equal the positional reference mapping \<open>harmonize_spec\<close>; the second is the loop of
    item assignments, shown to equal the projection of the merge to column mappings.
  \<^item> The objects behind the catalogue.  Theory \<open>Store\<close>: a store with the
    \<^verbatim>\<open>QuestionMapping\<close>, dict and \<^verbatim>\<open>UnifiedSchema\<close> objects of a process, a reference
    being the position of an object in the list of its class.  \<open>UnifiedSchema_new\<close> is
    the constructor call (the builders allocate one question object per entry and one
    dict per category, \<^verbatim>\<open>__init__\<close> the schema object), and
    \<open>get_all_questions_h\<close>, \<open>get_questions_by_year_h\<close>,
    \<open>get_longitudinal_questions_h\<close> and \<open>get_core_trend_questions_h\<close> are the queries:
    each allocates the dict it returns, whose values are references to the question
    objects of the catalogue.  The abstraction functions \<open>abs_dict\<close> and \<open>abs_schema\<close>
    read the value an object denotes; the lemmas show that the operations only allocate
    (\<open>extends\<close>, \<open>allocates_dicts\<close>), keep every reference valid (\<open>wf_store\<close>) and refine
    the operations on values.
  \<^item> The module as seen by a consumer.  Theory \<open>Session\<close>: a call of the constructor
    or of a query is a value of the datatype \<open>api_call\<close>, \<open>api_step\<close> runs a call on
    the store, and the inductive predicate \<open>reachable\<close> describes the stores a process
    can be in, starting from the empty store.  By induction over \<open>reachable\<close> every
    schema object of a process denotes the constructed catalogue (\<open>catalogue_inv\<close>), so
    every call returns what \<open>api_spec\<close> says, and repeating a call gives an equal
    result.  \<open>client_setitem\<close> and \<open>client_append_year\<close> are edits a consumer can make
    through the references it was given; they are not operations of the module, and the
    last two theorems of the theory say which of them reach the catalogue.
  \<^item> The column mapping on the store.  Theory \<open>Sharing\<close>:
    \<open>create_harmonized_column_mapping_h\<close> is \<^verbatim>\<open>create_harmonized_column_mapping\<close> with
    the references it stores.  A reference to the \<^verbatim>\<open>column_mappings\<close> dict of a question
    is represented by the reference to the question object that owns it.  The theorems
    show that the result denotes the mapping of theory \<open>Harmonize\<close> and that it refers
    only to objects built during the call, so an edit through it reaches no catalogue
    of the caller.
  \<^item> The demonstration (the block under \<^verbatim>\<open>if __name__ == "__main__"\<close>).  Theory
    \<open>PyStr\<close> models what its f-strings and \<^verbatim>\<open>print\<close> calls rely on: \<^verbatim>\<open>str\<close> of an
    integer and of a list of integers, and \<^verbatim>\<open>print\<close> as appending a line to the
    standard output, which is the string written so far.  Theory
    \<open>Demo\<close> has the block as the function \<open>main\<close> from the output so far to the output
    after it, and the exact text it prints.
  \<^item> This theory states what spans the components: the results of the queries and of the
    column mapping on the constructed catalogue, which are the observable behaviour of
    the module.

  \<^bold>\<open>Termination, bounds and fuel.\<close>  The module has no unbounded loop: its loops iterate
  over finite lists, so every function of the model is primitive recursive or a
  \<open>fold\<close>, no fuel is used and every operation is total.  No integer of the module can
  overflow.  The store never removes an object, since no operation of the module can
  make a reference dangle; a read through a reference is \<open>xs ! r\<close>, which is only
  meaningful for a valid reference, and \<open>wf_store\<close> is the invariant that says all
  references are valid.  The theorems that read through references of the store assume
  it or hold in reachable stores, where it is proved.

  \<^bold>\<open>Not modelled.\<close>  The guard \<^verbatim>\<open>__name__ == "__main__"\<close> itself (\<open>main\<close> is the
  block run as a script; on import the block does nothing), and the encoding and
  buffering of the standard output.  The fields
  \<^verbatim>\<open>question_text\<close>, \<^verbatim>\<open>response_scale\<close> and \<^verbatim>\<open>notes\<close> are part of every record but
  no operation of the module reads them, so no theorem other than \<open>likert_scale_sizes\<close>
  depends on them.  In the store a question object holds its fields as a value: the list
  \<^verbatim>\<open>years_available\<close> and the dict \<^verbatim>\<open>column_mappings\<close> inside it are not objects of
  their own, and the lists of \<^verbatim>\<open>ResponseScale\<close>, which all questions with the same scale
  share, are values too.  Garbage collection is not modelled: the dict that
  \<^verbatim>\<open>get_questions_by_year\<close> obtains from \<^verbatim>\<open>get_all_questions\<close> and the schema that
  \<^verbatim>\<open>create_harmonized_column_mapping\<close> builds stay in the store.

  \<^bold>\<open>Where the model says more than the code.\<close>  \<open>survey_years\<close> is the list of
  years the specification gives (2017, 2019, 2021 to 2024); the module only names the
  range 2017 to 2024 in its docstring.  \<open>likert_points\<close> translates the comments at the
  members of \<^verbatim>\<open>QuestionType\<close>.  \<open>chronological\<close> is a convention the literals of the
  catalogue follow; neither the specification nor an operation of the module depends
  on the order of \<^verbatim>\<open>years_available\<close>.  \<open>list_getitem\<close> also covers negative
  indices, which the module never passes.
\<close>

section \<open>Shared facts about the constructed catalogue\<close>

lemma valid_schema_init: "valid_schema UnifiedSchema_init"
  by (simp add: valid_init)

lemma all_entries_init:
  "get_all_questions UnifiedSchema_init =
     [(''open_access_attitude'', open_access_attitude),
      (''open_data_attitude'', open_data_attitude),
      (''open_peer_review_attitude'', open_peer_review_attitude),
      (''preprinting_attitude'', preprinting_attitude),
      (''data_sharing_frequency'', data_sharing_frequency),
      (''credit_for_sharing'', credit_for_sharing),
      (''fair_principles_awareness'', fair_principles_awareness),
      (''job_title'', job_title), (''research_area'', research_area),
      (''publication_history'', publication_history),
      (''organization_type'', organization_type),
      (''funder_mandate_support'', funder_mandate_support),
      (''national_mandate_support'', national_mandate_support),
      (''care_principles_awareness'', care_principles_awareness),
      (''data_sharing_motivations'', data_sharing_motivations),
      (''data_sharing_effort'', data_sharing_effort),
      (''data_ownership_before_pub'', data_ownership_before_pub),
      (''data_ownership_after_pub'', data_ownership_after_pub)]"
  by (simp add: get_all_questions_init builder_entries)

lemmas by_year_init = get_questions_by_year_filter all_entries_init
lemmas longitudinal_init = get_longitudinal_questions_filter all_entries_init

lemma harmonized_lookup:
  assumes "(qid, q) \<in> set (get_all_questions UnifiedSchema_init)"
  shows "dict_getitem create_harmonized_column_mapping qid = Inr (column_mappings q)"
proof -
  from assms have "dict_abs (get_all_questions UnifiedSchema_init) qid = Some q"
    by (simp add: dict_abs_Some_iff)
  then show ?thesis
    by (simp add: dict_getitem_abs create_harmonized_column_mapping_project
        dict_abs_project_columns)
qed

section \<open>Questions by year\<close>

text \<open>
  For the year 2024 the constructed schema reports eight questions: the four
  attitude questions of the core category and the four demographic questions, in the
  order of the catalogue.
\<close>

lemma questions_available_2024:
  "get_questions_by_year UnifiedSchema_init 2024 =
     [(''open_access_attitude'', open_access_attitude),
      (''open_data_attitude'', open_data_attitude),
      (''open_peer_review_attitude'', open_peer_review_attitude),
      (''preprinting_attitude'', preprinting_attitude),
      (''job_title'', job_title), (''research_area'', research_area),
      (''publication_history'', publication_history),
      (''organization_type'', organization_type)]"
  by (simp add: by_year_init)

text \<open>
  The number of questions the constructed schema reports for the survey years 2017,
  2019, 2021, 2022, 2023 and 2024 is 6, 4, 4, 11, 9 and 8.
\<close>

lemma questions_per_survey_year:
  "map (\<lambda>year. dict_len (get_questions_by_year UnifiedSchema_init year)) survey_years =
     [6, 4, 4, 11, 9, 8]"
  by (simp add: by_year_init survey_years_def)

text \<open>
  C33. On a valid schema \<^verbatim>\<open>get_questions_by_year\<close> returns the empty dict for every
  year in which the survey did not run, such as 2020.
\<close>

theorem no_questions_outside_survey_years:
  assumes "valid_schema s" and "year \<notin> set survey_years"
  shows "get_questions_by_year s year = dict_empty"
proof -
  have "year \<notin> set (years_available q)" if "(qid, q) \<in> set (get_all_questions s)" for qid q
  proof -
    from assms(1) that have "valid_question qid q"
      by (blast intro: valid_questions_mem valid_get_all_questions)
    with assms(2) show ?thesis
      by (auto simp: valid_question_def)
  qed
  then show ?thesis
    by (auto simp: get_questions_by_year_filter filter_eq_Nil_iff dict_empty_def)
qed

theorem no_questions_outside_survey_years_witness:
  "valid_schema UnifiedSchema_init \<and> 2020 \<notin> set survey_years \<and>
   get_questions_by_year UnifiedSchema_init 2020 = []"
proof -
  have y: "2020 \<notin> set survey_years"
    by (simp add: survey_years_def)
  from no_questions_outside_survey_years [OF valid_schema_init y] valid_schema_init y
  show ?thesis
    by (simp add: dict_empty_def)
qed

section \<open>Longitudinal and core trend questions\<close>

text \<open>
  Called without argument, \<^verbatim>\<open>get_longitudinal_questions\<close> returns the ten questions
  of the constructed schema that were asked in two or more years: six core and four
  demographic questions.
\<close>

lemma longitudinal_default_questions:
  "keys_of (get_longitudinal_questions_default UnifiedSchema_init) =
     [''open_access_attitude'', ''open_data_attitude'', ''open_peer_review_attitude'',
      ''preprinting_attitude'', ''credit_for_sharing'', ''fair_principles_awareness'',
      ''job_title'', ''research_area'', ''publication_history'', ''organization_type'']"
  by (simp add: get_longitudinal_questions_default_def longitudinal_init)

text \<open>
  For the thresholds 1 to 6, \<^verbatim>\<open>get_longitudinal_questions\<close> returns 18, 10, 8, 5, 1
  and 0 questions of the constructed schema: threshold 1 returns every question and a
  threshold above the longest span of five years returns none.
\<close>

lemma longitudinal_threshold_counts:
  "map (\<lambda>k. dict_len (get_longitudinal_questions UnifiedSchema_init k)) [1, 2, 3, 4, 5, 6] =
     [18, 10, 8, 5, 1, 0]"
  by (simp add: longitudinal_init)

text \<open>
  C34. The questions of the constructed schema that span three or more years but are not
  core trend questions are exactly the four demographic questions: \<^verbatim>\<open>job_title\<close> with
  its five years is excluded because it is not in the core category.
\<close>

theorem demographic_excluded_from_core_trend:
  "set (get_longitudinal_questions UnifiedSchema_init 3)
     - set (get_core_trend_questions UnifiedSchema_init) =
   {(''job_title'', job_title), (''research_area'', research_area),
    (''publication_history'', publication_history),
    (''organization_type'', organization_type)}"
proof -
  have "wf_dict (core_questions UnifiedSchema_init)"
    using wf_schema_init by (simp add: wf_schema_def)
  then have "get_core_trend_questions UnifiedSchema_init =
      filter (\<lambda>(qid, q). 3 \<le> span q) define_core_questions"
    by (simp add: get_core_trend_questions_filter)
  then show ?thesis
    by (simp add: longitudinal_init builder_entries)
qed

section \<open>The harmonized column mapping\<close>

text \<open>
  \<^verbatim>\<open>create_harmonized_column_mapping()["open_access_attitude"]\<close> is the dict with the
  entries 2021: Q2.7_1, 2022: Q2.11_1, 2023: Q2.10.a and 2024: Q12_1, in this order.
\<close>

lemma harmonized_open_access_attitude:
  "dict_getitem create_harmonized_column_mapping ''open_access_attitude'' =
     Inr [(2021, ''Q2.7_1''), (2022, ''Q2.11_1''), (2023, ''Q2.10.a''), (2024, ''Q12_1'')]"
  by (simp add: harmonized_lookup all_entries_init)

text \<open>
  C15. For every question of the constructed schema the harmonized column mapping holds
  that question's column mapping, and the question is reported for a year by
  \<^verbatim>\<open>get_questions_by_year\<close> if and only if this mapping has a column for that year: a
  consumer that looks up the column of a reported question never meets a missing key.
\<close>

theorem harmonized_column_for_reported_question:
  assumes "(qid, q) \<in> set (get_all_questions UnifiedSchema_init)"
  shows "dict_getitem create_harmonized_column_mapping qid = Inr (column_mappings q) \<and>
         ((qid, q) \<in> set (get_questions_by_year UnifiedSchema_init year) \<longleftrightarrow>
            (\<exists>col. dict_getitem (column_mappings q) year = Inr col))"
proof -
  from assms have valid: "valid_question qid q"
    using valid_get_all_questions [OF valid_schema_init] by (rule valid_questions_mem [rotated])
  from valid have "(\<exists>col. dict_getitem (column_mappings q) year = Inr col)
      \<longleftrightarrow> year \<in> set (years_available q)"
    by (rule valid_question_column_iff)
  with assms show ?thesis
    by (simp add: harmonized_lookup get_questions_by_year_filter)
qed

theorem harmonized_column_for_reported_question_witness:
  "(''job_title'', job_title) \<in> set (get_all_questions UnifiedSchema_init) \<and>
   (''job_title'', job_title) \<in> set (get_questions_by_year UnifiedSchema_init 2019) \<and>
   dict_getitem (column_mappings job_title) 2019 = Inr ''Q6.5'' \<and>
   (''job_title'', job_title) \<notin> set (get_questions_by_year UnifiedSchema_init 2021) \<and>
   dict_getitem (column_mappings job_title) 2021 = Inl KeyError"
proof -
  have mem: "(''job_title'', job_title) \<in> set (get_all_questions UnifiedSchema_init)"
    by (simp add: all_entries_init)
  from harmonized_column_for_reported_question [OF mem, of 2019]
    harmonized_column_for_reported_question [OF mem, of 2021] mem
  show ?thesis
    by (simp add: dict_getitem_def by_year_init)
qed

end
